(* ===== verification/Prelude.thy ===== *)
theory Prelude
  imports Complex_Main
begin

text \<open>
  Shared vocabulary of the model of the portfolio client (src/src/pages/Index.tsx):
  the types that name JavaScript values, the JavaScript coercions the component relies
  on (truthiness of strings, the \<open>x || []\<close> default, the string conversion that
  \<open>localStorage.setItem\<close> applies to \<open>undefined\<close>), the theorem collections the
  component theories fill, and generic lemmas on lists, sets and maps that the
  component proofs share.
\<close>

named_theorems handler_defs "definitions of the client's handlers, unfolded by the functional lemmas"
named_theorems js_simps "evaluation rules of the JavaScript coercions used by the client"

subsection \<open>JavaScript values\<close>

text \<open>
  A JavaScript number used as a database id is an \<open>int\<close>: the code only compares ids,
  builds query strings from them and stores them, so no rounding or overflow occurs on
  the paths modelled. A price is a number parsed from decimal text; it is an exact
  rational here, with the overflow to \<open>Infinity\<close> of \<open>parseFloat\<close> but without the
  rounding of finite values to an IEEE double. The properties say which price text is
  sent and through which conversion, not its numeric value beyond small integers.
\<close>

type_synonym js_id = int
type_synonym js_number = rat

text \<open>\<open>window.localStorage\<close>: string keys to string values.\<close>

type_synonym storage = "string \<rightharpoonup> string"

text \<open>Truthiness of a string: the empty string is the only falsy string.\<close>

definition truthy :: "string \<Rightarrow> bool" where
  "truthy s \<longleftrightarrow> s \<noteq> []"

text \<open>Truthiness of a \<open>string | null\<close> (the result of \<open>getItem\<close>).\<close>

definition truthy_opt :: "string option \<Rightarrow> bool" where
  "truthy_opt v = (case v of None \<Rightarrow> False | Some s \<Rightarrow> truthy s)"

text \<open>\<open>x || []\<close> on an optional array: an absent field gives the empty list.\<close>

definition or_nil :: "'a list option \<Rightarrow> 'a list" where
  "or_nil v = (case v of None \<Rightarrow> [] | Some xs \<Rightarrow> xs)"

text \<open>
  \<open>String(v)\<close> for \<open>v : string | undefined\<close>, the conversion \<open>setItem\<close> applies
  to its value argument.
\<close>

definition js_to_string :: "string option \<Rightarrow> string" where
  "js_to_string v = (case v of None \<Rightarrow> ''undefined'' | Some s \<Rightarrow> s)"

lemma truthy_simps [simp, js_simps]:
  "truthy [] = False"
  "truthy (c # s) = True"
  by (simp_all add: truthy_def)

lemma truthy_opt_simps [simp, js_simps]:
  "truthy_opt None = False"
  "truthy_opt (Some s) = truthy s"
  by (simp_all add: truthy_opt_def)

lemma or_nil_simps [simp, js_simps]:
  "or_nil None = []"
  "or_nil (Some xs) = xs"
  by (simp_all add: or_nil_def)

lemma js_to_string_simps [simp, js_simps]:
  "js_to_string None = ''undefined''"
  "js_to_string (Some s) = s"
  by (simp_all add: js_to_string_def)

lemma truthy_opt_iff: "truthy_opt v \<longleftrightarrow> (\<exists>s. v = Some s \<and> s \<noteq> [])"
  by (cases v) (auto simp: truthy_def)

subsection \<open>Generic lemmas\<close>

text \<open>Maps: a removed key reads \<open>None\<close>, other keys are untouched.\<close>

lemma map_del_same [simp]: "(m(k := None)) k = None"
  by simp

lemma map_del_other [simp]: "k' \<noteq> k \<Longrightarrow> (m(k := None)) k' = m k'"
  by simp

text \<open>Membership in a set of ids after the two updates the favourites code performs.\<close>

lemma mem_insert_remove_same [simp]:
  "x \<in> insert x A" "x \<notin> A - {x}"
  by simp_all

text \<open>Appending a list at the end: what the lists of pending requests do.\<close>

lemma set_append_single [simp]: "set (xs @ [x]) = insert x (set xs)"
  by simp

lemma nth_append_length_single [simp]: "(xs @ [x]) ! length xs = x"
  by simp

text \<open>Fresh ids as the servers make them: one more than the largest id of a list is none
  of its ids.\<close>

lemma foldr_max_ge: "x \<in> set xs \<Longrightarrow> f x \<le> foldr (\<lambda>x m. max (f x) m) xs (m :: int)"
  by (induction xs) auto

lemma foldr_max_fresh: "foldr (\<lambda>x m. max (f x) m) xs (0 :: int) + 1 \<notin> f ` set xs"
  using foldr_max_ge[of _ xs f 0] by fastforce

text \<open>Looking up a list by a key the list holds at most once finds the element itself.\<close>

lemma find_distinct_key:
  "distinct (map f xs) \<Longrightarrow> x \<in> set xs \<Longrightarrow> find (\<lambda>y. f y = f x) xs = Some x"
  by (induction xs) (auto simp: image_iff)

end
