(* ===== verification/Model.thy ===== *)
theory Model
  imports Prelude
begin

text \<open>
  The data model of src/src/pages/Index.tsx: the \<open>User\<close> and \<open>Work\<close> interfaces
  (lines 20--37), the admin secret (line 39), the union types of the component state
  (lines 46, 48), the three forms (lines 55--57), and the notifications
  (\<open>toast\<close> calls) and console entries the handlers emit.

  Record fields are global constants in Isabelle, so the \<open>id\<close> fields of \<open>User\<close>
  and \<open>Work\<close> are named \<open>uid\<close> and \<open>wid\<close> (\<open>id\<close> is also the HOL identity);
  the form fields carry a prefix naming their form. An optional property
  (\<open>avatar_url?: string\<close>) is an \<open>option\<close>.
\<close>

record user =
  uid :: js_id
  username :: string
  nickname :: string
  avatar_url :: "string option"
  is_admin :: bool

record work =
  wid :: js_id
  user_id :: js_id
  title :: string
  description :: "string option"
  image_url :: string
  price :: "js_number option"
  created_at :: string
  author_nickname :: "string option"

text \<open>\<open>const ADMIN_PASSWORD = 'Nast8292jw'\<close>, the secret embedded in the client.\<close>

definition ADMIN_PASSWORD :: string where
  "ADMIN_PASSWORD = ''Nast8292jw''"

text \<open>\<open>'gallery' | 'favorites' | 'settings'\<close> and \<open>'login' | 'register'\<close>.\<close>

datatype view = Gallery | Favorites | Settings

datatype auth_mode = Login | Register

text \<open>The controlled forms: \<open>authForm\<close>, \<open>profileForm\<close>, \<open>workForm\<close>.\<close>

record auth_form =
  af_username :: string
  af_password :: string

record profile_form =
  pf_nickname :: string
  pf_password :: string
  pf_avatar :: string

record work_form =
  wf_title :: string
  wf_description :: string
  wf_price :: string
  wf_image :: string

text \<open>The cleared forms (initial state, lines 55--57, and the resets at 113, 214, 242).\<close>

definition empty_auth_form :: auth_form where
  "empty_auth_form = \<lparr>af_username = [], af_password = []\<rparr>"

definition empty_profile_form :: profile_form where
  "empty_profile_form = \<lparr>pf_nickname = [], pf_password = [], pf_avatar = []\<rparr>"

definition empty_work_form :: work_form where
  "empty_work_form = \<lparr>wf_title = [], wf_description = [], wf_price = [], wf_image = []\<rparr>"

text \<open>
  The notifications, one constructor per \<open>toast\<close> call of the source (the Russian
  titles are given in transliteration). \<open>AuthError\<close> carries the server's
  \<open>data.error\<close>, shown verbatim.
\<close>

datatype toast =
    Welcome            \<comment> \<open>line 115, login: "Dobro pozhalovat'!"\<close>
  | Registered         \<comment> \<open>line 115, register: "Registratsiya uspeshna!"\<close>
  | AuthError "string option" \<comment> \<open>line 117: "Oshibka", description \<open>data.error\<close>\<close>
  | RequestFailed      \<comment> \<open>line 120: "Ne udalos' vypolnit' zapros"\<close>
  | LoggedOut          \<comment> \<open>line 130\<close>
  | LoginRequired      \<comment> \<open>line 135\<close>
  | FavoriteFailed     \<comment> \<open>line 159\<close>
  | AdminActivated     \<comment> \<open>line 168\<close>
  | WrongAdminPassword \<comment> \<open>line 170\<close>
  | AccessDenied       \<comment> \<open>line 193\<close>
  | WorkPublished      \<comment> \<open>line 215\<close>
  | PublishFailed      \<comment> \<open>line 218\<close>
  | ProfileUpdated     \<comment> \<open>line 243\<close>
  | ProfileFailed      \<comment> \<open>line 246\<close>
  | AdminLeft          \<comment> \<open>line 461\<close>

text \<open>\<open>console.error\<close> entries of the two background loads (lines 82 and 94).\<close>

datatype console_entry = ErrorLoadingWorks | ErrorLoadingFavorites

text \<open>The two targets of \<open>handleImageUpload\<close> (line 174).\<close>

datatype upload_target = UploadWork | UploadAvatar

end
