(* ===== verification/Gateway.thy ===== *)
theory Gateway
  imports Model
begin

text \<open>
  The remote gateway (\<open>API_URLS\<close>, lines 13--18): the requests the client sends to the
  four resources, the reply a \<open>fetch\<close> produces, and the continuations, one per
  \<open>await\<close> site, that the client runs when a reply arrives.

  A request is what the code puts on the wire: the resource, the method and the fields
  of the query string or the JSON body. No request carries the session token (spec
  \<section>9): there is no field for it.

  A reply is the outcome of \<open>await fetch(...)\<close> followed, where the code does so, by
  \<open>await response.json()\<close>: \<open>NetworkError\<close> when \<open>fetch\<close> rejects, \<open>InvalidJson\<close>
  when the body is not JSON, and otherwise the body, projected onto the fields the
  client reads (\<open>data.success\<close>, \<open>data.user\<close>, \<open>data.token\<close>, \<open>data.error\<close>,
  \<open>data.works\<close>, \<open>data.favorites\<close>); an absent field is \<open>None\<close>.
\<close>

record profile_update =
  upd_user_id :: js_id
  upd_nickname :: "string option"
  upd_password :: "string option"
  upd_avatar_url :: "string option"

datatype request =
    AuthPost auth_mode string string
      \<comment> \<open>POST auth, body \<open>{action, username, password}\<close> (lines 101--105)\<close>
  | WorksGet
      \<comment> \<open>GET works (line 78)\<close>
  | WorksPost js_id string string string "js_number option"
      \<comment> \<open>POST works, body \<open>{user_id, title, description, image_data, price}\<close> (lines 198--208)\<close>
  | FavoritesGet js_id
      \<comment> \<open>GET favorites?user_id= (line 89)\<close>
  | FavoritesPost js_id js_id
      \<comment> \<open>POST favorites, body \<open>{user_id, work_id}\<close> (lines 150--154)\<close>
  | FavoritesDelete js_id js_id
      \<comment> \<open>DELETE favorites?user_id=&work_id= (line 143)\<close>
  | ProfilePut profile_update
      \<comment> \<open>PUT profile, body \<open>updates\<close> (lines 232--236)\<close>

record reply_body =
  r_success :: bool
  r_user :: "user option"
  r_token :: "string option"
  r_error :: "string option"
  r_works :: "work list option"
  r_favorites :: "work list option"

datatype reply = NetworkError | InvalidJson | Reply reply_body

text \<open>
  The continuations: the code after each \<open>await\<close>, with the values its closure
  captured when the handler ran. \<open>KToggle u f w\<close> is the rest of
  \<open>toggleFavorite(w)\<close> called while \<open>user = u\<close> and \<open>favoriteIds.has(w) = f\<close>;
  \<open>KAuth m\<close> the rest of \<open>handleAuth\<close> called with \<open>authMode = m\<close>.
\<close>

datatype cont =
    KLoadWorks        \<comment> \<open>lines 79--83\<close>
  | KLoadFavorites    \<comment> \<open>lines 90--95\<close>
  | KAuth auth_mode   \<comment> \<open>lines 106--121\<close>
  | KToggle user bool js_id \<comment> \<open>lines 144--160\<close>
  | KCreateWork       \<comment> \<open>lines 209--219\<close>
  | KUpdateProfile    \<comment> \<open>lines 237--247\<close>

text \<open>An empty body, the base of the replies written in witnesses.\<close>

definition empty_body :: reply_body where
  "empty_body = \<lparr>r_success = False, r_user = None, r_token = None, r_error = None,
                 r_works = None, r_favorites = None\<rparr>"

end
