(* ===== verification/Json.thy ===== *)
theory Json
  imports Model "HOL-Library.Monad_Syntax"
begin

text \<open>
  The JSON text format as the client uses it on the persisted session: line 110 and
  line 241 store \<open>JSON.stringify(data.user)\<close> under the key \<open>'user'\<close>, and line 63
  reads it back with \<open>JSON.parse(savedUser)\<close>. Both are built-ins of the JavaScript
  runtime, modelled here from the ECMAScript definition on the subset the client needs:
  \<^item> values: \<open>null\<close>, booleans, integer numbers, strings, arrays and objects
    (numbers with a fraction or an exponent are rejected by the model's parser; no
    value the client writes contains one);
  \<^item> \<open>print_json\<close> is \<open>JSON.stringify\<close> without indentation: strings are quoted
    with the escapes of QuoteJSONString (\<open>\"\<close>, \<open>\\\<close>, \<open>\b \f \n \r \t\<close>,
    \<open>\u00XX\<close> for the other control characters);
  \<^item> \<open>json_parse\<close> is \<open>JSON.parse\<close>: whitespace between tokens, all escapes
    (a \<open>\uXXXX\<close> escape above 255 is outside the byte model of characters and is
    rejected), raw control characters in strings rejected, duplicate keys resolved in
    favour of the last one; \<open>None\<close> is the \<open>SyntaxError\<close> the call throws.
  The parser is a family of functions that return the unread rest of the input; the
  nesting of arrays and objects is bounded by fuel, and the top level supplies
  \<open>2 * length s + 1\<close> units, which is enough since every call either consumes a
  character or moves from an array/object to one of its elements.
  The user record is written as an object with the fields of the \<open>User\<close> interface in
  declaration order, \<open>avatar_url\<close> omitted when absent, as \<open>JSON.stringify\<close> omits
  \<open>undefined\<close> properties.
\<close>

datatype json =
    JNull
  | JBool bool
  | JNum int
  | JStr string
  | JArr "json list"
  | JObj "(string \<times> json) list"

subsection \<open>Printing: \<open>JSON.stringify\<close>\<close>

definition hex_digit :: "nat \<Rightarrow> char" where
  "hex_digit n = (if n < 10 then char_of (48 + n) else char_of (87 + n))"

definition escape_char :: "char \<Rightarrow> string" where
  "escape_char c =
    (let n = (of_char c :: nat) in
     if n = 8 then [CHR 0x5C, CHR ''b'']
     else if n = 9 then [CHR 0x5C, CHR ''t'']
     else if n = 10 then [CHR 0x5C, CHR ''n'']
     else if n = 12 then [CHR 0x5C, CHR ''f'']
     else if n = 13 then [CHR 0x5C, CHR ''r'']
     else if n = 34 then [CHR 0x5C, CHR 0x22]
     else if n = 92 then [CHR 0x5C, CHR 0x5C]
     else if n < 32 then [CHR 0x5C, CHR ''u'', CHR ''0'', CHR ''0'', hex_digit (n div 16), hex_digit (n mod 16)]
     else [c])"

definition quote :: "string \<Rightarrow> string" where
  "quote s = CHR 0x22 # concat (map escape_char s) @ [CHR 0x22]"

fun show_nat :: "nat \<Rightarrow> string" where
  "show_nat n = (if n < 10 then [char_of (48 + n)] else show_nat (n div 10) @ [char_of (48 + n mod 10)])"

declare show_nat.simps [simp del]

definition show_int :: "int \<Rightarrow> string" where
  "show_int i = (if i < 0 then CHR ''-'' # show_nat (nat (- i)) else show_nat (nat i))"

fun commas :: "string list \<Rightarrow> string" where
  "commas [] = []"
| "commas [x] = x"
| "commas (x # y # zs) = x @ CHR '','' # commas (y # zs)"

fun print_json :: "json \<Rightarrow> string" where
  "print_json JNull = ''null''"
| "print_json (JBool b) = (if b then ''true'' else ''false'')"
| "print_json (JNum i) = show_int i"
| "print_json (JStr s) = quote s"
| "print_json (JArr vs) = CHR ''['' # commas (map print_json vs) @ '']''"
| "print_json (JObj kvs) =
     CHR ''{'' # commas (map (\<lambda>(k, v). quote k @ CHR '':'' # print_json v) kvs) @ ''}''"

subsection \<open>Parsing: \<open>JSON.parse\<close>\<close>

definition is_ws :: "char \<Rightarrow> bool" where
  "is_ws c \<longleftrightarrow> c = CHR '' '' \<or> c = CHR 0x09 \<or> c = CHR 0x0A \<or> c = CHR 0x0D"

fun skip_ws :: "string \<Rightarrow> string" where
  "skip_ws [] = []"
| "skip_ws (c # s) = (if is_ws c then skip_ws s else c # s)"

fun strip_prefix :: "string \<Rightarrow> string \<Rightarrow> string option" where
  "strip_prefix [] s = Some s"
| "strip_prefix (p # ps) [] = None"
| "strip_prefix (p # ps) (c # s) = (if p = c then strip_prefix ps s else None)"

definition digit_val :: "char \<Rightarrow> nat option" where
  "digit_val c = (let n = (of_char c :: nat) in if 48 \<le> n \<and> n \<le> 57 then Some (n - 48) else None)"

definition hex_val :: "char \<Rightarrow> nat option" where
  "hex_val c =
    (let n = (of_char c :: nat) in
     if 48 \<le> n \<and> n \<le> 57 then Some (n - 48)
     else if 97 \<le> n \<and> n \<le> 102 then Some (n - 87)
     else if 65 \<le> n \<and> n \<le> 70 then Some (n - 55)
     else None)"

text \<open>The digits after the first one of an integer literal, accumulated.\<close>

fun read_digits :: "nat \<Rightarrow> string \<Rightarrow> nat \<times> string" where
  "read_digits acc [] = (acc, [])"
| "read_digits acc (c # s) =
     (case digit_val c of None \<Rightarrow> (acc, c # s) | Some d \<Rightarrow> read_digits (10 * acc + d) s)"

text \<open>
  A non-negative integer literal: \<open>0\<close> or a non-zero digit followed by digits; a
  leading zero followed by a digit, a fraction or an exponent is rejected.
\<close>

definition number_end_ok :: "string \<Rightarrow> bool" where
  "number_end_ok r = (case r of [] \<Rightarrow> True
     | c # _ \<Rightarrow> digit_val c = None \<and> c \<noteq> CHR ''.'' \<and> c \<noteq> CHR ''e'' \<and> c \<noteq> CHR ''E'')"

definition parse_nat :: "string \<Rightarrow> (nat \<times> string) option" where
  "parse_nat s = (case s of
      [] \<Rightarrow> None
    | c # r \<Rightarrow> (case digit_val c of
         None \<Rightarrow> None
       | Some d \<Rightarrow>
           let (n, r') = (if d = 0 then (0, r) else read_digits d r)
           in if number_end_ok r' then Some (n, r') else None))"

definition parse_int :: "string \<Rightarrow> (int \<times> string) option" where
  "parse_int s = (case s of
      c # r \<Rightarrow> if c = CHR ''-'' then map_option (\<lambda>(n, r'). (- int n, r')) (parse_nat r)
               else map_option (\<lambda>(n, r'). (int n, r')) (parse_nat s)
    | [] \<Rightarrow> None)"

text \<open>The body of a string literal after its opening quote, up to the closing quote.\<close>

fun parse_str :: "string \<Rightarrow> string \<Rightarrow> (string \<times> string) option" where
  "parse_str acc [] = None"
| "parse_str acc (c # s) =
    (if c = CHR 0x22 then Some (acc, s)
     else if c = CHR 0x5C then
       (case s of
          [] \<Rightarrow> None
        | e # s' \<Rightarrow>
            if e = CHR 0x22 \<or> e = CHR 0x5C \<or> e = CHR ''/'' then parse_str (acc @ [e]) s'
            else if e = CHR ''b'' then parse_str (acc @ [CHR 0x08]) s'
            else if e = CHR ''f'' then parse_str (acc @ [CHR 0x0C]) s'
            else if e = CHR ''n'' then parse_str (acc @ [CHR 0x0A]) s'
            else if e = CHR ''r'' then parse_str (acc @ [CHR 0x0D]) s'
            else if e = CHR ''t'' then parse_str (acc @ [CHR 0x09]) s'
            else if e = CHR ''u'' then
              (case s' of
                 h1 # h2 # h3 # h4 # s'' \<Rightarrow>
                   (case (hex_val h1, hex_val h2, hex_val h3, hex_val h4) of
                      (Some a, Some b, Some d, Some e') \<Rightarrow>
                        (let v = ((a * 16 + b) * 16 + d) * 16 + e' in
                         if v < 256 then parse_str (acc @ [char_of v]) s'' else None)
                    | _ \<Rightarrow> None)
               | _ \<Rightarrow> None)
            else None)
     else if (of_char c :: nat) < 32 then None
     else parse_str (acc @ [c]) s)"

text \<open>
  Values, the elements of an array after its \<open>[\<close>, and the members of an object after
  its \<open>{\<close>; the first argument is the fuel.
\<close>

fun parse_value :: "nat \<Rightarrow> string \<Rightarrow> (json \<times> string) option"
and parse_array :: "nat \<Rightarrow> json list \<Rightarrow> string \<Rightarrow> (json list \<times> string) option"
and parse_object :: "nat \<Rightarrow> (string \<times> json) list \<Rightarrow> string \<Rightarrow> ((string \<times> json) list \<times> string) option"
where
  "parse_value 0 s = None"
| "parse_value (Suc f) s =
    (case skip_ws s of
       [] \<Rightarrow> None
     | c # r \<Rightarrow>
         if c = CHR ''n'' then map_option (Pair JNull) (strip_prefix ''ull'' r)
         else if c = CHR ''t'' then map_option (Pair (JBool True)) (strip_prefix ''rue'' r)
         else if c = CHR ''f'' then map_option (Pair (JBool False)) (strip_prefix ''alse'' r)
         else if c = CHR 0x22 then map_option (\<lambda>(str, r'). (JStr str, r')) (parse_str [] r)
         else if c = CHR ''['' then
           (case skip_ws r of
              [] \<Rightarrow> None
            | d # r' \<Rightarrow> if d = CHR '']'' then Some (JArr [], r')
                        else map_option (\<lambda>(vs, r''). (JArr vs, r'')) (parse_array f [] r))
         else if c = CHR ''{'' then
           (case skip_ws r of
              [] \<Rightarrow> None
            | d # r' \<Rightarrow> if d = CHR ''}'' then Some (JObj [], r')
                        else map_option (\<lambda>(kvs, r''). (JObj kvs, r'')) (parse_object f [] r))
         else map_option (\<lambda>(i, r'). (JNum i, r')) (parse_int (c # r)))"
| "parse_array 0 acc s = None"
| "parse_array (Suc f) acc s =
    (case parse_value f s of
       None \<Rightarrow> None
     | Some (v, r) \<Rightarrow>
         (case skip_ws r of
            [] \<Rightarrow> None
          | d # r' \<Rightarrow>
              if d = CHR '','' then parse_array f (acc @ [v]) r'
              else if d = CHR '']'' then Some (acc @ [v], r')
              else None))"
| "parse_object 0 acc s = None"
| "parse_object (Suc f) acc s =
    (case skip_ws s of
       [] \<Rightarrow> None
     | d # r \<Rightarrow>
         if d \<noteq> CHR 0x22 then None
         else (case parse_str [] r of
            None \<Rightarrow> None
          | Some (k, r1) \<Rightarrow>
              (case skip_ws r1 of
                 [] \<Rightarrow> None
               | e # r2 \<Rightarrow>
                   if e \<noteq> CHR '':'' then None
                   else (case parse_value f r2 of
                      None \<Rightarrow> None
                    | Some (v, r3) \<Rightarrow>
                        (case skip_ws r3 of
                           [] \<Rightarrow> None
                         | g # r4 \<Rightarrow>
                             if g = CHR '','' then parse_object f (acc @ [(k, v)]) r4
                             else if g = CHR ''}'' then Some (acc @ [(k, v)], r4)
                             else None)))))"

definition json_parse :: "string \<Rightarrow> json option" where
  "json_parse s =
    (case parse_value (Suc (2 * length s)) s of
       None \<Rightarrow> None
     | Some (j, r) \<Rightarrow> if skip_ws r = [] then Some j else None)"

subsection \<open>The stored user\<close>

text \<open>\<open>JSON.parse\<close> keeps the last of duplicate keys.\<close>

definition lookup_key :: "(string \<times> json) list \<Rightarrow> string \<Rightarrow> json option" where
  "lookup_key kvs k = map_of (rev kvs) k"

definition get_num :: "(string \<times> json) list \<Rightarrow> string \<Rightarrow> int option" where
  "get_num kvs k = (case lookup_key kvs k of Some (JNum i) \<Rightarrow> Some i | _ \<Rightarrow> None)"

definition get_str :: "(string \<times> json) list \<Rightarrow> string \<Rightarrow> string option" where
  "get_str kvs k = (case lookup_key kvs k of Some (JStr s) \<Rightarrow> Some s | _ \<Rightarrow> None)"

definition get_bool :: "(string \<times> json) list \<Rightarrow> string \<Rightarrow> bool option" where
  "get_bool kvs k = (case lookup_key kvs k of Some (JBool b) \<Rightarrow> Some b | _ \<Rightarrow> None)"

text \<open>An optional string property: absent or \<open>null\<close> is \<open>Some None\<close>.\<close>

definition get_opt_str :: "(string \<times> json) list \<Rightarrow> string \<Rightarrow> string option option" where
  "get_opt_str kvs k = (case lookup_key kvs k of
      None \<Rightarrow> Some None
    | Some JNull \<Rightarrow> Some None
    | Some (JStr s) \<Rightarrow> Some (Some s)
    | Some _ \<Rightarrow> None)"

definition user_to_json :: "user \<Rightarrow> json" where
  "user_to_json u = JObj
     ([(''id'', JNum (uid u)), (''username'', JStr (username u)), (''nickname'', JStr (nickname u))]
      @ (case avatar_url u of None \<Rightarrow> [] | Some a \<Rightarrow> [(''avatar_url'', JStr a)])
      @ [(''is_admin'', JBool (is_admin u))])"

text \<open>
  Reading a parsed value back as a \<open>User\<close>. \<open>None\<close> when the value is not an object
  with the fields of the interface: JavaScript would carry such a value on as a
  malformed user, which the model does not represent.
\<close>

definition user_of_json :: "json \<Rightarrow> user option" where
  "user_of_json j = (case j of
      JObj kvs \<Rightarrow> do {
        i \<leftarrow> get_num kvs ''id'';
        n \<leftarrow> get_str kvs ''username'';
        nn \<leftarrow> get_str kvs ''nickname'';
        av \<leftarrow> get_opt_str kvs ''avatar_url'';
        a \<leftarrow> get_bool kvs ''is_admin'';
        Some \<lparr>uid = i, username = n, nickname = nn, avatar_url = av, is_admin = a\<rparr>
      }
    | _ \<Rightarrow> None)"

definition stringify_user :: "user \<Rightarrow> string" where
  "stringify_user u = print_json (user_to_json u)"


text \<open>Proof vocabulary: the value of a run of digits, and the characters that may
  follow a value inside a JSON text.\<close>

definition digits_value :: "nat \<Rightarrow> string \<Rightarrow> nat" where
  "digits_value acc ds = foldl (\<lambda>a c. 10 * a + the (digit_val c)) acc ds"

definition value_end :: "string \<Rightarrow> bool" where
  "value_end r \<longleftrightarrow> (case r of [] \<Rightarrow> True | c # _ \<Rightarrow> c = CHR '','' \<or> c = CHR '']'' \<or> c = CHR ''}'')"

subsection \<open>Round trip\<close>

text \<open>
  \<open>JSON.parse\<close> reads back what \<open>JSON.stringify\<close> writes. The proof goes up from
  characters: an escaped character decodes to itself, a quoted string to the string,
  a printed integer to the integer, and a printed value followed by a delimiter to the
  value and the delimiter, by induction on the value with the arrays and objects handled
  by an induction on their elements. The fuel of the top level suffices because a
  value's size never exceeds the length of its text.
\<close>

lemma hex_val_hex_digit: "n < 16 \<Longrightarrow> hex_val (hex_digit n) = Some n"
  by (auto simp: hex_val_def hex_digit_def Let_def)

lemma char_of_escaped:
  "char_of (8::nat) = CHR 0x08" "char_of (9::nat) = CHR 0x09" "char_of (10::nat) = CHR 0x0A"
  "char_of (12::nat) = CHR 0x0C" "char_of (13::nat) = CHR 0x0D" "char_of (34::nat) = CHR 0x22"
  "char_of (92::nat) = CHR 0x5C"
  by code_simp+

lemma of_char_quote_backslash: "(of_char CHR 0x22 :: nat) = 34" "(of_char CHR 0x5C :: nat) = 92"
  by code_simp+

lemma parse_str_escape_char:
  "parse_str acc (escape_char c @ rest) = parse_str (acc @ [c]) rest"
proof -
  define n where "n = (of_char c :: nat)"
  have c: "c = char_of n" by (simp add: n_def)
  have n256: "n < 256" by (simp add: n_def)
  consider "n = 8" | "n = 9" | "n = 10" | "n = 12" | "n = 13" | "n = 34" | "n = 92"
    | "n < 32" "n \<notin> {8, 9, 10, 12, 13}" | "32 \<le> n" "n \<noteq> 34" "n \<noteq> 92"
    by fastforce
  then show ?thesis
  proof cases
    case 1
    then show ?thesis by (simp add: c escape_char_def char_of_escaped)
  next
    case 2
    then show ?thesis by (simp add: c escape_char_def char_of_escaped)
  next
    case 3
    then show ?thesis by (simp add: c escape_char_def char_of_escaped)
  next
    case 4
    then show ?thesis by (simp add: c escape_char_def char_of_escaped)
  next
    case 5
    then show ?thesis by (simp add: c escape_char_def char_of_escaped)
  next
    case 6
    then show ?thesis by (simp add: c escape_char_def char_of_escaped)
  next
    case 7
    then show ?thesis by (simp add: c escape_char_def char_of_escaped)
  next
    case 8
    have h1: "hex_val (hex_digit (n div 16)) = Some (n div 16)" using 8 by (intro hex_val_hex_digit) simp
    have h2: "hex_val (hex_digit (n mod 16)) = Some (n mod 16)" by (intro hex_val_hex_digit) simp
    have h0: "hex_val CHR ''0'' = Some 0" by (simp add: hex_val_def)
    have v: "n div 16 * 16 + n mod 16 = n" by simp
    from 8 show ?thesis
      by (simp add: c escape_char_def h0 h1 h2 v n256)
  next
    case 9
    have e: "escape_char c = [c]" using 9 by (simp add: escape_char_def n_def[symmetric])
    have q: "c \<noteq> CHR 0x22" "c \<noteq> CHR 0x5C" "\<not> (of_char c :: nat) < 32"
      using 9 n_def by (auto simp: of_char_quote_backslash)
    show ?thesis by (simp add: e q)
  qed
qed

lemma parse_str_quoted:
  "parse_str acc (concat (map escape_char s) @ CHR 0x22 # rest) = Some (acc @ s, rest)"
  by (induction s arbitrary: acc) (simp_all add: parse_str_escape_char)

lemma parse_str_quote: "quote s @ rest = CHR 0x22 # (concat (map escape_char s) @ CHR 0x22 # rest)"
  by (simp add: quote_def)

subsection \<open>Integers\<close>

lemma digit_val_char: "d < 10 \<Longrightarrow> digit_val (char_of (48 + d)) = Some d"
  by (simp add: digit_val_def)

lemma show_nat_digits: "c \<in> set (show_nat n) \<Longrightarrow> digit_val c \<noteq> None"
proof (induction n rule: show_nat.induct)
  case (1 n)
  then show ?case
    by (cases "n < 10") (auto simp: show_nat.simps[of n] digit_val_char)
qed

lemma show_nat_nonempty: "show_nat n \<noteq> []"
  by (simp add: show_nat.simps[of n])

lemma read_digits_append:
  "\<forall>c \<in> set ds. digit_val c \<noteq> None \<Longrightarrow>
   read_digits acc (ds @ rest) = read_digits (digits_value acc ds) rest"
  by (induction ds arbitrary: acc) (auto simp: digits_value_def)

lemma read_digits_stop:
  "number_end_ok rest \<Longrightarrow> read_digits acc rest = (acc, rest)"
  by (cases rest) (auto simp: number_end_ok_def)

lemma digits_value_show_nat: "digits_value acc (show_nat n) = acc * 10 ^ length (show_nat n) + n"
proof (induction n arbitrary: acc rule: show_nat.induct)
  case (1 n)
  show ?case
  proof (cases "n < 10")
    case True
    then show ?thesis by (simp add: show_nat.simps[of n] digits_value_def digit_val_char)
  next
    case False
    then have "digits_value acc (show_nat n)
        = 10 * digits_value acc (show_nat (n div 10)) + n mod 10"
      by (simp add: show_nat.simps[of n] digits_value_def digit_val_char)
    also have "\<dots> = acc * 10 ^ length (show_nat n) + n"
      using "1.IH" False by (simp add: show_nat.simps[of n] algebra_simps)
    finally show ?thesis .
  qed
qed

lemma show_nat_lead_zero:
  "show_nat n = c # r \<Longrightarrow> digit_val c = Some 0 \<Longrightarrow> n = 0 \<and> r = []"
proof (induction n arbitrary: r rule: show_nat.induct)
  case (1 n)
  show ?case
  proof (cases "n < 10")
    case True
    with "1.prems" show ?thesis by (auto simp: show_nat.simps[of n] digit_val_char)
  next
    case False
    obtain r' where "show_nat (n div 10) = c # r'"
      using "1.prems"(1) False show_nat_nonempty[of "n div 10"]
      by (cases "show_nat (n div 10)") (auto simp: show_nat.simps[of n])
    with "1.IH" False "1.prems"(2) have "n div 10 = 0" by blast
    with False show ?thesis by simp
  qed
qed

lemma parse_nat_show_nat:
  assumes "number_end_ok rest"
  shows "parse_nat (show_nat n @ rest) = Some (n, rest)"
proof -
  obtain c r where cr: "show_nat n = c # r" using show_nat_nonempty by (cases "show_nat n") auto
  have digits: "\<forall>x \<in> set r. digit_val x \<noteq> None" using show_nat_digits[of _ n] cr by auto
  obtain d where d: "digit_val c = Some d" using show_nat_digits[of c n] cr by auto
  have val: "digits_value d r = n"
    using digits_value_show_nat[of 0 n] d cr by (simp add: digits_value_def)
  show ?thesis
  proof (cases "d = 0")
    case True
    with cr d have "n = 0 \<and> r = []" by (intro show_nat_lead_zero) simp_all
    then have "show_nat n @ rest = c # rest" "n = 0" using cr by simp_all
    with True assms d show ?thesis by (simp add: parse_nat_def)
  next
    case False
    then show ?thesis
      using assms by (simp add: parse_nat_def cr d read_digits_append digits read_digits_stop val)
  qed
qed


lemma digit_not_special:
  assumes "digit_val c \<noteq> None"
  shows "\<not> is_ws c" "c \<noteq> CHR ''n''" "c \<noteq> CHR ''t''" "c \<noteq> CHR ''f''" "c \<noteq> CHR 0x22"
    "c \<noteq> CHR ''[''" "c \<noteq> CHR ''{''" "c \<noteq> CHR ''-''" "c \<noteq> CHR '']''" "c \<noteq> CHR ''}''"
  using assms by (auto simp: is_ws_def digit_val_def)

lemma show_int_head: "\<exists>c r. show_int i = c # r \<and> (c = CHR ''-'' \<or> digit_val c \<noteq> None)"
proof (cases "i < 0")
  case True
  then show ?thesis by (simp add: show_int_def)
next
  case False
  obtain c r where "show_nat (nat i) = c # r"
    using show_nat_nonempty by (cases "show_nat (nat i)") auto
  moreover have "digit_val c \<noteq> None" using show_nat_digits[of c "nat i"] calculation by simp
  ultimately show ?thesis using False by (simp add: show_int_def)
qed

lemma parse_int_show_int:
  assumes "number_end_ok rest"
  shows "parse_int (show_int i @ rest) = Some (i, rest)"
proof (cases "i < 0")
  case True
  then show ?thesis using assms by (simp add: show_int_def parse_int_def parse_nat_show_nat)
next
  case False
  obtain c r where cr: "show_nat (nat i) = c # r"
    using show_nat_nonempty by (cases "show_nat (nat i)") auto
  have "digit_val c \<noteq> None" using show_nat_digits[of c "nat i"] cr by simp
  then have "c \<noteq> CHR ''-''" by (rule digit_not_special)
  with False cr parse_nat_show_nat[OF assms, of "nat i"] show ?thesis
    by (simp add: show_int_def parse_int_def)
qed


lemma value_end_number: "value_end r \<Longrightarrow> number_end_ok r"
  by (auto simp: value_end_def number_end_ok_def digit_val_def split: list.splits)

lemma value_end_simps [simp]:
  "value_end []" "value_end (CHR '','' # r)" "value_end (CHR '']'' # r)" "value_end (CHR ''}'' # r)"
  by (simp_all add: value_end_def)

lemma print_json_head: "\<exists>c r. print_json j = c # r \<and> \<not> is_ws c \<and> c \<noteq> CHR '']'' \<and> c \<noteq> CHR ''}''"
proof (cases j)
  case (JNum i)
  obtain c r where "show_int i = c # r" "c = CHR ''-'' \<or> digit_val c \<noteq> None"
    using show_int_head by blast
  with JNum show ?thesis by (auto simp: is_ws_def digit_val_def)
qed (auto simp: is_ws_def quote_def)

lemma skip_ws_print: "skip_ws (print_json j @ rest) = print_json j @ rest"
  using print_json_head[of j] by auto

lemma commas_head:
  "vs \<noteq> [] \<Longrightarrow> \<exists>c r. commas (map print_json vs) @ rest = c # r \<and> \<not> is_ws c \<and> c \<noteq> CHR '']''"
proof -
  assume "vs \<noteq> []"
  then obtain v ws where "vs = v # ws" by (cases vs) auto
  moreover obtain c r where "print_json v = c # r" "\<not> is_ws c" "c \<noteq> CHR '']''"
    using print_json_head by blast
  ultimately show ?thesis by (cases ws) auto
qed

lemma parse_array_print:
  assumes "vs \<noteq> []"
    and "\<And>v f rest. v \<in> set vs \<Longrightarrow> size v < f \<Longrightarrow> value_end rest \<Longrightarrow>
           parse_value f (print_json v @ rest) = Some (v, rest)"
    and "size_list size vs < f"
  shows "parse_array f acc (commas (map print_json vs) @ CHR '']'' # rest) = Some (acc @ vs, rest)"
  using assms
proof (induction vs arbitrary: acc f)
  case Nil
  then show ?case by simp
next
  case (Cons v ws)
  obtain f' where f: "f = Suc f'" using Cons.prems(3) by (cases f) auto
  show ?case
  proof (cases ws)
    case Nil
    have "parse_value f' (print_json v @ CHR '']'' # rest) = Some (v, CHR '']'' # rest)"
      using Cons.prems(2,3) Nil f by simp
    with Nil f show ?thesis by (simp add: is_ws_def)
  next
    case (Cons w ws')
    have v: "parse_value f' (print_json v @ CHR '','' # (commas (map print_json ws) @ CHR '']'' # rest))
             = Some (v, CHR '','' # (commas (map print_json ws) @ CHR '']'' # rest))"
      using Cons.prems(2,3) f by simp
    have "parse_array f' (acc @ [v]) (commas (map print_json ws) @ CHR '']'' # rest) = Some ((acc @ [v]) @ ws, rest)"
      using Cons.prems(2,3) f local.Cons by (intro Cons.IH) auto
    with v local.Cons f show ?thesis by (simp add: is_ws_def)
  qed
qed


lemma parse_object_print:
  assumes "kvs \<noteq> []"
    and "\<And>k v f rest. (k, v) \<in> set kvs \<Longrightarrow> size v < f \<Longrightarrow> value_end rest \<Longrightarrow>
           parse_value f (print_json v @ rest) = Some (v, rest)"
    and "size_list (size_prod (\<lambda>x. 0) size) kvs < f"
  shows "parse_object f acc (commas (map (\<lambda>(k, v). quote k @ CHR '':'' # print_json v) kvs) @ CHR ''}'' # rest)
         = Some (acc @ kvs, rest)"
  using assms
proof (induction kvs arbitrary: acc f)
  case Nil
  then show ?case by simp
next
  case (Cons kv ws)
  obtain k v where kv: "kv = (k, v)" by fastforce
  obtain f' where f: "f = Suc f'" using Cons.prems(3) by (cases f) auto
  have sz: "size v < f'" using Cons.prems(3) f kv by simp
  show ?case
  proof (cases ws)
    case Nil
    have "parse_value f' (print_json v @ CHR ''}'' # rest) = Some (v, CHR ''}'' # rest)"
      using Cons.prems(2)[of k v f' "CHR ''}'' # rest"] kv sz by simp
    with Nil f kv show ?thesis by (simp add: is_ws_def quote_def parse_str_quoted)
  next
    case (Cons w ws')
    let ?tl = "commas (map (\<lambda>(k, v). quote k @ CHR '':'' # print_json v) ws) @ CHR ''}'' # rest"
    have v: "parse_value f' (print_json v @ CHR '','' # ?tl) = Some (v, CHR '','' # ?tl)"
      using Cons.prems(2)[of k v f' "CHR '','' # ?tl"] kv sz by simp
    have "parse_object f' (acc @ [(k, v)]) ?tl = Some ((acc @ [(k, v)]) @ ws, rest)"
      using Cons.prems(2,3) f kv local.Cons by (intro Cons.IH) auto
    with v local.Cons f kv show ?thesis by (simp add: is_ws_def quote_def parse_str_quoted)
  qed
qed

lemma parse_value_print:
  "size j < f \<Longrightarrow> value_end rest \<Longrightarrow> parse_value f (print_json j @ rest) = Some (j, rest)"
proof (induction j arbitrary: f rest)
  case JNull
  then show ?case by (cases f) (auto simp: is_ws_def)
next
  case (JBool b)
  then show ?case by (cases f) (auto simp: is_ws_def)
next
  case (JNum i)
  obtain f' where f: "f = Suc f'" using JNum.prems by (cases f) auto
  obtain c r where cr: "show_int i = c # r" and c: "c = CHR ''-'' \<or> digit_val c \<noteq> None"
    using show_int_head by blast
  have "parse_int (show_int i @ rest) = Some (i, rest)"
    using JNum.prems by (intro parse_int_show_int value_end_number)
  moreover have "\<not> is_ws c \<and> c \<noteq> CHR ''n'' \<and> c \<noteq> CHR ''t'' \<and> c \<noteq> CHR ''f''
      \<and> c \<noteq> CHR 0x22 \<and> c \<noteq> CHR ''['' \<and> c \<noteq> CHR ''{''"
    using c
  proof
    assume "c = CHR ''-''"
    then show ?thesis by (simp add: is_ws_def)
  next
    assume "digit_val c \<noteq> None"
    then show ?thesis by (simp add: digit_not_special)
  qed
  ultimately have nc: "\<not> is_ws c" "c \<noteq> CHR ''n''" "c \<noteq> CHR ''t''" "c \<noteq> CHR ''f''"
      "c \<noteq> CHR 0x22" "c \<noteq> CHR ''[''" "c \<noteq> CHR ''{''" and pint: "parse_int (c # (r @ rest)) = Some (i, rest)"
    using cr by simp_all
  have "parse_value f (print_json (JNum i) @ rest) = parse_value (Suc f') (c # (r @ rest))"
    using f cr by simp
  also have "\<dots> = map_option (\<lambda>(i, r'). (JNum i, r')) (parse_int (c # (r @ rest)))"
    using nc by (simp only: parse_value.simps skip_ws.simps if_False list.case)
  also have "\<dots> = Some (JNum i, rest)" using pint by simp
  finally show ?case .
next
  case (JStr s)
  then show ?case by (cases f) (auto simp: is_ws_def quote_def parse_str_quoted)
next
  case (JArr vs)
  obtain f' where f: "f = Suc f'" using JArr.prems by (cases f) auto
  show ?case
  proof (cases "vs = []")
    case True
    with f show ?thesis by (simp add: is_ws_def)
  next
    case False
    obtain c r where cr: "commas (map print_json vs) @ CHR '']'' # rest = c # r"
      and c: "\<not> is_ws c" "c \<noteq> CHR '']''"
      using commas_head[OF False] by blast
    have "parse_array f' [] (commas (map print_json vs) @ CHR '']'' # rest) = Some (vs, rest)"
      using parse_array_print[of vs f' "[]" rest] False JArr.IH JArr.prems f by simp
    with f cr c show ?thesis by (simp add: is_ws_def)
  qed
next
  case (JObj kvs)
  obtain f' where f: "f = Suc f'" using JObj.prems by (cases f) auto
  show ?case
  proof (cases "kvs = []")
    case True
    with f show ?thesis by (simp add: is_ws_def)
  next
    case False
    then obtain k v ws where kvs: "kvs = (k, v) # ws" by (cases kvs) auto
    have "parse_object f' [] (commas (map (\<lambda>(k, v). quote k @ CHR '':'' # print_json v) kvs) @ CHR ''}'' # rest)
          = Some (kvs, rest)"
      using parse_object_print[of kvs f' "[]" rest] False JObj.IH JObj.prems f by fastforce
    with f kvs show ?thesis by (cases ws) (simp_all add: is_ws_def quote_def)
  qed
qed



lemma length_escape_char: "1 \<le> length (escape_char c)"
  by (simp add: escape_char_def Let_def)

lemma length_concat_escape: "length s \<le> length (concat (map escape_char s))"
proof (induction s)
  case (Cons c s)
  then show ?case using length_escape_char[of c] by simp
qed simp

lemma length_commas: "length (commas xs) + 1 = sum_list (map length xs) + length xs \<or> xs = []"
  by (induction xs rule: commas.induct) auto

lemma size_le_print: "size j \<le> length (print_json j)"
proof (induction j)
  case (JStr s)
  then show ?case using length_concat_escape[of s] by (simp add: quote_def)
next
  case (JArr vs)
  have "sum_list (map size vs) \<le> sum_list (map (length \<circ> print_json) vs)"
    using JArr.IH by (intro sum_list_mono) auto
  then show ?case using length_commas[of "map print_json vs"]
    by (auto simp: size_list_conv_sum_list o_def)
next
  case (JObj kvs)
  have "sum_list (map (size_prod (\<lambda>x. 0) size) kvs)
        \<le> sum_list (map (length \<circ> (\<lambda>(k, v). quote k @ CHR '':'' # print_json v)) kvs)"
    using JObj.IH by (intro sum_list_mono) (force simp: quote_def)
  then show ?case using length_commas[of "map (\<lambda>(k, v). quote k @ CHR '':'' # print_json v) kvs"]
    by (auto simp: size_list_conv_sum_list o_def)
qed auto

text \<open>\<open>JSON.parse\<close> reads back every JSON value written by \<open>JSON.stringify\<close>.\<close>

theorem json_parse_print: "json_parse (print_json j) = Some j"
proof -
  have "size j < Suc (2 * length (print_json j))" using size_le_print[of j] by simp
  then have "parse_value (Suc (2 * length (print_json j))) (print_json j @ []) = Some (j, [])"
    by (intro parse_value_print) simp_all
  then show ?thesis by (simp add: json_parse_def)
qed

lemma user_of_json_to_json: "user_of_json (user_to_json u) = Some u"
  by (cases "avatar_url u")
     (simp_all add: user_of_json_def user_to_json_def lookup_key_def get_num_def get_str_def
       get_bool_def get_opt_str_def)

end
