(* ===== verification/Storage.thy ===== *)
theory Storage
  imports Json
begin

text \<open>
  The persistent session store: \<open>window.localStorage\<close> (Web Storage API), a map from
  string keys to string values that survives reloads. The client uses two keys,
  \<open>'user'\<close> (the serialized \<open>User\<close>) and \<open>'token'\<close> (the opaque session token):
  written at lines 110--111 and 241, removed at lines 127--128, read at lines 60--61.
  \<open>setItem\<close> converts its value to a string, so \<open>setItem(k, undefined)\<close> stores the
  text \<open>'undefined'\<close> (\<open>js_to_string\<close> of the Prelude).

  The second group reads a stored user back the way line 63 does: \<open>JSON.parse\<close>
  throws on text that is not JSON, and \<open>setUser\<close> takes whatever value it returns;
  every later use of \<open>user\<close> in the component is a truthiness test, so a falsy value
  (\<open>null\<close>, \<open>false\<close>, \<open>0\<close>, \<open>""\<close>) acts as no user.
\<close>

definition getItem :: "string \<Rightarrow> storage \<Rightarrow> string option" where
  "getItem k st = st k"

definition setItem :: "string \<Rightarrow> string \<Rightarrow> storage \<Rightarrow> storage" where
  "setItem k v st = st(k \<mapsto> v)"

definition removeItem :: "string \<Rightarrow> storage \<Rightarrow> storage" where
  "removeItem k st = st(k := None)"

lemma getItem_setItem [simp]:
  "getItem k (setItem k' v st) = (if k = k' then Some v else getItem k st)"
  by (simp add: getItem_def setItem_def)

lemma getItem_removeItem [simp]:
  "getItem k (removeItem k' st) = (if k = k' then None else getItem k st)"
  by (simp add: getItem_def removeItem_def)

subsection \<open>Reading a stored user\<close>

text \<open>
  What \<open>setUser(JSON.parse(savedUser))\<close> does: an uncaught exception (the component's
  effect throws and React unmounts the tree), or the new value of \<open>user\<close>.
  \<open>UnmodelledUserValue\<close> marks a truthy JSON value that is not a \<open>User\<close> (a string,
  an array, an object without the fields): the code would carry it on as a malformed
  user, which this model does not follow.
\<close>

datatype fault = UncaughtSyntaxError | UnmodelledUserValue

definition js_falsy :: "json \<Rightarrow> bool" where
  "js_falsy j \<longleftrightarrow> j = JNull \<or> j = JBool False \<or> j = JNum 0 \<or> j = JStr []"

definition restore_user :: "string \<Rightarrow> fault + user option" where
  "restore_user txt =
    (case json_parse txt of
       None \<Rightarrow> Inl UncaughtSyntaxError
     | Some j \<Rightarrow>
         if js_falsy j then Inr None
         else (case user_of_json j of
                 None \<Rightarrow> Inl UnmodelledUserValue
               | Some u \<Rightarrow> Inr (Some u)))"

text \<open>
  The text line 110 and line 241 store for \<open>data.user\<close>:
  \<open>JSON.stringify(undefined)\<close> is \<open>undefined\<close>, stored as \<open>'undefined'\<close>.
\<close>

definition stored_user_text :: "user option \<Rightarrow> string" where
  "stored_user_text v = js_to_string (map_option stringify_user v)"


lemma stored_user_text_nonempty [simp]: "stored_user_text v \<noteq> []"
  by (cases v) (simp_all add: stored_user_text_def stringify_user_def user_to_json_def)

lemma user_to_json_truthy: "\<not> js_falsy (user_to_json u)"
  by (simp add: js_falsy_def user_to_json_def)

text \<open>The text stored for a user (lines 110 and 241) reads back, through
  \<open>JSON.parse\<close> at line 63, as the same user: no field is lost or changed.\<close>

lemma restore_stored_user: "restore_user (stored_user_text (Some u)) = Inr (Some u)"
  by (simp add: restore_user_def stored_user_text_def stringify_user_def json_parse_print
      user_of_json_to_json user_to_json_truthy)

text \<open>The text stored for an absent \<open>data.user\<close> throws when read back.\<close>

lemma restore_undefined: "restore_user (stored_user_text None) = Inl UncaughtSyntaxError"
  by code_simp

end
