(* ===== verification/State.thy ===== *)
theory State
  imports Gateway Storage
begin

text \<open>
  The state of the \<open>Index\<close> component (the \<open>useState\<close> hooks of lines 42--57) together
  with the parts of the environment its handlers change: the \<open>localStorage\<close> map,
  the notifications shown (\<open>toast\<close>), the \<open>console.error\<close> log, and the requests
  this page has sent and not yet seen answered. A pending entry is the request, the
  continuation that runs on its reply, and the reply once the network has produced it
  (\<open>None\<close> while the request is on its way). React applies the state updates of one
  handler together; the model applies them in the order the code calls the setters,
  which gives the same result since no two setters of one handler touch the same hook
  except through functional updates (\<open>setFavoriteIds(prev => ...)\<close>), which read the
  current value as the model does.
\<close>

type_synonym pending_call = "request \<times> cont \<times> reply option"

record app =
  user :: "user option"
  works :: "work list"
  favorites :: "work list"
  favoriteIds :: "js_id set"
  currentView :: view
  showAuthDialog :: bool
  authMode :: auth_mode
  isAdminMode :: bool
  showAdminDialog :: bool
  adminPassword :: string
  showWorkDialog :: bool
  selectedWork :: "work option"
  authForm :: auth_form
  profileForm :: profile_form
  workForm :: work_form
  storage :: storage
  toasts :: "toast list"
  console :: "console_entry list"
  pending :: "pending_call list"

text \<open>The initial values of the hooks (lines 42--57), on a page whose storage is \<open>st\<close>.\<close>

definition fresh_app :: "storage \<Rightarrow> app" where
  "fresh_app st =
    \<lparr>user = None, works = [], favorites = [], favoriteIds = {}, currentView = Gallery,
     showAuthDialog = False, authMode = Login, isAdminMode = False, showAdminDialog = False,
     adminPassword = [], showWorkDialog = False, selectedWork = None,
     authForm = empty_auth_form, profileForm = empty_profile_form, workForm = empty_work_form,
     storage = st, toasts = [], console = [], pending = []\<rparr>"

text \<open>A \<open>fetch\<close> call: the request leaves, its continuation waits for the reply.\<close>

definition issue :: "request \<Rightarrow> cont \<Rightarrow> app \<Rightarrow> app" where
  "issue q k s = s\<lparr>pending := pending s @ [(q, k, None)]\<rparr>"

text \<open>A \<open>toast\<close> call and a \<open>console.error\<close> call.\<close>

definition notify :: "toast \<Rightarrow> app \<Rightarrow> app" where
  "notify t s = s\<lparr>toasts := toasts s @ [t]\<rparr>"

definition log_error :: "console_entry \<Rightarrow> app \<Rightarrow> app" where
  "log_error c s = s\<lparr>console := console s @ [c]\<rparr>"

text \<open>
  Frame lemmas: \<open>issue\<close>, \<open>notify\<close> and \<open>log_error\<close> change only their own field.
  They are the simplification rules every handler proof uses.
\<close>

lemma issue_simps [simp]:
  "user (issue q k s) = user s" "works (issue q k s) = works s"
  "favorites (issue q k s) = favorites s" "favoriteIds (issue q k s) = favoriteIds s"
  "currentView (issue q k s) = currentView s" "showAuthDialog (issue q k s) = showAuthDialog s"
  "authMode (issue q k s) = authMode s" "isAdminMode (issue q k s) = isAdminMode s"
  "showAdminDialog (issue q k s) = showAdminDialog s" "adminPassword (issue q k s) = adminPassword s"
  "showWorkDialog (issue q k s) = showWorkDialog s" "selectedWork (issue q k s) = selectedWork s"
  "authForm (issue q k s) = authForm s" "profileForm (issue q k s) = profileForm s"
  "workForm (issue q k s) = workForm s" "storage (issue q k s) = storage s"
  "toasts (issue q k s) = toasts s" "console (issue q k s) = console s"
  "pending (issue q k s) = pending s @ [(q, k, None)]"
  by (simp_all add: issue_def)

lemma notify_simps [simp]:
  "user (notify t s) = user s" "works (notify t s) = works s"
  "favorites (notify t s) = favorites s" "favoriteIds (notify t s) = favoriteIds s"
  "currentView (notify t s) = currentView s" "showAuthDialog (notify t s) = showAuthDialog s"
  "authMode (notify t s) = authMode s" "isAdminMode (notify t s) = isAdminMode s"
  "showAdminDialog (notify t s) = showAdminDialog s" "adminPassword (notify t s) = adminPassword s"
  "showWorkDialog (notify t s) = showWorkDialog s" "selectedWork (notify t s) = selectedWork s"
  "authForm (notify t s) = authForm s" "profileForm (notify t s) = profileForm s"
  "workForm (notify t s) = workForm s" "storage (notify t s) = storage s"
  "toasts (notify t s) = toasts s @ [t]" "console (notify t s) = console s"
  "pending (notify t s) = pending s"
  by (simp_all add: notify_def)

lemma log_error_simps [simp]:
  "user (log_error c s) = user s" "works (log_error c s) = works s"
  "favorites (log_error c s) = favorites s" "favoriteIds (log_error c s) = favoriteIds s"
  "currentView (log_error c s) = currentView s" "showAuthDialog (log_error c s) = showAuthDialog s"
  "authMode (log_error c s) = authMode s" "isAdminMode (log_error c s) = isAdminMode s"
  "showAdminDialog (log_error c s) = showAdminDialog s" "adminPassword (log_error c s) = adminPassword s"
  "showWorkDialog (log_error c s) = showWorkDialog s" "selectedWork (log_error c s) = selectedWork s"
  "authForm (log_error c s) = authForm s" "profileForm (log_error c s) = profileForm s"
  "workForm (log_error c s) = workForm s" "storage (log_error c s) = storage s"
  "toasts (log_error c s) = toasts s" "console (log_error c s) = console s @ [c]"
  "pending (log_error c s) = pending s"
  by (simp_all add: log_error_def)

end
