(* ===== verification/Gallery.thy ===== *)
theory Gallery
  imports State
begin

text \<open>
  The gallery cache: \<open>works\<close>, refreshed wholesale by \<open>loadWorks\<close> (lines 76--84), and
  the publish action \<open>handleCreateWork\<close> (lines 190--220), which sends a new work to the
  Works resource when a user is present and the admin gate is on. Each asynchronous
  handler is two definitions: the part that runs when the handler is called, up to the
  \<open>fetch\<close>, and the continuation (suffix \<open>_k\<close>) that runs on the reply.

  The price field of the request is \<open>workForm.price ? parseFloat(workForm.price) : null\<close>
  after \<open>JSON.stringify\<close>: \<open>parse_float\<close> models the built-in \<open>parseFloat\<close> on
  ASCII text (the longest decimal prefix, with sign, fraction, exponent and
  \<open>Infinity\<close>), and a non-finite result is written as \<open>null\<close> by \<open>JSON.stringify\<close>.
  The value is the exact decimal value of the digits. A magnitude of at least
  \<open>2^1024 - 2^970\<close>, the midpoint between the largest double and \<open>2^1024\<close>, rounds to
  \<open>Infinity\<close> (ties go to even), as for \<open>parseFloat(''1e400'')\<close>; below it the rounding
  of the value to the nearest double is not modelled.
\<close>

subsection \<open>parseFloat\<close>

datatype js_float = FNum js_number | FNaN | FInf bool

definition js_ws :: "char \<Rightarrow> bool" where
  "js_ws c \<longleftrightarrow> is_ws c \<or> c = CHR 0x0B \<or> c = CHR 0x0C"

fun digit_list :: "string \<Rightarrow> nat list \<times> string" where
  "digit_list [] = ([], [])"
| "digit_list (c # s) =
     (case digit_val c of
        None \<Rightarrow> ([], c # s)
      | Some d \<Rightarrow> (let (ds, r) = digit_list s in (d # ds, r)))"

definition digits_num :: "nat list \<Rightarrow> nat" where
  "digits_num ds = foldl (\<lambda>a d. 10 * a + d) 0 ds"

text \<open>The exponent of an \<open>e[+-]digits\<close> suffix; 0 when there is no complete one.\<close>

definition exponent_part :: "string \<Rightarrow> int" where
  "exponent_part s =
    (case s of
       [] \<Rightarrow> 0
     | c # r \<Rightarrow>
         if c = CHR ''e'' \<or> c = CHR ''E'' then
           (let (sg, r') = (case r of
                              [] \<Rightarrow> (1, [])
                            | d # r'' \<Rightarrow> if d = CHR ''-'' then (-1, r'')
                                         else if d = CHR ''+'' then (1, r'') else (1, r));
                ds = fst (digit_list r')
            in if ds = [] then 0 else sg * int (digits_num ds))
         else 0)"

definition parse_float :: "string \<Rightarrow> js_float" where
  "parse_float s =
    (let t = dropWhile js_ws s;
         (neg, t1) = (case t of
                        [] \<Rightarrow> (False, [])
                      | c # r \<Rightarrow> if c = CHR ''-'' then (True, r)
                                 else if c = CHR ''+'' then (False, r) else (False, t))
     in if strip_prefix ''Infinity'' t1 \<noteq> None then FInf (\<not> neg)
        else
          (let (ip, t2) = digit_list t1;
               (fp, t3) = (case t2 of
                             [] \<Rightarrow> ([], [])
                           | c # r \<Rightarrow> if c = CHR ''.'' then digit_list r else ([], t2))
           in if ip = [] \<and> fp = [] then FNaN
              else
                (let m = (of_nat (digits_num (ip @ fp)) :: js_number) / 10 ^ length fp;
                     e = exponent_part t3;
                     v = (if 0 \<le> e then m * 10 ^ nat e else m / 10 ^ nat (- e))
                 in if 2 ^ 1024 - 2 ^ 970 \<le> v then FInf (\<not> neg) else FNum (if neg then - v else v))))"

text \<open>\<open>JSON.stringify\<close> of a number: \<open>NaN\<close> and the infinities become \<open>null\<close>.\<close>

definition json_number :: "js_float \<Rightarrow> js_number option" where
  "json_number x = (case x of FNum q \<Rightarrow> Some q | _ \<Rightarrow> None)"

text \<open>The \<open>price\<close> field of the body at line 206, as it reaches the server.\<close>

definition price_payload :: "string \<Rightarrow> js_number option" where
  "price_payload t = (if truthy t then json_number (parse_float t) else None)"

subsection \<open>loadWorks\<close>

definition loadWorks :: "app \<Rightarrow> app" where
  "loadWorks s = issue WorksGet KLoadWorks s"

definition loadWorks_k :: "reply \<Rightarrow> app \<Rightarrow> app" where
  "loadWorks_k r s =
    (case r of
       Reply b \<Rightarrow> s\<lparr>works := or_nil (r_works b)\<rparr>
     | _ \<Rightarrow> log_error ErrorLoadingWorks s)"

subsection \<open>handleCreateWork\<close>

definition handleCreateWork :: "app \<Rightarrow> app" where
  "handleCreateWork s =
    (case user s of
       None \<Rightarrow> notify AccessDenied s
     | Some u \<Rightarrow>
         if \<not> isAdminMode s then notify AccessDenied s
         else issue (WorksPost (uid u) (wf_title (workForm s)) (wf_description (workForm s))
                       (wf_image (workForm s)) (price_payload (wf_price (workForm s))))
                    KCreateWork s)"

definition handleCreateWork_k :: "reply \<Rightarrow> app \<Rightarrow> app" where
  "handleCreateWork_k r s =
    (case r of
       Reply b \<Rightarrow>
         if r_success b
         then notify WorkPublished ((loadWorks s)\<lparr>showWorkDialog := False, workForm := empty_work_form\<rparr>)
         else s
     | _ \<Rightarrow> notify PublishFailed s)"

declare loadWorks_def [handler_defs] loadWorks_k_def [handler_defs]
  handleCreateWork_def [handler_defs] handleCreateWork_k_def [handler_defs]

text \<open>\<open>loadWorks\<close> only sends a request.\<close>

lemma loadWorks_frame [simp]:
  "user (loadWorks s) = user s" "works (loadWorks s) = works s" "storage (loadWorks s) = storage s"
  "favorites (loadWorks s) = favorites s" "favoriteIds (loadWorks s) = favoriteIds s"
  "isAdminMode (loadWorks s) = isAdminMode s" "currentView (loadWorks s) = currentView s"
  "toasts (loadWorks s) = toasts s"
  "pending (loadWorks s) = pending s @ [(WorksGet, KLoadWorks, None)]"
  by (simp_all add: loadWorks_def)


text \<open>The definitions that evaluate \<open>parseFloat\<close> on a literal text by rewriting.\<close>

lemmas price_eval = price_payload_def parse_float_def digit_val_def js_ws_def is_ws_def
  digits_num_def exponent_part_def json_number_def

subsection \<open>Properties\<close>

text \<open>C24: publishing is refused on the client without a user or without the admin
  gate: only the access-denied notification, and no request (spec P5).\<close>

theorem handleCreateWork_denied:
  "user s = None \<or> \<not> isAdminMode s \<Longrightarrow> handleCreateWork s = notify AccessDenied s"
  by (auto simp: handleCreateWork_def split: option.split)

theorem handleCreateWork_denied_witness:
  "(user ((fresh_app Map.empty)\<lparr>user := Some \<lparr>uid = 7, username = ''ana'', nickname = ''Ana'', avatar_url = None, is_admin = False\<rparr>\<rparr>) = None \<or> \<not> isAdminMode ((fresh_app Map.empty)\<lparr>user := Some \<lparr>uid = 7, username = ''ana'', nickname = ''Ana'', avatar_url = None, is_admin = False\<rparr>\<rparr>))
   \<and> pending (handleCreateWork ((fresh_app Map.empty)\<lparr>user := Some \<lparr>uid = 7, username = ''ana'', nickname = ''Ana'', avatar_url = None, is_admin = False\<rparr>\<rparr>)) = []"
  using handleCreateWork_denied[of "(fresh_app Map.empty)\<lparr>user := Some \<lparr>uid = 7, username = ''ana'', nickname = ''Ana'', avatar_url = None, is_admin = False\<rparr>\<rparr>"]
  by (simp add: fresh_app_def)

text \<open>C25: with a user and the gate on, publishing sends one POST with the user's id,
  the form's title, description and image, and the price as \<open>parseFloat\<close> and
  \<open>JSON.stringify\<close> turn the price text into a number or \<open>null\<close>.\<close>

theorem handleCreateWork_sends:
  assumes "user s = Some u" and "isAdminMode s"
  shows "pending (handleCreateWork s) = pending s @
    [(WorksPost (uid u) (wf_title (workForm s)) (wf_description (workForm s)) (wf_image (workForm s))
        (price_payload (wf_price (workForm s))), KCreateWork, None)]"
  using assms by (simp add: handleCreateWork_def)

theorem handleCreateWork_sends_witness:
  "let s = (fresh_app Map.empty)\<lparr>user := Some \<lparr>uid = 7, username = ''ana'', nickname = ''Ana'', avatar_url = None, is_admin = False\<rparr>, isAdminMode := True,
             workForm := \<lparr>wf_title = ''Sea'', wf_description = [], wf_price = ''1500'', wf_image = ''data:x''\<rparr>\<rparr>
   in user s = Some \<lparr>uid = 7, username = ''ana'', nickname = ''Ana'', avatar_url = None, is_admin = False\<rparr> \<and> isAdminMode s
      \<and> pending (handleCreateWork s) = [(WorksPost 7 ''Sea'' [] ''data:x'' (Some 1500), KCreateWork, None)]"
proof -
  have p: "price_payload ''1500'' = Some 1500" by (simp add: price_eval)
  show ?thesis
    using handleCreateWork_sends[of "(fresh_app Map.empty)\<lparr>user := Some \<lparr>uid = 7, username = ''ana'', nickname = ''Ana'', avatar_url = None, is_admin = False\<rparr>, isAdminMode := True,
             workForm := \<lparr>wf_title = ''Sea'', wf_description = [], wf_price = ''1500'', wf_image = ''data:x''\<rparr>\<rparr>" "\<lparr>uid = 7, username = ''ana'', nickname = ''Ana'', avatar_url = None, is_admin = False\<rparr>"]
    by (simp add: fresh_app_def p)
qed

text \<open>C27: a gallery reply replaces the whole list at once (an absent \<open>works\<close> field
  empties it); a failed load leaves the state as it was and only logs.\<close>

theorem loadWorks_k_replaces:
  "works (loadWorks_k (Reply b) s) = or_nil (r_works b)
   \<and> loadWorks_k NetworkError s = log_error ErrorLoadingWorks s
   \<and> loadWorks_k InvalidJson s = log_error ErrorLoadingWorks s"
  by (simp add: loadWorks_k_def)

text \<open>C28: after a publish request: success reloads the gallery, closes the dialog,
  clears the form and notifies; a rejection (\<open>success: false\<close>) is silently ignored;
  a transport or parse failure notifies.\<close>

theorem handleCreateWork_k_outcomes:
  "(r_success b \<longrightarrow> handleCreateWork_k (Reply b) s
        = notify WorkPublished ((loadWorks s)\<lparr>showWorkDialog := False, workForm := empty_work_form\<rparr>))
   \<and> (\<not> r_success b \<longrightarrow> handleCreateWork_k (Reply b) s = s)
   \<and> handleCreateWork_k NetworkError s = notify PublishFailed s
   \<and> handleCreateWork_k InvalidJson s = notify PublishFailed s"
  by (simp add: handleCreateWork_k_def)

theorem handleCreateWork_k_outcomes_witness:
  "r_success (empty_body\<lparr>r_success := True\<rparr>) \<and> \<not> r_success empty_body
   \<and> handleCreateWork_k (Reply empty_body) (fresh_app Map.empty) = fresh_app Map.empty
   \<and> showWorkDialog (handleCreateWork_k (Reply (empty_body\<lparr>r_success := True\<rparr>)) ((fresh_app Map.empty)\<lparr>showWorkDialog := True\<rparr>)) = False"
  using handleCreateWork_k_outcomes[of "empty_body\<lparr>r_success := True\<rparr>" "(fresh_app Map.empty)\<lparr>showWorkDialog := True\<rparr>"]
    handleCreateWork_k_outcomes[of empty_body "fresh_app Map.empty"]
  by (simp_all add: empty_body_def)

end
