(* ===== verification/Favorites.thy ===== *)
theory Favorites
  imports State
begin

text \<open>
  The favourites controller: the list \<open>favorites\<close> and the id set \<open>favoriteIds\<close>,
  loaded by \<open>loadFavorites\<close> (lines 86--96) and changed by \<open>toggleFavorite\<close>
  (lines 133--161).

  \<open>loadFavorites\<close> reads \<open>user\<close> from the closure it was created in, so it takes that
  value as its first argument: the user effect (line 72) passes the new user, and the
  continuation of \<open>toggleFavorite\<close> passes the user captured when the heart was
  clicked, whatever the current user is when the reply arrives.

  \<open>toggleFavorite\<close> decides between DELETE and POST from \<open>favoriteIds\<close> at the time of
  the click and changes the local set only after \<open>await fetch\<close> has resolved (the
  functional update \<open>setFavoriteIds(prev => ...)\<close> reads the set current at that time),
  then calls \<open>loadFavorites\<close>. A rejected \<open>fetch\<close> skips both and shows a toast. The
  response of a mutation is never parsed, so an unparsable body counts as success.
\<close>

definition loadFavorites :: "user option \<Rightarrow> app \<Rightarrow> app" where
  "loadFavorites cu s =
    (case cu of
       None \<Rightarrow> s
     | Some u \<Rightarrow> issue (FavoritesGet (uid u)) KLoadFavorites s)"

definition loadFavorites_k :: "reply \<Rightarrow> app \<Rightarrow> app" where
  "loadFavorites_k r s =
    (case r of
       Reply b \<Rightarrow> s\<lparr>favorites := or_nil (r_favorites b),
                   favoriteIds := set (map wid (or_nil (r_favorites b)))\<rparr>
     | _ \<Rightarrow> log_error ErrorLoadingFavorites s)"

definition toggleFavorite :: "js_id \<Rightarrow> app \<Rightarrow> app" where
  "toggleFavorite w s =
    (case user s of
       None \<Rightarrow> notify LoginRequired s
     | Some u \<Rightarrow>
         if w \<in> favoriteIds s
         then issue (FavoritesDelete (uid u) w) (KToggle u True w) s
         else issue (FavoritesPost (uid u) w) (KToggle u False w) s)"

definition toggleFavorite_k :: "user \<Rightarrow> bool \<Rightarrow> js_id \<Rightarrow> reply \<Rightarrow> app \<Rightarrow> app" where
  "toggleFavorite_k u isFavorite w r s =
    (case r of
       NetworkError \<Rightarrow> notify FavoriteFailed s
     | _ \<Rightarrow>
         loadFavorites (Some u)
           (s\<lparr>favoriteIds := (if isFavorite then favoriteIds s - {w} else insert w (favoriteIds s))\<rparr>))"

declare loadFavorites_def [handler_defs] loadFavorites_k_def [handler_defs]
  toggleFavorite_def [handler_defs] toggleFavorite_k_def [handler_defs]


subsection \<open>Properties\<close>

text \<open>C7: reconciliation. A favourites reply replaces the list and the id set together,
  so that afterwards the set holds exactly the ids of the list; a failed load leaves
  both as they were.\<close>

theorem loadFavorites_k_reconciles:
  "favoriteIds (loadFavorites_k (Reply b) s) = wid ` set (favorites (loadFavorites_k (Reply b) s))
   \<and> favorites (loadFavorites_k (Reply b) s) = or_nil (r_favorites b)
   \<and> favorites (loadFavorites_k NetworkError s) = favorites s
   \<and> favoriteIds (loadFavorites_k NetworkError s) = favoriteIds s
   \<and> favorites (loadFavorites_k InvalidJson s) = favorites s
   \<and> favoriteIds (loadFavorites_k InvalidJson s) = favoriteIds s"
  by (simp add: loadFavorites_k_def)

text \<open>C21: a click on the heart of a signed-in user leaves the id set as it is and sends
  DELETE when the work is in the set, POST otherwise: the local set changes only when
  the reply has arrived, not before the request as the spec's optimistic design says.\<close>

theorem toggleFavorite_defers_update:
  assumes "user s = Some u"
  shows "favoriteIds (toggleFavorite w s) = favoriteIds s
    \<and> pending (toggleFavorite w s) = pending s @
        [(if w \<in> favoriteIds s then FavoritesDelete (uid u) w else FavoritesPost (uid u) w,
          KToggle u (w \<in> favoriteIds s) w, None)]"
  using assms by (simp add: toggleFavorite_def)

theorem toggleFavorite_defers_update_witness:
  "let u = \<lparr>uid = 7, username = ''ana'', nickname = ''Ana'', avatar_url = None, is_admin = False\<rparr>; s = (fresh_app Map.empty)\<lparr>user := Some u\<rparr>
   in user s = Some u \<and> favoriteIds (toggleFavorite 42 s) = {}
      \<and> pending (toggleFavorite 42 s) = [(FavoritesPost 7 42, KToggle u False 42, None)]"
  using toggleFavorite_defers_update[of "(fresh_app Map.empty)\<lparr>user := Some \<lparr>uid = 7, username = ''ana'', nickname = ''Ana'', avatar_url = None, is_admin = False\<rparr>\<rparr>" "\<lparr>uid = 7, username = ''ana'', nickname = ''Ana'', avatar_url = None, is_admin = False\<rparr>" 42]
  by (simp add: fresh_app_def)

text \<open>C26: an anonymous click changes nothing and sends nothing; it only asks the
  visitor to log in.\<close>

theorem toggleFavorite_anonymous:
  "user s = None \<Longrightarrow> toggleFavorite w s = notify LoginRequired s"
  by (simp add: toggleFavorite_def)

theorem toggleFavorite_anonymous_witness:
  "user (fresh_app Map.empty) = None
   \<and> toggleFavorite 42 (fresh_app Map.empty) = notify LoginRequired (fresh_app Map.empty)"
  using toggleFavorite_anonymous[of "fresh_app Map.empty" 42] by (simp add: fresh_app_def)

text \<open>C22: when the mutation's \<open>fetch\<close> rejects, the continuation only shows an error and
  does not reconcile; when it resolves (whatever the body), it flips the id set as
  decided at the click and reloads the favourites of the user captured at the click.\<close>

theorem toggleFavorite_k_outcomes:
  "toggleFavorite_k u f w NetworkError s = notify FavoriteFailed s
   \<and> (r \<noteq> NetworkError \<longrightarrow>
        favoriteIds (toggleFavorite_k u f w r s) = (if f then favoriteIds s - {w} else insert w (favoriteIds s))
      \<and> pending (toggleFavorite_k u f w r s) = pending s @ [(FavoritesGet (uid u), KLoadFavorites, None)]
      \<and> toasts (toggleFavorite_k u f w r s) = toasts s)"
  by (cases r) (simp_all add: toggleFavorite_k_def loadFavorites_def)

theorem toggleFavorite_k_outcomes_witness:
  "InvalidJson \<noteq> NetworkError
   \<and> favoriteIds (toggleFavorite_k \<lparr>uid = 7, username = ''ana'', nickname = ''Ana'', avatar_url = None, is_admin = False\<rparr> False 42 InvalidJson (fresh_app Map.empty)) = {42}
   \<and> pending (toggleFavorite_k \<lparr>uid = 7, username = ''ana'', nickname = ''Ana'', avatar_url = None, is_admin = False\<rparr> False 42 InvalidJson (fresh_app Map.empty))
       = [(FavoritesGet 7, KLoadFavorites, None)]"
  using toggleFavorite_k_outcomes[of "\<lparr>uid = 7, username = ''ana'', nickname = ''Ana'', avatar_url = None, is_admin = False\<rparr>" False 42 "fresh_app Map.empty" InvalidJson]
  by (simp add: fresh_app_def)

end
