(* ===== verification/Session.thy ===== *)
theory Session
  imports Gallery Favorites
begin

text \<open>
  The session controller: the value of \<open>user\<close> and its copy in \<open>localStorage\<close>.
  \<^item> \<open>user_effect\<close> is the effect of lines 70--74: after a render in which \<open>user\<close>
    changed, \<open>loadFavorites\<close> runs with the new user. Every \<open>setUser\<close> call of the
    code passes a new object or \<open>null\<close>/\<open>undefined\<close>, so the effect runs after every
    \<open>setUser\<close> with a user and does nothing after one without; the model applies it at
    the end of each handler that calls \<open>setUser\<close>, after the handler's own updates.
  \<^item> \<open>mount\<close> is the effect of lines 59--68, run once when the page loads: it restores
    the stored user when both entries are truthy and loads the gallery. \<open>JSON.parse\<close>
    runs before \<open>loadWorks\<close>, so a stored text that does not parse throws, the effect
    aborts and React unmounts the component: the result is the fault.
  \<^item> \<open>handleAuth\<close> (lines 98--122), \<open>handleLogout\<close> (lines 124--131) and
    \<open>handleUpdateProfile\<close> (lines 222--248), with their continuations.
\<close>

definition user_effect :: "app \<Rightarrow> app" where
  "user_effect s = loadFavorites (user s) s"

definition mount :: "app \<Rightarrow> fault + app" where
  "mount s =
    (case (getItem ''user'' (storage s), getItem ''token'' (storage s)) of
       (Some savedUser, Some savedToken) \<Rightarrow>
         if truthy savedUser \<and> truthy savedToken then
           (case restore_user savedUser of
              Inl e \<Rightarrow> Inl e
            | Inr v \<Rightarrow> Inr (user_effect (loadWorks (s\<lparr>user := v\<rparr>))))
         else Inr (loadWorks s)
     | _ \<Rightarrow> Inr (loadWorks s))"

subsection \<open>handleAuth\<close>

definition handleAuth :: "app \<Rightarrow> app" where
  "handleAuth s =
    issue (AuthPost (authMode s) (af_username (authForm s)) (af_password (authForm s)))
          (KAuth (authMode s)) s"

text \<open>
  The continuation keeps the mode captured at submission for the message (line 115).
  On success it adopts \<open>data.user\<close>, stores it and \<open>data.token\<close>, closes the dialog,
  clears the form, reloads the gallery and notifies; the user effect then loads the
  favourites.
\<close>

definition handleAuth_k :: "auth_mode \<Rightarrow> reply \<Rightarrow> app \<Rightarrow> app" where
  "handleAuth_k m r s =
    (case r of
       Reply b \<Rightarrow>
         if r_success b then
           user_effect
             (notify (if m = Login then Welcome else Registered)
               (loadWorks
                 (s\<lparr>user := r_user b,
                    storage := setItem ''token'' (js_to_string (r_token b))
                                 (setItem ''user'' (stored_user_text (r_user b)) (storage s)),
                    showAuthDialog := False,
                    authForm := empty_auth_form\<rparr>)))
         else notify (AuthError (r_error b)) s
     | _ \<Rightarrow> notify RequestFailed s)"

subsection \<open>handleLogout\<close>

definition handleLogout :: "app \<Rightarrow> app" where
  "handleLogout s =
    notify LoggedOut
      (s\<lparr>user := None, isAdminMode := False,
         storage := removeItem ''token'' (removeItem ''user'' (storage s)),
         currentView := Gallery\<rparr>)"

subsection \<open>handleUpdateProfile\<close>

text \<open>The body of the PUT (lines 227--230): only the non-empty fields of the form.\<close>

definition profile_updates :: "js_id \<Rightarrow> profile_form \<Rightarrow> profile_update" where
  "profile_updates i pf =
    \<lparr>upd_user_id = i,
     upd_nickname = (if truthy (pf_nickname pf) then Some (pf_nickname pf) else None),
     upd_password = (if truthy (pf_password pf) then Some (pf_password pf) else None),
     upd_avatar_url = (if truthy (pf_avatar pf) then Some (pf_avatar pf) else None)\<rparr>"

definition handleUpdateProfile :: "app \<Rightarrow> app" where
  "handleUpdateProfile s =
    (case user s of
       None \<Rightarrow> s
     | Some u \<Rightarrow> issue (ProfilePut (profile_updates (uid u) (profileForm s))) KUpdateProfile s)"

definition handleUpdateProfile_k :: "reply \<Rightarrow> app \<Rightarrow> app" where
  "handleUpdateProfile_k r s =
    (case r of
       Reply b \<Rightarrow>
         if r_success b then
           user_effect
             (notify ProfileUpdated
               (s\<lparr>user := r_user b,
                  storage := setItem ''user'' (stored_user_text (r_user b)) (storage s),
                  profileForm := empty_profile_form\<rparr>))
         else s
     | _ \<Rightarrow> notify ProfileFailed s)"

declare user_effect_def [handler_defs] mount_def [handler_defs]
  handleAuth_def [handler_defs] handleAuth_k_def [handler_defs]
  handleLogout_def [handler_defs] handleUpdateProfile_def [handler_defs]
  handleUpdateProfile_k_def [handler_defs]

text \<open>The user effect only sends a request.\<close>

lemma user_effect_frame [simp]:
  "user (user_effect s) = user s" "storage (user_effect s) = storage s"
  "works (user_effect s) = works s" "isAdminMode (user_effect s) = isAdminMode s"
  "currentView (user_effect s) = currentView s" "toasts (user_effect s) = toasts s"
  "favoriteIds (user_effect s) = favoriteIds s"
  by (simp_all add: user_effect_def loadFavorites_def split: option.split)

subsection \<open>Logout\<close>

text \<open>C2: logout clears the session whatever the state before: no user, the admin gate
  off, both stored entries removed, the gallery view; and a reload afterwards starts
  anonymous and only loads the gallery.\<close>

theorem handleLogout_clears:
  "user (handleLogout s) = None \<and> \<not> isAdminMode (handleLogout s)
   \<and> getItem ''user'' (storage (handleLogout s)) = None
   \<and> getItem ''token'' (storage (handleLogout s)) = None
   \<and> currentView (handleLogout s) = Gallery
   \<and> mount (fresh_app (storage (handleLogout s))) = Inr (loadWorks (fresh_app (storage (handleLogout s))))"
  by (simp add: handleLogout_def mount_def fresh_app_def)


subsection \<open>Authentication\<close>

text \<open>C19: a successful login or registration reply adopts the server's user, stores the
  user and the token, closes the dialog, clears the form, reloads the gallery, then
  (user effect) loads the user's favourites, and shows the message of the mode captured
  when the form was submitted.\<close>

theorem handleAuth_k_success:
  assumes "r_success b" and "r_user b = Some u" and "r_token b = Some t"
  shows "user (handleAuth_k m (Reply b) s) = Some u
    \<and> getItem ''user'' (storage (handleAuth_k m (Reply b) s)) = Some (stringify_user u)
    \<and> getItem ''token'' (storage (handleAuth_k m (Reply b) s)) = Some t
    \<and> \<not> showAuthDialog (handleAuth_k m (Reply b) s)
    \<and> authForm (handleAuth_k m (Reply b) s) = empty_auth_form
    \<and> pending (handleAuth_k m (Reply b) s)
        = pending s @ [(WorksGet, KLoadWorks, None), (FavoritesGet (uid u), KLoadFavorites, None)]
    \<and> toasts (handleAuth_k m (Reply b) s) = toasts s @ [if m = Login then Welcome else Registered]"
  using assms
  by (simp add: handleAuth_k_def user_effect_def loadFavorites_def loadWorks_def stored_user_text_def)

theorem handleAuth_k_success_witness:
  "let u = \<lparr>uid = 7, username = ''ana'', nickname = ''Ana'', avatar_url = None, is_admin = False\<rparr>;
       b = empty_body\<lparr>r_success := True, r_user := Some u, r_token := Some ''t1''\<rparr>;
       s = fresh_app Map.empty
   in r_success b \<and> r_user b = Some u \<and> r_token b = Some ''t1''
    \<and> user (handleAuth_k Login (Reply b) s) = Some u
    \<and> pending (handleAuth_k Login (Reply b) s)
        = [(WorksGet, KLoadWorks, None), (FavoritesGet 7, KLoadFavorites, None)]"
proof -
  let ?u = "\<lparr>uid = 7, username = ''ana'', nickname = ''Ana'', avatar_url = None, is_admin = False\<rparr>"
  let ?b = "empty_body\<lparr>r_success := True, r_user := Some ?u, r_token := Some ''t1''\<rparr>"
  have "r_success ?b" "r_user ?b = Some ?u" "r_token ?b = Some ''t1''" by (simp_all add: empty_body_def)
  from handleAuth_k_success[OF this, of Login "fresh_app Map.empty"] this show ?thesis
    by (simp add: fresh_app_def)
qed

text \<open>C20: a rejected authentication (\<open>success: false\<close>) changes nothing but shows the
  server's error text; a transport or parse failure shows the generic failure message.\<close>

theorem handleAuth_k_failure:
  "(\<not> r_success b \<longrightarrow> handleAuth_k m (Reply b) s = notify (AuthError (r_error b)) s)
   \<and> handleAuth_k m NetworkError s = notify RequestFailed s
   \<and> handleAuth_k m InvalidJson s = notify RequestFailed s"
  by (simp add: handleAuth_k_def)

theorem handleAuth_k_failure_witness:
  "\<not> r_success (empty_body\<lparr>r_error := Some ''bad''\<rparr>)
   \<and> handleAuth_k Login (Reply (empty_body\<lparr>r_error := Some ''bad''\<rparr>)) (fresh_app Map.empty)
       = notify (AuthError (Some ''bad'')) (fresh_app Map.empty)"
  using handleAuth_k_failure[of "empty_body\<lparr>r_error := Some ''bad''\<rparr>" Login "fresh_app Map.empty"]
  by (simp add: empty_body_def)

text \<open>C23: when the server reports success without a user, line 110 stores the text
  \<open>'undefined'\<close>; the next page load then throws in \<open>JSON.parse\<close> before the gallery
  is loaded, and keeps doing so until the storage is cleared.\<close>

theorem auth_without_user_breaks_reload:
  assumes "r_success b" and "r_user b = None" and "r_token b = Some t" and "t \<noteq> []"
  shows "mount (fresh_app (storage (handleAuth_k m (Reply b) s))) = Inl UncaughtSyntaxError"
  using assms by (simp add: handleAuth_k_def mount_def fresh_app_def restore_undefined truthy_def)

theorem auth_without_user_breaks_reload_witness:
  "r_success (empty_body\<lparr>r_success := True, r_token := Some ''t1''\<rparr>)
   \<and> r_user (empty_body\<lparr>r_success := True, r_token := Some ''t1''\<rparr>) = None
   \<and> r_token (empty_body\<lparr>r_success := True, r_token := Some ''t1''\<rparr>) = Some ''t1''
   \<and> ''t1'' \<noteq> []
   \<and> mount (fresh_app (storage (handleAuth_k Login (Reply (empty_body\<lparr>r_success := True, r_token := Some ''t1''\<rparr>))
        (fresh_app Map.empty)))) = Inl UncaughtSyntaxError"
proof -
  have h: "r_success (empty_body\<lparr>r_success := True, r_token := Some ''t1''\<rparr>)"
    "r_user (empty_body\<lparr>r_success := True, r_token := Some ''t1''\<rparr>) = None"
    "r_token (empty_body\<lparr>r_success := True, r_token := Some ''t1''\<rparr>) = Some ''t1''"
    "''t1'' \<noteq> []"
    by (simp_all add: empty_body_def)
  show ?thesis using h auth_without_user_breaks_reload[OF h, of Login "fresh_app Map.empty"] by simp
qed

subsection \<open>Profile update\<close>

text \<open>C13: the profile request carries the user id and exactly the form fields that are
  non-empty: an omitted field is absent from the body, never sent as an empty value.\<close>

theorem update_profile_sends_supplied_fields:
  assumes "user s = Some u"
  shows "pending (handleUpdateProfile s) = pending s @ [(ProfilePut
     \<lparr>upd_user_id = uid u,
      upd_nickname = (if pf_nickname (profileForm s) = [] then None else Some (pf_nickname (profileForm s))),
      upd_password = (if pf_password (profileForm s) = [] then None else Some (pf_password (profileForm s))),
      upd_avatar_url = (if pf_avatar (profileForm s) = [] then None else Some (pf_avatar (profileForm s)))\<rparr>,
     KUpdateProfile, None)]"
  using assms by (simp add: handleUpdateProfile_def profile_updates_def truthy_def)

theorem update_profile_sends_supplied_fields_witness:
  "let u = \<lparr>uid = 7, username = ''ana'', nickname = ''Ana'', avatar_url = None, is_admin = False\<rparr>;
       s = (fresh_app Map.empty)\<lparr>user := Some u, profileForm := empty_profile_form\<lparr>pf_nickname := ''X''\<rparr>\<rparr>
   in user s = Some u \<and> pending (handleUpdateProfile s)
        = [(ProfilePut \<lparr>upd_user_id = 7, upd_nickname = Some ''X'', upd_password = None,
                        upd_avatar_url = None\<rparr>, KUpdateProfile, None)]"
  using update_profile_sends_supplied_fields[of
      "(fresh_app Map.empty)\<lparr>user := Some \<lparr>uid = 7, username = ''ana'', nickname = ''Ana'', avatar_url = None, is_admin = False\<rparr>,
         profileForm := empty_profile_form\<lparr>pf_nickname := ''X''\<rparr>\<rparr>"]
  by (simp add: fresh_app_def empty_profile_form_def)

text \<open>C14: a successful profile update replaces the user and its stored copy, so that a
  reload while the token is stored comes back with the updated user (spec P1 for the
  second \<open>setUser\<close> of the component, line 240).\<close>

theorem profile_update_survives_reload:
  assumes "r_success b" and "r_user b = Some u" and "getItem ''token'' (storage s) = Some t" and "t \<noteq> []"
  shows "user (handleUpdateProfile_k (Reply b) s) = Some u
    \<and> mount (fresh_app (storage (handleUpdateProfile_k (Reply b) s)))
        = Inr (user_effect (loadWorks ((fresh_app (storage (handleUpdateProfile_k (Reply b) s)))\<lparr>user := Some u\<rparr>)))"
  using assms
  by (simp add: handleUpdateProfile_k_def mount_def fresh_app_def restore_stored_user truthy_def)

theorem profile_update_survives_reload_witness:
  "let u = \<lparr>uid = 7, username = ''ana'', nickname = ''Anna'', avatar_url = None, is_admin = False\<rparr>;
       b = empty_body\<lparr>r_success := True, r_user := Some u\<rparr>;
       s = (fresh_app (setItem ''token'' ''t1'' Map.empty))
   in r_success b \<and> r_user b = Some u \<and> getItem ''token'' (storage s) = Some ''t1''
    \<and> user (handleUpdateProfile_k (Reply b) s) = Some u
    \<and> (\<exists>s'. mount (fresh_app (storage (handleUpdateProfile_k (Reply b) s))) = Inr s' \<and> user s' = Some u)"
proof -
  let ?u = "\<lparr>uid = 7, username = ''ana'', nickname = ''Anna'', avatar_url = None, is_admin = False\<rparr>"
  let ?b = "empty_body\<lparr>r_success := True, r_user := Some ?u\<rparr>"
  let ?s = "fresh_app (setItem ''token'' ''t1'' Map.empty)"
  have h: "r_success ?b" "r_user ?b = Some ?u" "getItem ''token'' (storage ?s) = Some ''t1''" "''t1'' \<noteq> []"
    by (simp_all add: empty_body_def fresh_app_def)
  from profile_update_survives_reload[OF h] h show ?thesis by simp
qed

end
