(* ===== verification/Admin.thy ===== *)
theory Admin
  imports State
begin

text \<open>
  The admin gate: the flag \<open>isAdminMode\<close>, set by \<open>handleAdminAccess\<close> (lines
  163--172) when the text typed in the admin dialog equals the secret embedded in the
  client, and cleared by the button of the admin panel (lines 459--462) and by logout.
  The handler compares passwords only: it does not look at \<open>user\<close>.
\<close>

definition handleAdminAccess :: "app \<Rightarrow> app" where
  "handleAdminAccess s =
    (if adminPassword s = ADMIN_PASSWORD
     then notify AdminActivated (s\<lparr>isAdminMode := True, showAdminDialog := False, adminPassword := []\<rparr>)
     else notify WrongAdminPassword s)"

definition leaveAdmin :: "app \<Rightarrow> app" where
  "leaveAdmin s = notify AdminLeft (s\<lparr>isAdminMode := False\<rparr>)"

declare handleAdminAccess_def [handler_defs] leaveAdmin_def [handler_defs]


subsection \<open>Properties\<close>

text \<open>C8: the challenge. The secret turns the gate on, closes the dialog, clears the
  input and notifies; any other text leaves the gate and the dialog as they were and
  notifies the failure (the dialog stays open for another try). Both hold in every
  state, signed in or not: the handler does not look at the user, although spec P4
  wants the secret to turn the gate on only for a signed-in user.\<close>

theorem handleAdminAccess_checks_secret:
  "(adminPassword s = ADMIN_PASSWORD \<longrightarrow>
      isAdminMode (handleAdminAccess s) \<and> \<not> showAdminDialog (handleAdminAccess s)
      \<and> adminPassword (handleAdminAccess s) = [] \<and> toasts (handleAdminAccess s) = toasts s @ [AdminActivated])
   \<and> (adminPassword s \<noteq> ADMIN_PASSWORD \<longrightarrow>
      isAdminMode (handleAdminAccess s) = isAdminMode s \<and> showAdminDialog (handleAdminAccess s) = showAdminDialog s
      \<and> toasts (handleAdminAccess s) = toasts s @ [WrongAdminPassword])"
  by (simp add: handleAdminAccess_def)

theorem handleAdminAccess_checks_secret_witness:
  "adminPassword ((fresh_app Map.empty)\<lparr>adminPassword := ''Nast8292jw'', showAdminDialog := True\<rparr>) = ADMIN_PASSWORD
   \<and> isAdminMode (handleAdminAccess ((fresh_app Map.empty)\<lparr>adminPassword := ''Nast8292jw'', showAdminDialog := True\<rparr>))
   \<and> adminPassword ((fresh_app Map.empty)\<lparr>adminPassword := ''guess''\<rparr>) \<noteq> ADMIN_PASSWORD
   \<and> \<not> isAdminMode (handleAdminAccess ((fresh_app Map.empty)\<lparr>adminPassword := ''guess''\<rparr>))"
  using handleAdminAccess_checks_secret[of "(fresh_app Map.empty)\<lparr>adminPassword := ''Nast8292jw'', showAdminDialog := True\<rparr>"]
    handleAdminAccess_checks_secret[of "(fresh_app Map.empty)\<lparr>adminPassword := ''guess''\<rparr>"]
  by (simp_all add: ADMIN_PASSWORD_def fresh_app_def)


end
