(* ===== verification/View.thy ===== *)
theory View
  imports Session Admin
begin

text \<open>
  The view and dialog state machine, and the dispatch of everything that can happen to
  the page. The JSX of lines 293--684 decides which controls exist: the header offers
  the three views and the avatar to a present user and the login button otherwise; the
  gallery lists \<open>works\<close>, the favourites view \<open>favorites\<close> (only with a user), the
  settings view the profile form, the admin panel and logout (only with a user); four
  modal dialogs (auth, admin, publish, work detail) are open when their flag is set or a
  work is selected. A modal dialog makes the page behind it inert, so while one is open
  only its own controls can be used. Form inputs marked \<open>required\<close> (lines 520, 531,
  620) block submission while empty, and the publish button is disabled without an
  image (line 647).

  An \<open>event\<close> is one user interaction, named after the control; \<open>enabled\<close> says
  whether the rendered page offers it; \<open>handle_event\<close> runs its handler. A dialog's
  \<open>onOpenChange\<close> is only ever called to close it (the dialogs have no trigger of
  their own), so each dialog has one close event. Choosing a file runs
  \<open>handleImageUpload\<close>, whose \<open>FileReader\<close> callback stores the data URL; the event
  carries that URL (\<open>None\<close>: no file chosen).
\<close>

datatype event =
    ClickWork work                 \<comment> \<open>line 254\<close>
  | ClickHeart js_id               \<comment> \<open>lines 268--271\<close>
  | Nav view                       \<comment> \<open>lines 305, 309, 313; the avatar, line 317, is \<open>Nav Settings\<close>\<close>
  | OpenAuth                       \<comment> \<open>line 323\<close>
  | OpenPublish                    \<comment> \<open>line 341\<close>
  | SubmitProfile                  \<comment> \<open>line 391\<close>
  | UploadImage upload_target "string option" \<comment> \<open>lines 174--188, 408, 607\<close>
  | EditNickname string            \<comment> \<open>line 420\<close>
  | EditNewPassword string         \<comment> \<open>line 431\<close>
  | LeaveAdmin                     \<comment> \<open>lines 459--462\<close>
  | OpenAdmin                      \<comment> \<open>line 470\<close>
  | Logout                         \<comment> \<open>line 478\<close>
  | CloseAuth                      \<comment> \<open>line 486\<close>
  | SetAuthMode auth_mode          \<comment> \<open>lines 500, 508\<close>
  | SubmitAuth                     \<comment> \<open>line 515\<close>
  | EditUsername string            \<comment> \<open>line 522\<close>
  | EditPassword string            \<comment> \<open>line 533\<close>
  | CloseAdmin                     \<comment> \<open>line 545\<close>
  | EditAdminPassword string       \<comment> \<open>line 559\<close>
  | SubmitAdmin                    \<comment> \<open>lines 560, 564\<close>
  | ClosePublish                   \<comment> \<open>line 572\<close>
  | RemoveImage                    \<comment> \<open>line 591\<close>
  | EditTitle string               \<comment> \<open>line 620\<close>
  | EditDescription string         \<comment> \<open>line 630\<close>
  | EditPrice string               \<comment> \<open>line 642\<close>
  | SubmitWork                     \<comment> \<open>line 579\<close>
  | CloseDetail                    \<comment> \<open>line 655\<close>

subsection \<open>What the page offers\<close>

definition dialog_open :: "app \<Rightarrow> bool" where
  "dialog_open s \<longleftrightarrow> showAuthDialog s \<or> showAdminDialog s \<or> showWorkDialog s \<or> selectedWork s \<noteq> None"

text \<open>The work cards on screen: the gallery (line 358) or the favourites (line 375).\<close>

definition visible_cards :: "app \<Rightarrow> work list" where
  "visible_cards s =
    (case currentView s of
       Gallery \<Rightarrow> works s
     | Favorites \<Rightarrow> (if user s = None then [] else favorites s)
     | Settings \<Rightarrow> [])"

definition page_event :: "app \<Rightarrow> event \<Rightarrow> bool" where
  "page_event s e =
    (case e of
       ClickWork w \<Rightarrow> w \<in> set (visible_cards s)
     | ClickHeart i \<Rightarrow> user s \<noteq> None \<and> i \<in> wid ` set (visible_cards s)
     | Nav v \<Rightarrow> user s \<noteq> None
     | OpenAuth \<Rightarrow> user s = None
     | OpenPublish \<Rightarrow> currentView s = Gallery \<and> user s \<noteq> None \<and> isAdminMode s
     | SubmitProfile \<Rightarrow> currentView s = Settings \<and> user s \<noteq> None
     | UploadImage UploadAvatar _ \<Rightarrow> currentView s = Settings \<and> user s \<noteq> None
     | EditNickname _ \<Rightarrow> currentView s = Settings \<and> user s \<noteq> None
     | EditNewPassword _ \<Rightarrow> currentView s = Settings \<and> user s \<noteq> None
     | LeaveAdmin \<Rightarrow> currentView s = Settings \<and> user s \<noteq> None \<and> isAdminMode s
     | OpenAdmin \<Rightarrow> currentView s = Settings \<and> user s \<noteq> None \<and> \<not> isAdminMode s
     | Logout \<Rightarrow> currentView s = Settings \<and> user s \<noteq> None
     | _ \<Rightarrow> False)"

definition dialog_event :: "app \<Rightarrow> event \<Rightarrow> bool" where
  "dialog_event s e =
    (case e of
       CloseAuth \<Rightarrow> showAuthDialog s
     | SetAuthMode _ \<Rightarrow> showAuthDialog s
     | EditUsername _ \<Rightarrow> showAuthDialog s
     | EditPassword _ \<Rightarrow> showAuthDialog s
     | SubmitAuth \<Rightarrow> showAuthDialog s \<and> truthy (af_username (authForm s)) \<and> truthy (af_password (authForm s))
     | CloseAdmin \<Rightarrow> showAdminDialog s
     | EditAdminPassword _ \<Rightarrow> showAdminDialog s
     | SubmitAdmin \<Rightarrow> showAdminDialog s
     | ClosePublish \<Rightarrow> showWorkDialog s
     | RemoveImage \<Rightarrow> showWorkDialog s \<and> truthy (wf_image (workForm s))
     | UploadImage UploadWork _ \<Rightarrow> showWorkDialog s \<and> \<not> truthy (wf_image (workForm s))
     | EditTitle _ \<Rightarrow> showWorkDialog s
     | EditDescription _ \<Rightarrow> showWorkDialog s
     | EditPrice _ \<Rightarrow> showWorkDialog s
     | SubmitWork \<Rightarrow> showWorkDialog s \<and> truthy (wf_image (workForm s)) \<and> truthy (wf_title (workForm s))
     | CloseDetail \<Rightarrow> selectedWork s \<noteq> None
     | _ \<Rightarrow> False)"

definition enabled :: "app \<Rightarrow> event \<Rightarrow> bool" where
  "enabled s e \<longleftrightarrow> (if dialog_open s then dialog_event s e else page_event s e)"

subsection \<open>Handlers of the events\<close>

text \<open>The \<open>FileReader\<close> callback of \<open>handleImageUpload\<close> (lines 178--185).\<close>

definition handleImageUpload :: "upload_target \<Rightarrow> string option \<Rightarrow> app \<Rightarrow> app" where
  "handleImageUpload t file s =
    (case file of
       None \<Rightarrow> s
     | Some result \<Rightarrow>
         (case t of
            UploadWork \<Rightarrow> s\<lparr>workForm := (workForm s)\<lparr>wf_image := result\<rparr>\<rparr>
          | UploadAvatar \<Rightarrow> s\<lparr>profileForm := (profileForm s)\<lparr>pf_avatar := result\<rparr>\<rparr>))"

fun handle_event :: "event \<Rightarrow> app \<Rightarrow> app" where
  "handle_event (ClickWork w) s = s\<lparr>selectedWork := Some w\<rparr>"
| "handle_event (ClickHeart i) s = toggleFavorite i s"
| "handle_event (Nav v) s = s\<lparr>currentView := v\<rparr>"
| "handle_event OpenAuth s = s\<lparr>showAuthDialog := True\<rparr>"
| "handle_event OpenPublish s = s\<lparr>showWorkDialog := True\<rparr>"
| "handle_event SubmitProfile s = handleUpdateProfile s"
| "handle_event (UploadImage t f) s = handleImageUpload t f s"
| "handle_event (EditNickname x) s = s\<lparr>profileForm := (profileForm s)\<lparr>pf_nickname := x\<rparr>\<rparr>"
| "handle_event (EditNewPassword x) s = s\<lparr>profileForm := (profileForm s)\<lparr>pf_password := x\<rparr>\<rparr>"
| "handle_event LeaveAdmin s = leaveAdmin s"
| "handle_event OpenAdmin s = s\<lparr>showAdminDialog := True\<rparr>"
| "handle_event Logout s = handleLogout s"
| "handle_event CloseAuth s = s\<lparr>showAuthDialog := False\<rparr>"
| "handle_event (SetAuthMode m) s = s\<lparr>authMode := m\<rparr>"
| "handle_event SubmitAuth s = handleAuth s"
| "handle_event (EditUsername x) s = s\<lparr>authForm := (authForm s)\<lparr>af_username := x\<rparr>\<rparr>"
| "handle_event (EditPassword x) s = s\<lparr>authForm := (authForm s)\<lparr>af_password := x\<rparr>\<rparr>"
| "handle_event CloseAdmin s = s\<lparr>showAdminDialog := False\<rparr>"
| "handle_event (EditAdminPassword x) s = s\<lparr>adminPassword := x\<rparr>"
| "handle_event SubmitAdmin s = handleAdminAccess s"
| "handle_event ClosePublish s = s\<lparr>showWorkDialog := False\<rparr>"
| "handle_event RemoveImage s = s\<lparr>workForm := (workForm s)\<lparr>wf_image := []\<rparr>\<rparr>"
| "handle_event (EditTitle x) s = s\<lparr>workForm := (workForm s)\<lparr>wf_title := x\<rparr>\<rparr>"
| "handle_event (EditDescription x) s = s\<lparr>workForm := (workForm s)\<lparr>wf_description := x\<rparr>\<rparr>"
| "handle_event (EditPrice x) s = s\<lparr>workForm := (workForm s)\<lparr>wf_price := x\<rparr>\<rparr>"
| "handle_event SubmitWork s = handleCreateWork s"
| "handle_event CloseDetail s = s\<lparr>selectedWork := None\<rparr>"

subsection \<open>Replies\<close>

text \<open>The continuation an arriving reply resumes.\<close>

fun resume :: "cont \<Rightarrow> reply \<Rightarrow> app \<Rightarrow> app" where
  "resume KLoadWorks r s = loadWorks_k r s"
| "resume KLoadFavorites r s = loadFavorites_k r s"
| "resume (KAuth m) r s = handleAuth_k m r s"
| "resume (KToggle u f w) r s = toggleFavorite_k u f w r s"
| "resume KCreateWork r s = handleCreateWork_k r s"
| "resume KUpdateProfile r s = handleUpdateProfile_k r s"

text \<open>Removing the \<open>i\<close>-th pending call.\<close>

definition remove_nth :: "nat \<Rightarrow> 'a list \<Rightarrow> 'a list" where
  "remove_nth i xs = take i xs @ drop (Suc i) xs"

text \<open>
  The reply of the \<open>i\<close>-th pending call arrives: the call leaves the list and its
  continuation runs. \<open>None\<close> when there is no such call or it has no reply yet.
\<close>

definition receive :: "nat \<Rightarrow> app \<Rightarrow> app option" where
  "receive i s =
    (if i < length (pending s) then
       (case pending s ! i of
          (q, k, Some r) \<Rightarrow> Some (resume k r (s\<lparr>pending := remove_nth i (pending s)\<rparr>))
        | (q, k, None) \<Rightarrow> None)
     else None)"

declare handleImageUpload_def [handler_defs]


subsection \<open>Properties\<close>

text \<open>C3: whatever the user does, a request to create a work is only ever sent from a
  state with a user and the admin gate on (spec P5, over every event handler).\<close>

theorem works_post_requires_admin:
  assumes "(WorksPost i t d img p, k, r) \<in> set (pending (handle_event e s))"
    and "(WorksPost i t d img p, k, r) \<notin> set (pending s)"
  shows "isAdminMode s \<and> user s \<noteq> None"
  using assms
  by (cases e) (auto simp: handler_defs split: option.splits if_splits upload_target.splits)

theorem works_post_requires_admin_witness:
  "let s = (fresh_app Map.empty)\<lparr>user := Some \<lparr>uid = 7, username = ''ana'', nickname = ''Ana'', avatar_url = None, is_admin = False\<rparr>, isAdminMode := True,
             workForm := \<lparr>wf_title = ''Sea'', wf_description = [], wf_price = [], wf_image = ''data:x''\<rparr>\<rparr>
   in (WorksPost 7 ''Sea'' [] ''data:x'' None, KCreateWork, None) \<in> set (pending (handle_event SubmitWork s))
      \<and> (WorksPost 7 ''Sea'' [] ''data:x'' None, KCreateWork, None) \<notin> set (pending s)
      \<and> isAdminMode s \<and> user s \<noteq> None"
proof -
  let ?s = "(fresh_app Map.empty)\<lparr>user := Some \<lparr>uid = 7, username = ''ana'', nickname = ''Ana'', avatar_url = None, is_admin = False\<rparr>, isAdminMode := True,
             workForm := \<lparr>wf_title = ''Sea'', wf_description = [], wf_price = [], wf_image = ''data:x''\<rparr>\<rparr>"
  have h: "(WorksPost 7 ''Sea'' [] ''data:x'' None, KCreateWork, None) \<in> set (pending (handle_event SubmitWork ?s))"
    "(WorksPost 7 ''Sea'' [] ''data:x'' None, KCreateWork, None) \<notin> set (pending ?s)"
    by (simp_all add: fresh_app_def handleCreateWork_def price_payload_def)
  from works_post_requires_admin[OF h] h show ?thesis by simp
qed

text \<open>C29: every user event sends at most one request, and leaves the calls already in
  flight as they are: handlers only append to \<open>pending\<close>.\<close>

theorem event_sends_at_most_one:
  "\<exists>new. pending (handle_event e s) = pending s @ new \<and> length new \<le> 1"
  by (cases e) (auto simp: handler_defs split: option.splits if_splits upload_target.splits)

end
