(* ===== verification/Accounts.thy ===== *)
theory Accounts
  imports Gateway
begin

text \<open>
  The accounts behind the auth and profile resources. The services are not in the
  repository; this theory models them from the spec (section 6: \<open>POST\<close> auth with
  \<open>{action, username, password}\<close> answers \<open>{success, user?, token?, error?}\<close>;
  \<open>PUT\<close> profile with \<open>{user_id, nickname?, password?, avatar_url?}\<close> answers
  \<open>{success, user?}\<close>; property P6: fields the request omits are kept). An account is
  a user record with its password, and the store is a list of accounts, as CoCon keeps
  its user ids. Each operation maps the list of accounts and a request to the reply and
  the new list:
  \<^item> \<open>auth\<close>: a login finds the account by user name and checks the password; a
    registration takes a user name not yet in use and creates a non-admin account whose
    id is one more than the largest id and whose nickname is the user name.
  \<^item> \<open>update_profile\<close>: finds the account by id and overwrites the nickname, the avatar
    and the password that the request carries, keeping the others.
  \<open>accounts_ok\<close> is the invariant of the store: ids and user names are unique.
\<close>

type_synonym account = "user \<times> string"

definition find_user :: "account list \<Rightarrow> string \<Rightarrow> account option" where
  "find_user accs n = find (\<lambda>a. username (fst a) = n) accs"

definition find_uid :: "account list \<Rightarrow> js_id \<Rightarrow> account option" where
  "find_uid accs i = find (\<lambda>a. uid (fst a) = i) accs"

definition next_uid :: "account list \<Rightarrow> js_id" where
  "next_uid accs = foldr (\<lambda>a m. max (uid (fst a)) m) accs 0 + 1"

definition session_token :: "user \<Rightarrow> string" where
  "session_token u = ''session:'' @ username u"

definition auth_success :: "user \<Rightarrow> reply" where
  "auth_success u = Reply (empty_body\<lparr>r_success := True, r_user := Some u, r_token := Some (session_token u)\<rparr>)"

definition auth_failure :: "string \<Rightarrow> reply" where
  "auth_failure e = Reply (empty_body\<lparr>r_error := Some e\<rparr>)"

definition new_account :: "account list \<Rightarrow> string \<Rightarrow> user" where
  "new_account accs n = \<lparr>uid = next_uid accs, username = n, nickname = n, avatar_url = None, is_admin = False\<rparr>"

fun auth :: "account list \<Rightarrow> auth_mode \<Rightarrow> string \<Rightarrow> string \<Rightarrow> reply \<times> account list" where
  "auth accs Login n p =
     (case find_user accs n of
        Some (u, p') \<Rightarrow> (if p' = p then auth_success u else auth_failure ''Invalid credentials'', accs)
      | None \<Rightarrow> (auth_failure ''Invalid credentials'', accs))"
| "auth accs Register n p =
     (case find_user accs n of
        Some _ \<Rightarrow> (auth_failure ''Username already taken'', accs)
      | None \<Rightarrow> (auth_success (new_account accs n), (new_account accs n, p) # accs))"

definition updated_account :: "profile_update \<Rightarrow> account \<Rightarrow> account" where
  "updated_account q a =
    (case a of (u, p) \<Rightarrow>
      (u\<lparr>nickname := (case upd_nickname q of None \<Rightarrow> nickname u | Some x \<Rightarrow> x),
         avatar_url := (case upd_avatar_url q of None \<Rightarrow> avatar_url u | Some x \<Rightarrow> Some x)\<rparr>,
       case upd_password q of None \<Rightarrow> p | Some x \<Rightarrow> x))"

definition update_profile :: "account list \<Rightarrow> profile_update \<Rightarrow> reply \<times> account list" where
  "update_profile accs q =
    (case find_uid accs (upd_user_id q) of
       None \<Rightarrow> (Reply empty_body, accs)
     | Some a \<Rightarrow>
         (Reply (empty_body\<lparr>r_success := True, r_user := Some (fst (updated_account q a))\<rparr>),
          map (\<lambda>b. if uid (fst b) = upd_user_id q then updated_account q b else b) accs))"

definition accounts_ok :: "account list \<Rightarrow> bool" where
  "accounts_ok accs \<longleftrightarrow> distinct (map (uid \<circ> fst) accs) \<and> distinct (map (username \<circ> fst) accs)"

subsection \<open>Lookups and the invariant\<close>

lemma find_user_None: "find_user accs n = None \<longleftrightarrow> n \<notin> (username \<circ> fst) ` set accs"
  by (force simp: find_user_def find_None_iff)

lemma find_user_Some: "find_user accs n = Some a \<Longrightarrow> a \<in> set accs \<and> username (fst a) = n"
  by (auto simp: find_user_def find_Some_iff)

lemma find_uid_Some: "find_uid accs i = Some a \<Longrightarrow> a \<in> set accs \<and> uid (fst a) = i"
  by (auto simp: find_uid_def find_Some_iff)

lemma find_user_account:
  "accounts_ok accs \<Longrightarrow> (u, p) \<in> set accs \<Longrightarrow> find_user accs (username u) = Some (u, p)"
  using find_distinct_key[of "username \<circ> fst" accs "(u, p)"] by (simp add: accounts_ok_def find_user_def)

lemma find_uid_account:
  "accounts_ok accs \<Longrightarrow> (u, p) \<in> set accs \<Longrightarrow> find_uid accs (uid u) = Some (u, p)"
  using find_distinct_key[of "uid \<circ> fst" accs "(u, p)"] by (simp add: accounts_ok_def find_uid_def)

lemma next_uid_fresh: "next_uid accs \<notin> (uid \<circ> fst) ` set accs"
  using foldr_max_fresh[of "\<lambda>a. uid (fst a)" accs] by (simp add: next_uid_def image_comp)

lemma updated_account_keys [simp]:
  "uid (fst (updated_account q a)) = uid (fst a)" "username (fst (updated_account q a)) = username (fst a)"
  "is_admin (fst (updated_account q a)) = is_admin (fst a)"
  by (simp_all add: updated_account_def split: prod.splits)

lemma accounts_ok_auth: "accounts_ok accs \<Longrightarrow> accounts_ok (snd (auth accs m n p))"
  using next_uid_fresh[of accs]
  by (cases m) (auto simp: accounts_ok_def find_user_None new_account_def split: option.splits)

lemma map_updated_keys:
  "map (k \<circ> fst \<circ> (\<lambda>b. if uid (fst b) = i then updated_account q b else b)) accs = map (k \<circ> fst) accs"
  if "\<And>a. k (fst (updated_account q a)) = k (fst a)"
  using that by (induction accs) auto

lemma accounts_ok_update_profile: "accounts_ok accs \<Longrightarrow> accounts_ok (snd (update_profile accs q))"
  by (auto simp: accounts_ok_def update_profile_def map_updated_keys split: option.splits)

lemma find_uid_updated:
  assumes "accounts_ok accs" "(u, p) \<in> set accs"
  shows "find_uid (map (\<lambda>b. if uid (fst b) = uid u then updated_account q b else b) accs) (uid u)
           = Some (updated_account q (u, p))"
proof -
  have "accounts_ok (map (\<lambda>b. if uid (fst b) = uid u then updated_account q b else b) accs)"
    using assms(1) by (simp add: accounts_ok_def map_updated_keys)
  moreover have "updated_account q (u, p) \<in> set (map (\<lambda>b. if uid (fst b) = uid u then updated_account q b else b) accs)"
    using assms(2) by force
  ultimately show ?thesis
    using find_uid_account[of _ "fst (updated_account q (u, p))" "snd (updated_account q (u, p))"] by simp
qed

text \<open>A login with an account's user name: it succeeds with that account's user exactly
  when the password is the account's, and the store is unchanged either way.\<close>

lemma login_account:
  "accounts_ok accs \<Longrightarrow> (u, p) \<in> set accs \<Longrightarrow>
   auth accs Login (username u) p' = (if p' = p then auth_success u else auth_failure ''Invalid credentials'', accs)"
  by (simp add: find_user_account)

text \<open>A registration is answered, and a login with the same name and password gets the
  same reply from the store it leaves.\<close>

lemma register_login:
  "find_user accs n = None \<Longrightarrow>
   auth accs Register n p = (auth_success (new_account accs n), (new_account accs n, p) # accs)
   \<and> auth ((new_account accs n, p) # accs) Login n p = (auth_success (new_account accs n), (new_account accs n, p) # accs)"
  by (simp add: find_user_def new_account_def)

end
