(* ===== verification/Server.thy ===== *)
theory Server
  imports Accounts
begin

text \<open>
  The remote services are not in the repository; this theory models only their reply
  contract (spec section 6), so that the page can be run against them.
  \<^item> \<open>server\<close> holds the published works, the favourite relation (user id, work
    id) and the accounts of theory Accounts.
  \<^item> \<open>serves S q r S'\<close>: the server in state \<open>S\<close> may answer request \<open>q\<close> with reply
    \<open>r\<close> and move to \<open>S'\<close>. A successful authentication carries a user and a
    non-empty token; a successful profile update carries the user with the id the request
    named; both may change the accounts, and only the accounts; a favourites list holds the published works the user marked. Any request may
    also end in an unreadable body (server error page) or a lost response
    (\<open>fetch\<close> rejects) after the server has processed it.
  \<^item> \<open>reply_fits q r\<close>: what the client may rely on of a reply to \<open>q\<close>, whatever the
    server state; every reply of the contract fits.
  \<^item> \<open>honest\<close>: one deterministic server of the contract, which serves the works
    and favourites resources faithfully (a publication gets the next free id) and the
    auth and profile resources by the account operations of theory Accounts; it is
    used to run the protocols to their end. It keeps the accounts invariant.
\<close>

record server =
  srv_works :: "work list"
  srv_favs :: "(js_id \<times> js_id) set"
  srv_accounts :: "account list"

definition favorites_of :: "server \<Rightarrow> js_id \<Rightarrow> work list" where
  "favorites_of S i = filter (\<lambda>w. (i, wid w) \<in> srv_favs S) (srv_works S)"

inductive serves :: "server \<Rightarrow> request \<Rightarrow> reply \<Rightarrow> server \<Rightarrow> bool" where
  auth_ok: "t \<noteq> [] \<Longrightarrow>
    serves S (AuthPost m n p) (Reply (empty_body\<lparr>r_success := True, r_user := Some u, r_token := Some t\<rparr>))
      (S\<lparr>srv_accounts := a\<rparr>)"
| auth_rejected: "serves S (AuthPost m n p) (Reply (empty_body\<lparr>r_error := e\<rparr>)) S"
| works_list: "serves S WorksGet (Reply (empty_body\<lparr>r_works := Some (srv_works S)\<rparr>)) S"
| works_created: "wid w \<notin> wid ` set (srv_works S) \<Longrightarrow> user_id w = i \<Longrightarrow> title w = t \<Longrightarrow>
    serves S (WorksPost i t d img pr) (Reply (empty_body\<lparr>r_success := True\<rparr>)) (S\<lparr>srv_works := w # srv_works S\<rparr>)"
| works_rejected: "serves S (WorksPost i t d img pr) (Reply empty_body) S"
| favorites_list: "serves S (FavoritesGet i) (Reply (empty_body\<lparr>r_favorites := Some (favorites_of S i)\<rparr>)) S"
| favorite_added: "serves S (FavoritesPost i w) (Reply (empty_body\<lparr>r_success := True\<rparr>))
    (S\<lparr>srv_favs := insert (i, w) (srv_favs S)\<rparr>)"
| favorite_removed: "serves S (FavoritesDelete i w) (Reply (empty_body\<lparr>r_success := True\<rparr>))
    (S\<lparr>srv_favs := srv_favs S - {(i, w)}\<rparr>)"
| profile_ok: "uid u = upd_user_id q \<Longrightarrow>
    serves S (ProfilePut q) (Reply (empty_body\<lparr>r_success := True, r_user := Some u\<rparr>)) (S\<lparr>srv_accounts := a\<rparr>)"
| profile_rejected: "serves S (ProfilePut q) (Reply empty_body) S"
| unreadable: "serves S q r S' \<Longrightarrow> serves S q InvalidJson S'"
| lost: "serves S q r S' \<Longrightarrow> serves S q NetworkError S'"

fun reply_fits :: "request \<Rightarrow> reply \<Rightarrow> bool" where
  "reply_fits q NetworkError = True"
| "reply_fits q InvalidJson = True"
| "reply_fits (AuthPost m n p) (Reply b) =
     (\<not> r_success b \<or> (r_user b \<noteq> None \<and> truthy_opt (r_token b)))"
| "reply_fits (ProfilePut q) (Reply b) =
     (\<not> r_success b \<or> (case r_user b of None \<Rightarrow> False | Some u \<Rightarrow> uid u = upd_user_id q))"
| "reply_fits q (Reply b) = True"

definition next_wid :: "work list \<Rightarrow> js_id" where
  "next_wid ws = foldr (\<lambda>w m. max (wid w) m) ws 0 + 1"

definition created_work :: "work list \<Rightarrow> js_id \<Rightarrow> string \<Rightarrow> string \<Rightarrow> string \<Rightarrow> js_number option \<Rightarrow> work" where
  "created_work ws i t d img pr =
    \<lparr>wid = next_wid ws, user_id = i, title = t, description = (if d = [] then None else Some d),
     image_url = img, price = pr, created_at = [], author_nickname = None\<rparr>"

definition honest :: "server \<Rightarrow> request \<Rightarrow> reply \<times> server" where
  "honest S q =
    (case q of
       FavoritesGet i \<Rightarrow> (Reply (empty_body\<lparr>r_favorites := Some (favorites_of S i)\<rparr>), S)
     | FavoritesPost i w \<Rightarrow> (Reply (empty_body\<lparr>r_success := True\<rparr>), S\<lparr>srv_favs := insert (i, w) (srv_favs S)\<rparr>)
     | FavoritesDelete i w \<Rightarrow> (Reply (empty_body\<lparr>r_success := True\<rparr>), S\<lparr>srv_favs := srv_favs S - {(i, w)}\<rparr>)
     | WorksGet \<Rightarrow> (Reply (empty_body\<lparr>r_works := Some (srv_works S)\<rparr>), S)
     | WorksPost i t d img pr \<Rightarrow>
         (Reply (empty_body\<lparr>r_success := True\<rparr>),
          S\<lparr>srv_works := created_work (srv_works S) i t d img pr # srv_works S\<rparr>)
     | AuthPost m n p \<Rightarrow> (case auth (srv_accounts S) m n p of (r, a) \<Rightarrow> (r, S\<lparr>srv_accounts := a\<rparr>))
     | ProfilePut pu \<Rightarrow> (case update_profile (srv_accounts S) pu of (r, a) \<Rightarrow> (r, S\<lparr>srv_accounts := a\<rparr>)))"

subsection \<open>The contract and the client's expectations\<close>

text \<open>A sign-in or a profile reply that leaves the accounts as they are.\<close>

lemma serves_kept:
  "t \<noteq> [] \<Longrightarrow>
    serves S (AuthPost m n p) (Reply (empty_body\<lparr>r_success := True, r_user := Some u, r_token := Some t\<rparr>)) S"
  "uid u = upd_user_id q \<Longrightarrow> serves S (ProfilePut q) (Reply (empty_body\<lparr>r_success := True, r_user := Some u\<rparr>)) S"
  using serves.auth_ok[where S = S and a = "srv_accounts S"] serves.profile_ok[where S = S and a = "srv_accounts S"]
  by simp_all

lemma serves_fits: "serves S q r S' \<Longrightarrow> reply_fits q r"
  by (induction rule: serves.induct) (auto simp: empty_body_def truthy_def)

lemma next_wid_fresh: "next_wid ws \<notin> wid ` set ws"
  unfolding next_wid_def by (rule foldr_max_fresh)

lemma created_work_simps [simp]:
  "wid (created_work ws i t d img pr) = next_wid ws" "user_id (created_work ws i t d img pr) = i"
  "title (created_work ws i t d img pr) = t"
  by (simp_all add: created_work_def)

lemma honest_serves:
  assumes h: "honest S q = (r, S')"
  shows "serves S q r S'"
proof (cases q)
  case (WorksPost i t d img pr)
  have "serves S q (Reply (empty_body\<lparr>r_success := True\<rparr>))
          (S\<lparr>srv_works := created_work (srv_works S) i t d img pr # srv_works S\<rparr>)"
    unfolding WorksPost by (rule serves.works_created) (simp_all add: next_wid_fresh)
  then show ?thesis using WorksPost h by (simp add: honest_def)
next
  case (AuthPost m n p)
  have "serves S q (fst (auth (srv_accounts S) m n p)) (S\<lparr>srv_accounts := snd (auth (srv_accounts S) m n p)\<rparr>)"
    unfolding AuthPost
    by (cases m) (auto simp: auth_success_def auth_failure_def session_token_def intro: serves.intros serves_kept
        split: option.splits)
  then show ?thesis using AuthPost h by (simp add: honest_def split: prod.splits)
next
  case (ProfilePut pu)
  have "serves S q (fst (update_profile (srv_accounts S) pu))
          (S\<lparr>srv_accounts := snd (update_profile (srv_accounts S) pu)\<rparr>)"
  proof (cases "find_uid (srv_accounts S) (upd_user_id pu)")
    case (Some a)
    then have "uid (fst (updated_account pu a)) = upd_user_id pu" by (simp add: find_uid_Some)
    with Some show ?thesis by (simp add: ProfilePut update_profile_def serves.profile_ok)
  qed (simp add: ProfilePut update_profile_def serves.profile_rejected)
  then show ?thesis using ProfilePut h by (simp add: honest_def split: prod.splits)
qed (use h in \<open>auto simp: honest_def intro: serves.intros\<close>)

lemma honest_accounts_ok:
  "accounts_ok (srv_accounts S) \<Longrightarrow> accounts_ok (srv_accounts (snd (honest S q)))"
  by (cases q) (auto simp: honest_def prod.case_eq_if accounts_ok_auth accounts_ok_update_profile)

end
