(* ===== verification/System.thy ===== *)
theory System
  imports View Server
begin

text \<open>
  The page in its environment. A \<open>world\<close> is the browser tab (the component's state,
  with \<open>localStorage\<close> inside it, and whether the component has crashed), the server's
  state, and the requests a reload left in flight (\<open>orphans\<close>): the server may still
  process them, but their replies reach no page.

  \<open>sys_step\<close> is everything that can happen next, in any order:
  \<^item> the user uses a control the page offers (\<open>enabled\<close>, \<open>handle_event\<close>);
  \<^item> the server processes a pending request (\<open>serves\<close>) and the reply is on its way;
  \<^item> a pending request never reaches the server (\<open>fetch\<close> rejects);
  \<^item> an arrived reply resumes its continuation (\<open>receive\<close>), in any order among the
    pending calls;
  \<^item> the server processes an orphaned request;
  \<^item> the tab is reloaded: the component mounts again on the same \<open>localStorage\<close>
    (\<open>mount\<close>, lines 59--68), and its unanswered requests become orphans.
  A crashed component (\<open>mount\<close> threw) shows nothing; only a reload leaves that state.

  \<open>action\<close> names single steps so that a scenario can be written as a list and run by
  \<open>run\<close>: \<open>Serve\<close> answers with the \<open>honest\<close> server, \<open>Grant\<close> answers a sign-in or a
  profile update with the given user, \<open>Lose\<close> makes a request fail. Every run is a
  sequence of \<open>sys_step\<close>s.
\<close>

record world =
  client :: app
  crashed :: "fault option"
  srv :: server
  orphans :: "request list"

definition unanswered :: "pending_call list \<Rightarrow> request list" where
  "unanswered cs = map fst (filter (\<lambda>c. snd (snd c) = None) cs)"

definition reload_page :: "world \<Rightarrow> world" where
  "reload_page w =
    (let st = storage (client w); lost = orphans w @ unanswered (pending (client w)) in
     case mount (fresh_app st) of
       Inl f \<Rightarrow> w\<lparr>client := fresh_app st, crashed := Some f, orphans := lost\<rparr>
     | Inr s \<Rightarrow> w\<lparr>client := s, crashed := None, orphans := lost\<rparr>)"

definition boot :: "storage \<Rightarrow> server \<Rightarrow> world" where
  "boot st S = reload_page \<lparr>client = fresh_app st, crashed = None, srv = S, orphans = []\<rparr>"

definition answer :: "nat \<Rightarrow> reply \<Rightarrow> app \<Rightarrow> app" where
  "answer i r s = s\<lparr>pending := (pending s)[i := (fst (pending s ! i), fst (snd (pending s ! i)), Some r)]\<rparr>"

inductive sys_step :: "world \<Rightarrow> world \<Rightarrow> bool" where
  user_event: "crashed w = None \<Longrightarrow> enabled (client w) e \<Longrightarrow>
    sys_step w (w\<lparr>client := handle_event e (client w)\<rparr>)"
| serve: "crashed w = None \<Longrightarrow> i < length (pending (client w)) \<Longrightarrow> pending (client w) ! i = (q, k, None) \<Longrightarrow>
    serves (srv w) q r S' \<Longrightarrow> sys_step w (w\<lparr>client := answer i r (client w), srv := S'\<rparr>)"
| unreachable: "crashed w = None \<Longrightarrow> i < length (pending (client w)) \<Longrightarrow> pending (client w) ! i = (q, k, None) \<Longrightarrow>
    sys_step w (w\<lparr>client := answer i NetworkError (client w)\<rparr>)"
| deliver: "crashed w = None \<Longrightarrow> receive i (client w) = Some s \<Longrightarrow> sys_step w (w\<lparr>client := s\<rparr>)"
| late: "i < length (orphans w) \<Longrightarrow> serves (srv w) (orphans w ! i) r S' \<Longrightarrow>
    sys_step w (w\<lparr>srv := S', orphans := remove_nth i (orphans w)\<rparr>)"
| reload: "sys_step w (reload_page w)"

inductive reachable :: "world \<Rightarrow> bool" where
  boot: "reachable (boot st S)"
| step: "reachable w \<Longrightarrow> sys_step w w' \<Longrightarrow> reachable w'"

inductive_cases sys_step_cases: "sys_step w w'"

subsection \<open>Scenarios\<close>

datatype action = Act event | Serve nat | Grant nat user string | Lose nat | Deliver nat | Reload

definition granted :: "request \<Rightarrow> user \<Rightarrow> string \<Rightarrow> reply option" where
  "granted q u t =
    (case q of
       AuthPost m n p \<Rightarrow>
         if t \<noteq> [] then Some (Reply (empty_body\<lparr>r_success := True, r_user := Some u, r_token := Some t\<rparr>)) else None
     | ProfilePut pu \<Rightarrow>
         if uid u = upd_user_id pu then Some (Reply (empty_body\<lparr>r_success := True, r_user := Some u\<rparr>)) else None
     | _ \<Rightarrow> None)"

definition open_call :: "nat \<Rightarrow> world \<Rightarrow> request option" where
  "open_call i w =
    (if crashed w = None \<and> i < length (pending (client w)) \<and> snd (snd (pending (client w) ! i)) = None
     then Some (fst (pending (client w) ! i)) else None)"

fun act :: "action \<Rightarrow> world \<Rightarrow> world option" where
  "act (Act e) w = (if crashed w = None \<and> enabled (client w) e then Some (w\<lparr>client := handle_event e (client w)\<rparr>) else None)"
| "act (Serve i) w = map_option (\<lambda>q. case honest (srv w) q of (r, S') \<Rightarrow> w\<lparr>client := answer i r (client w), srv := S'\<rparr>) (open_call i w)"
| "act (Grant i u t) w = Option.bind (open_call i w) (\<lambda>q. map_option (\<lambda>r. w\<lparr>client := answer i r (client w)\<rparr>) (granted q u t))"
| "act (Lose i) w = map_option (\<lambda>q. w\<lparr>client := answer i NetworkError (client w)\<rparr>) (open_call i w)"
| "act (Deliver i) w = (if crashed w = None then map_option (\<lambda>s. w\<lparr>client := s\<rparr>) (receive i (client w)) else None)"
| "act Reload w = Some (reload_page w)"

fun run :: "action list \<Rightarrow> world \<Rightarrow> world option" where
  "run [] w = Some w"
| "run (a # as) w = Option.bind (act a w) (run as)"

lemma open_call_SomeD:
  "open_call i w = Some q \<Longrightarrow> crashed w = None \<and> i < length (pending (client w))
     \<and> pending (client w) ! i = (q, fst (snd (pending (client w) ! i)), None)"
  by (cases "pending (client w) ! i") (auto simp: open_call_def split: if_splits)

lemma granted_serves: "granted q u t = Some r \<Longrightarrow> serves S q r S"
  by (auto simp: granted_def intro: serves_kept split: request.splits if_splits)

lemma act_step:
  assumes "act a w = Some w'"
  shows "sys_step w w'"
proof (cases a)
  case (Serve i)
  with assms obtain q r S' where q: "open_call i w = Some q" and h: "honest (srv w) q = (r, S')"
    and w': "w' = w\<lparr>client := answer i r (client w), srv := S'\<rparr>"
    by (cases "open_call i w"; cases "honest (srv w) (the (open_call i w))") auto
  show ?thesis
    unfolding w' using open_call_SomeD[OF q] honest_serves[OF h] by (auto intro: sys_step.serve)
next
  case (Grant i u t)
  with assms obtain q r where q: "open_call i w = Some q" and g: "granted q u t = Some r"
    and w': "w' = w\<lparr>client := answer i r (client w)\<rparr>"
    by (auto simp: bind_eq_Some_conv)
  have "sys_step w (w\<lparr>client := answer i r (client w), srv := srv w\<rparr>)"
    using open_call_SomeD[OF q] by (intro sys_step.serve[OF _ _ _ granted_serves[OF g]]) auto
  then show ?thesis by (simp add: w')
next
  case (Lose i)
  then show ?thesis using assms
    by (auto dest!: open_call_SomeD intro!: sys_step.unreachable)
qed (use assms in \<open>auto intro: sys_step.intros split: if_splits\<close>)

lemma run_reachable: "run as w = Some w' \<Longrightarrow> reachable w \<Longrightarrow> reachable w'"
  by (induction as arbitrary: w) (auto simp: bind_eq_Some_conv dest: act_step intro: reachable.step)

lemma run_append: "run (as @ bs) w = Option.bind (run as w) (run bs)"
proof (induction as arbitrary: w)
  case (Cons a as)
  then show ?case by (cases "act a w") simp_all
qed simp

end
