(* ===== verification/Invariants.thy ===== *)
theory Invariants
  imports System
begin

text \<open>
  What holds in every reachable world. \<open>page_inv\<close> is the invariant of the component's
  state: the admin gate and its dialog exist only with a user; without a user the page
  shows the gallery; at most one modal dialog is open; and every pending call is paired
  with the continuation of the handler that sent it and, once answered, holds a reply of
  the contract. Each handler, each continuation, \<open>mount\<close> and the delivery of a reply
  preserve it, so it holds in every reachable world by rule induction.
\<close>

fun cont_fits :: "request \<Rightarrow> cont \<Rightarrow> bool" where
  "cont_fits WorksGet KLoadWorks = True"
| "cont_fits (FavoritesGet i) KLoadFavorites = True"
| "cont_fits (AuthPost m n p) (KAuth m') = (m = m')"
| "cont_fits (FavoritesPost i w) (KToggle u f w') = (uid u = i \<and> \<not> f \<and> w = w')"
| "cont_fits (FavoritesDelete i w) (KToggle u f w') = (uid u = i \<and> f \<and> w = w')"
| "cont_fits (WorksPost i t d img p) KCreateWork = True"
| "cont_fits (ProfilePut q) KUpdateProfile = True"
| "cont_fits _ _ = False"

definition call_ok :: "pending_call \<Rightarrow> bool" where
  "call_ok c = (case c of (q, k, r) \<Rightarrow> cont_fits q k \<and> (case r of None \<Rightarrow> True | Some r' \<Rightarrow> reply_fits q r'))"

definition screen_ok :: "bool \<Rightarrow> bool \<Rightarrow> user option \<Rightarrow> view \<Rightarrow> bool \<Rightarrow> bool \<Rightarrow> work option \<Rightarrow> bool" where
  "screen_ok adm admDlg u v authDlg workDlg sel \<longleftrightarrow>
     (adm \<or> admDlg \<longrightarrow> u \<noteq> None)
   \<and> (u = None \<longrightarrow> v = Gallery)
   \<and> of_bool authDlg + of_bool admDlg + of_bool workDlg + of_bool (sel \<noteq> None) \<le> (1::nat)"

definition page_inv :: "app \<Rightarrow> bool" where
  "page_inv s \<longleftrightarrow>
     screen_ok (isAdminMode s) (showAdminDialog s) (user s) (currentView s)
       (showAuthDialog s) (showWorkDialog s) (selectedWork s)
   \<and> list_all call_ok (pending s)"

text \<open>The persisted session: while a user is present and a token is stored, the stored
  user text is truthy and reads back as that user, so that \<open>mount\<close> would restore it.\<close>

definition session_inv :: "app \<Rightarrow> bool" where
  "session_inv s \<longleftrightarrow>
    (user s \<noteq> None \<and> truthy_opt (getItem ''token'' (storage s)) \<longrightarrow>
       (case getItem ''user'' (storage s) of
          None \<Rightarrow> False
        | Some t \<Rightarrow> truthy t \<and> restore_user t = Inr (user s)))"

subsection \<open>Preservation\<close>

lemma page_inv_fresh: "page_inv (fresh_app st)"
  by (simp add: page_inv_def fresh_app_def screen_ok_def)

lemma page_inv_event: "page_inv s \<Longrightarrow> enabled s e \<Longrightarrow> page_inv (handle_event e s)"
  by (cases e)
    (auto simp: page_inv_def screen_ok_def enabled_def dialog_open_def page_event_def dialog_event_def
       handler_defs call_ok_def split: option.splits if_splits upload_target.splits)

lemma page_inv_issue [simp]: "page_inv (issue q k s) = (page_inv s \<and> cont_fits q k)"
  by (auto simp: page_inv_def screen_ok_def call_ok_def)

lemma page_inv_notify [simp]: "page_inv (notify t s) = page_inv s"
  by (simp add: page_inv_def screen_ok_def)

lemma page_inv_log_error [simp]: "page_inv (log_error c s) = page_inv s"
  by (simp add: page_inv_def screen_ok_def)

lemma page_inv_loadWorks [simp]: "page_inv (loadWorks s) = page_inv s"
  by (simp add: loadWorks_def)

lemma page_inv_loadFavorites [simp]: "page_inv (loadFavorites cu s) = page_inv s"
  by (simp add: loadFavorites_def split: option.split)

lemma page_inv_user_effect [simp]: "page_inv (user_effect s) = page_inv s"
  by (simp add: user_effect_def)

lemma page_inv_mount: "mount (fresh_app st) = Inr s \<Longrightarrow> page_inv s"
proof -
  have "page_inv ((fresh_app st)\<lparr>user := v\<rparr>)" for v
    by (simp add: page_inv_def fresh_app_def screen_ok_def)
  then show "mount (fresh_app st) = Inr s \<Longrightarrow> page_inv s"
    unfolding mount_def using page_inv_fresh[of st]
    by (auto split: option.splits if_splits sum.splits)
qed

lemma screen_ok_closed:
  "screen_ok adm d u v a w sel \<Longrightarrow> screen_ok adm d u v False w sel"
  "screen_ok adm d u v a w sel \<Longrightarrow> screen_ok adm d u v a False sel"
  "screen_ok adm d u v a w sel \<Longrightarrow> screen_ok adm d (Some x) v a w sel"
  by (auto simp: screen_ok_def)

lemma page_inv_loadWorks_k: "page_inv s \<Longrightarrow> page_inv (loadWorks_k r s)"
  by (auto simp: loadWorks_k_def page_inv_def split: reply.splits)

lemma page_inv_loadFavorites_k: "page_inv s \<Longrightarrow> page_inv (loadFavorites_k r s)"
  by (auto simp: loadFavorites_k_def page_inv_def split: reply.splits)

lemma page_inv_toggleFavorite_k: "page_inv s \<Longrightarrow> page_inv (toggleFavorite_k u f w r s)"
  by (simp add: toggleFavorite_k_def loadFavorites_def page_inv_def call_ok_def split: reply.split)

lemma page_inv_handleCreateWork_k: "page_inv s \<Longrightarrow> page_inv (handleCreateWork_k r s)"
  by (cases r) (auto simp: handleCreateWork_k_def loadWorks_def page_inv_def call_ok_def intro: screen_ok_closed)

lemma page_inv_handleAuth_k:
  "page_inv s \<Longrightarrow> reply_fits (AuthPost m n p) r \<Longrightarrow> page_inv (handleAuth_k m r s)"
  by (cases r) (auto simp: handleAuth_k_def loadWorks_def user_effect_def loadFavorites_def page_inv_def call_ok_def
     intro: screen_ok_closed(1)[THEN screen_ok_closed(3)])

lemma page_inv_handleUpdateProfile_k:
  "page_inv s \<Longrightarrow> reply_fits (ProfilePut q) r \<Longrightarrow> page_inv (handleUpdateProfile_k r s)"
  by (cases r) (auto simp: handleUpdateProfile_k_def user_effect_def loadFavorites_def page_inv_def call_ok_def
     intro: screen_ok_closed(3) split: option.splits)

lemma page_inv_resume:
  "page_inv s \<Longrightarrow> cont_fits q k \<Longrightarrow> reply_fits q r \<Longrightarrow> page_inv (resume k r s)"
  by (cases k; cases q)
    (simp_all add: page_inv_loadWorks_k page_inv_loadFavorites_k page_inv_toggleFavorite_k
       page_inv_handleCreateWork_k page_inv_handleAuth_k page_inv_handleUpdateProfile_k)

lemma set_remove_nth: "set (remove_nth i xs) \<subseteq> set xs"
  by (auto simp: remove_nth_def dest: in_set_takeD in_set_dropD)

lemma page_inv_answer:
  assumes "page_inv s" "i < length (pending s)" "pending s ! i = (q, k, None)" "reply_fits q r"
  shows "page_inv (answer i r s)"
proof -
  have "call_ok (q, k, None)" using assms(1-3) by (auto simp: page_inv_def list_all_length)
  then have "call_ok (q, k, Some r)" using assms(4) by (simp add: call_ok_def)
  then show ?thesis using assms
    by (auto simp: page_inv_def answer_def list_all_length nth_list_update)
qed

lemma page_inv_receive:
  assumes inv: "page_inv s" and r: "receive i s = Some s'"
  shows "page_inv s'"
proof -
  obtain q k x where i: "i < length (pending s)" and c: "pending s ! i = (q, k, Some x)"
    and s': "s' = resume k x (s\<lparr>pending := remove_nth i (pending s)\<rparr>)"
    using r by (auto simp: receive_def split: if_splits prod.splits option.splits)
  have ok: "call_ok (q, k, Some x)" using inv i c by (auto simp: page_inv_def list_all_length)
  have "page_inv (s\<lparr>pending := remove_nth i (pending s)\<rparr>)"
    using inv set_remove_nth[of i "pending s"] by (auto simp: page_inv_def list_all_iff)
  with ok show ?thesis unfolding s' by (auto simp: call_ok_def intro: page_inv_resume)
qed

lemma page_inv_reload: "page_inv (client (reload_page w))"
  by (auto simp: reload_page_def Let_def page_inv_fresh page_inv_mount split: sum.split)

theorem reachable_page_inv: "reachable w \<Longrightarrow> page_inv (client w)"
proof (induction rule: reachable.induct)
  case (boot st S)
  then show ?case by (simp add: boot_def page_inv_reload)
next
  case (step w w')
  from step.hyps(2) step.IH show ?case
    by (cases rule: sys_step.cases)
      (auto simp: page_inv_event page_inv_reload intro: page_inv_answer page_inv_receive serves_fits)
qed

subsection \<open>The persisted session\<close>

lemma session_inv_cong: "user s' = user s \<Longrightarrow> storage s' = storage s \<Longrightarrow> session_inv s' = session_inv s"
  by (simp add: session_inv_def split: option.split)

lemma event_keeps_session:
  "e \<noteq> Logout \<Longrightarrow> user (handle_event e s) = user s \<and> storage (handle_event e s) = storage s"
  by (cases e) (auto simp: handler_defs split: option.splits if_splits upload_target.splits)

lemma session_inv_event: "session_inv s \<Longrightarrow> session_inv (handle_event e s)"
proof (cases "e = Logout")
  case True
  then show ?thesis by (simp add: session_inv_def handleLogout_def)
next
  case False
  then show "session_inv s \<Longrightarrow> session_inv (handle_event e s)"
    using event_keeps_session[OF False, of s] session_inv_cong by blast
qed

lemma session_inv_stored:
  "session_inv (s\<lparr>user := Some u, storage := setItem ''user'' (stored_user_text (Some u)) st\<rparr>)"
  by (simp add: session_inv_def restore_stored_user truthy_def)

lemma session_inv_resume:
  assumes "session_inv s" "cont_fits q k" "reply_fits q r"
  shows "session_inv (resume k r s)"
proof (cases k)
  case (KAuth m)
  then show ?thesis using assms
    by (cases q; cases r) (auto simp: handleAuth_k_def session_inv_def restore_stored_user truthy_def
      split: option.splits)
next
  case KUpdateProfile
  then show ?thesis using assms
    by (cases q; cases r) (auto simp: handleUpdateProfile_k_def session_inv_def restore_stored_user truthy_def
      split: option.splits)
qed (use assms in \<open>auto simp: loadWorks_k_def loadFavorites_k_def toggleFavorite_k_def handleCreateWork_k_def
       session_inv_def loadFavorites_def split: reply.splits option.splits\<close>)

lemma session_inv_mount: "mount (fresh_app st) = Inr s \<Longrightarrow> session_inv s"
  by (auto simp: mount_def session_inv_def fresh_app_def split: option.splits if_splits sum.splits)

lemma session_inv_reload: "session_inv (client (reload_page w))"
  by (auto simp: reload_page_def Let_def session_inv_mount split: sum.split)
    (simp add: session_inv_def fresh_app_def)

lemma session_inv_receive:
  assumes inv: "session_inv s" and p: "page_inv s" and r: "receive i s = Some s'"
  shows "session_inv s'"
proof -
  obtain q k x where i: "i < length (pending s)" and c: "pending s ! i = (q, k, Some x)"
    and s': "s' = resume k x (s\<lparr>pending := remove_nth i (pending s)\<rparr>)"
    using r by (auto simp: receive_def split: if_splits prod.splits option.splits)
  have "call_ok (q, k, Some x)" using p i c by (auto simp: page_inv_def list_all_length)
  moreover have "session_inv (s\<lparr>pending := remove_nth i (pending s)\<rparr>)"
    using inv session_inv_cong[of "s\<lparr>pending := remove_nth i (pending s)\<rparr>" s] by simp
  ultimately show ?thesis unfolding s' by (auto simp: call_ok_def intro: session_inv_resume)
qed

theorem reachable_session_inv: "reachable w \<Longrightarrow> session_inv (client w)"
proof (induction rule: reachable.induct)
  case (boot st S)
  then show ?case by (simp add: boot_def session_inv_reload)
next
  case (step w w')
  have p: "page_inv (client w)" using step.hyps(1) by (rule reachable_page_inv)
  from step.hyps(2) show ?case
  proof (cases rule: sys_step.cases)
    case (deliver i s)
    then show ?thesis using step.IH p by (simp add: session_inv_receive)
  next
    case (user_event e)
    then show ?thesis using step.IH by (simp add: session_inv_event)
  next
    case (serve i q k r S')
    then show ?thesis using step.IH session_inv_cong[of "answer i r (client w)" "client w"]
      by (simp add: answer_def)
  next
    case (unreachable i q k)
    then show ?thesis using step.IH session_inv_cong[of "answer i NetworkError (client w)" "client w"]
      by (simp add: answer_def)
  qed (use step.IH in \<open>simp_all add: session_inv_reload\<close>)
qed

lemma session_inv_restores:
  assumes "session_inv s" "user s = Some u" "truthy_opt (getItem ''token'' (storage s))"
  shows "mount (fresh_app (storage s)) = Inr (user_effect (loadWorks ((fresh_app (storage s))\<lparr>user := Some u\<rparr>)))"
  using assms by (auto simp: session_inv_def mount_def fresh_app_def split: option.splits)


subsection \<open>Properties of every reachable world\<close>

text \<open>C4: the admin gate is never on without a signed-in user, whatever the user does
  and in whatever order replies arrive (spec P4 for the page as a whole; the handler
  alone does not check it, as the Admin theory shows).\<close>

theorem admin_gate_needs_user:
  "reachable w \<Longrightarrow> isAdminMode (client w) \<Longrightarrow> user (client w) \<noteq> None"
  using reachable_page_inv[of w] by (simp add: page_inv_def screen_ok_def)

text \<open>C12: a visitor without a user is always on the gallery view and never has the
  admin dialog in front of them.\<close>

theorem anonymous_sees_gallery:
  "reachable w \<Longrightarrow> user (client w) = None
   \<Longrightarrow> currentView (client w) = Gallery \<and> \<not> showAdminDialog (client w)"
  using reachable_page_inv[of w] by (auto simp: page_inv_def screen_ok_def)

text \<open>C11: at most one of the four modal dialogs (auth, admin, publish, work detail)
  is open at any time.\<close>

theorem one_dialog_at_a_time:
  "reachable w \<Longrightarrow>
   length (filter id [showAuthDialog (client w), showAdminDialog (client w), showWorkDialog (client w),
                      selectedWork (client w) \<noteq> None]) \<le> 1"
  using reachable_page_inv[of w] by (auto simp: page_inv_def screen_ok_def)

text \<open>C5: spec P1 for the page: in every reachable world where a user is signed in
  and a token is stored, a reload brings the page back with the same user (no crash,
  no sign-in needed). The token condition is needed: see the profile race of the
  scenarios, where a user is present with no token stored.\<close>

theorem session_survives_reload:
  assumes "reachable w" "user (client w) = Some u" "truthy_opt (getItem ''token'' (storage (client w)))"
  shows "crashed (reload_page w) = None \<and> user (client (reload_page w)) = Some u"
  using session_inv_restores[OF reachable_session_inv[OF assms(1)] assms(2,3)]
  by (simp add: reload_page_def Let_def)

end
