(* ===== verification/FavoritesProtocol.thy ===== *)
theory FavoritesProtocol
  imports System
begin

text \<open>
  The favourites protocol of the page against the server, run to its end. A heart click
  (\<open>toggleFavorite\<close>, lines 133--161) sends DELETE or POST, its continuation flips the
  local id set and sends the favourites request, whose continuation
  (\<open>loadFavorites\<close>, lines 86--96) replaces the set by the server's.

  The abstract specification of the favourites of a user is a set of work ids, and a
  toggle is \<open>flip\<close>. \<open>synced u w\<close> says the page of user \<open>u\<close> is quiet (no call
  pending, no dialog, gallery view) and its id set is the server's (\<open>fav_ids\<close>). The
  refinement lemma: from a synced world, a click whose calls are served and delivered one
  after the other leaves a synced world in which both the page's set and the server's
  set are flipped; hence any sequence of such settled toggles computes the abstract
  fold of \<open>flip\<close>, and two of them restore the membership (spec P3). Two clicks
  before the first reply both send POST: the work ends favourited.
\<close>

definition fav_ids :: "server \<Rightarrow> js_id \<Rightarrow> js_id set" where
  "fav_ids S i = wid ` set (favorites_of S i)"

definition flip :: "js_id \<Rightarrow> js_id set \<Rightarrow> js_id set" where
  "flip x F = (if x \<in> F then F - {x} else insert x F)"

definition published :: "world \<Rightarrow> js_id set" where
  "published w = wid ` set (works (client w)) \<inter> wid ` set (srv_works (srv w))"

definition synced :: "user \<Rightarrow> world \<Rightarrow> bool" where
  "synced u w \<longleftrightarrow> crashed w = None \<and> user (client w) = Some u \<and> pending (client w) = []
     \<and> \<not> dialog_open (client w) \<and> currentView (client w) = Gallery
     \<and> favoriteIds (client w) = fav_ids (srv w) (uid u)"

definition toggle_settled :: "js_id \<Rightarrow> action list" where
  "toggle_settled x = [Act (ClickHeart x), Serve 0, Deliver 0, Serve 0, Deliver 0]"

definition double_click_settled :: "js_id \<Rightarrow> action list" where
  "double_click_settled x = [Act (ClickHeart x), Act (ClickHeart x), Serve 0, Serve 1, Deliver 0, Deliver 0,
                             Serve 0, Serve 1, Deliver 0, Deliver 0]"

lemma fav_ids_eq: "fav_ids S i = {y \<in> wid ` set (srv_works S). (i, y) \<in> srv_favs S}"
  by (auto simp: fav_ids_def favorites_of_def)

lemma flip_flip [simp]: "flip x (flip x F) = F"
  by (auto simp: flip_def)

lemmas protocol_eval = synced_def published_def enabled_def page_event_def visible_cards_def dialog_open_def
  toggleFavorite_def open_call_def honest_def answer_def receive_def remove_nth_def toggleFavorite_k_def
  loadFavorites_def loadFavorites_k_def fav_ids_def

lemma toggle_run:
  assumes "synced u w" "x \<in> published w"
  shows "\<exists>w'. run (toggle_settled x) w = Some w' \<and> crashed w' = None
     \<and> srv_favs (srv w') = (if x \<in> favoriteIds (client w) then srv_favs (srv w) - {(uid u, x)}
                            else insert (uid u, x) (srv_favs (srv w)))
     \<and> srv_works (srv w') = srv_works (srv w)
     \<and> client w' = (client w)\<lparr>favorites := favorites_of (srv w') (uid u), favoriteIds := fav_ids (srv w') (uid u)\<rparr>"
  using assms by (auto simp: toggle_settled_def protocol_eval)

lemma toggle_settles:
  assumes "synced u w" "x \<in> published w"
  shows "\<exists>w'. run (toggle_settled x) w = Some w' \<and> synced u w' \<and> published w' = published w
     \<and> fav_ids (srv w') (uid u) = flip x (fav_ids (srv w) (uid u))
     \<and> favoriteIds (client w') = flip x (favoriteIds (client w))"
proof -
  obtain w' where r: "run (toggle_settled x) w = Some w'" and cr: "crashed w' = None"
    and f: "srv_favs (srv w') = (if x \<in> favoriteIds (client w) then srv_favs (srv w) - {(uid u, x)}
                                 else insert (uid u, x) (srv_favs (srv w)))"
    and ws: "srv_works (srv w') = srv_works (srv w)"
    and c: "client w' = (client w)\<lparr>favorites := favorites_of (srv w') (uid u), favoriteIds := fav_ids (srv w') (uid u)\<rparr>"
    using toggle_run[OF assms] by blast
  have a: "fav_ids (srv w') (uid u) = flip x (fav_ids (srv w) (uid u))"
    using assms f ws by (auto simp: fav_ids_eq flip_def synced_def published_def)
  show ?thesis using r a cr ws assms(1) by (auto simp: c synced_def dialog_open_def published_def)
qed

subsection \<open>Properties\<close>

text \<open>C6: refinement of the abstract favourites. From a synced page, any sequence of
  heart clicks on published works, each settled before the next, leaves a synced page
  whose id set, and the server's, are the abstract \<open>flip\<close> of each click in turn.\<close>

theorem toggles_refine:
  "synced u w \<Longrightarrow> set xs \<subseteq> published w \<Longrightarrow>
   \<exists>w'. run (concat (map toggle_settled xs)) w = Some w' \<and> synced u w'
     \<and> favoriteIds (client w') = fold flip xs (favoriteIds (client w))
     \<and> fav_ids (srv w') (uid u) = fold flip xs (fav_ids (srv w) (uid u))"
proof (induction xs arbitrary: w)
  case (Cons x xs)
  obtain w1 where r1: "run (toggle_settled x) w = Some w1" and s1: "synced u w1" and p1: "published w1 = published w"
    and f1: "fav_ids (srv w1) (uid u) = flip x (fav_ids (srv w) (uid u))"
    and i1: "favoriteIds (client w1) = flip x (favoriteIds (client w))"
    using toggle_settles[OF Cons.prems(1), of x] Cons.prems(2) by auto
  obtain w' where "run (concat (map toggle_settled xs)) w1 = Some w'" "synced u w'"
    "favoriteIds (client w') = fold flip xs (favoriteIds (client w1))"
    "fav_ids (srv w') (uid u) = fold flip xs (fav_ids (srv w1) (uid u))"
    using Cons.IH[OF s1] Cons.prems(2) p1 by auto
  then show ?case using r1 f1 i1 by (auto simp: run_append)
qed simp

text \<open>C10: spec P3 fails when the second click comes before the first reply. The
  decision between DELETE and POST reads the id set at the click, and the set only
  changes in the continuation, when the reply has arrived; so both clicks on a work that is not a
  favourite send POST, and once everything has settled the work is a favourite on the
  page and on the server, instead of back where it started.\<close>

theorem double_click_favourites:
  assumes "synced u w" "x \<in> published w" "x \<notin> favoriteIds (client w)"
  shows "\<exists>w'. run (double_click_settled x) w = Some w' \<and> pending (client w') = []
     \<and> x \<in> favoriteIds (client w') \<and> (uid u, x) \<in> srv_favs (srv w')"
  using assms by (auto simp: double_click_settled_def protocol_eval favorites_of_def)

end
