(* ===== verification/Scenarios.thy ===== *)
theory Scenarios
  imports Invariants FavoritesProtocol Quiescence
begin

text \<open>
  Concrete runs of the page against the server, written as \<open>action\<close> lists and
  evaluated by \<open>run\<close> from a first page load (\<open>boot\<close>) on an empty \<open>localStorage\<close>.
  They show that the hypotheses of the invariants and of the favourites protocol are
  met by real sessions (a visitor signs in, opens the admin gate, lets every request
  settle). The orderings of replies the code does not handle are in theory Races.
\<close>

definition ana :: user where
  "ana = \<lparr>uid = 7, username = ''ana'', nickname = ''Ana'', avatar_url = None, is_admin = False\<rparr>"

definition ana_renamed :: user where
  "ana_renamed = ana\<lparr>nickname := ''Anna''\<rparr>"

definition sea :: work where
  "sea = \<lparr>wid = 42, user_id = 1, title = ''Sea'', description = None, image_url = ''data:x'',
          price = None, created_at = ''2024-01-01'', author_nickname = Some ''Nast''\<rparr>"

definition gallery0 :: server where
  "gallery0 = \<lparr>srv_works = [sea], srv_favs = {}, srv_accounts = []\<rparr>"

text \<open>Sign in as \<open>ana\<close>: the page load has sent the gallery request (call 0), the form
  sends call 1, the server grants it, the reply is delivered.\<close>

definition sign_in :: "action list" where
  "sign_in = [Act OpenAuth, Act (EditUsername ''ana''), Act (EditPassword ''pw''), Act SubmitAuth,
              Grant 1 ana ''tok'', Deliver 1]"

definition open_gate :: "action list" where
  "open_gate = [Act (Nav Settings), Act OpenAdmin, Act (EditAdminPassword ''Nast8292jw''), Act SubmitAdmin]"

text \<open>Signing in, then letting every request of the page complete in order: the page
  of \<open>ana\<close> is quiet and in step with the server.\<close>

definition sign_in_settled :: "action list" where
  "sign_in_settled = sign_in @ [Serve 0, Deliver 0, Serve 0, Deliver 0, Serve 0, Deliver 0]"

lemma boot_empty:
  "boot Map.empty S = \<lparr>client = loadWorks (fresh_app Map.empty), crashed = None, srv = S, orphans = []\<rparr>"
  by (simp add: boot_def reload_page_def mount_def getItem_def Let_def unanswered_def fresh_app_def)

lemma run_from_boot: "run as (boot st S) = Some w \<Longrightarrow> reachable w"
  using run_reachable reachable.boot by blast

lemmas run_eval = enabled_def dialog_open_def page_event_def dialog_event_def handler_defs receive_def
  remove_nth_def answer_def open_call_def granted_def honest_def fresh_app_def truthy_def
  ana_renamed_def ana_def ADMIN_PASSWORD_def profile_updates_def empty_work_form_def

lemma sign_in_synced:
  "\<exists>w. run sign_in_settled (boot Map.empty gallery0) = Some w \<and> synced ana w
     \<and> published w = {42} \<and> favoriteIds (client w) = {}"
  by (auto simp: sign_in_settled_def sign_in_def boot_empty run_eval protocol_eval gallery0_def sea_def
      favorites_of_def)


subsection \<open>Witnesses of the invariants\<close>

theorem admin_gate_needs_user_witness:
  "\<exists>w. reachable w \<and> isAdminMode (client w) \<and> user (client w) \<noteq> None"
proof -
  obtain w where r: "run (sign_in @ open_gate) (boot Map.empty gallery0) = Some w" and a: "isAdminMode (client w)"
    by (auto simp: sign_in_def open_gate_def boot_empty run_eval)
  show ?thesis using run_from_boot[OF r] a admin_gate_needs_user[OF run_from_boot[OF r] a] by blast
qed

theorem anonymous_sees_gallery_witness:
  "reachable (boot Map.empty gallery0) \<and> user (client (boot Map.empty gallery0)) = None
   \<and> currentView (client (boot Map.empty gallery0)) = Gallery"
proof -
  have r: "reachable (boot Map.empty gallery0)" by (rule reachable.boot)
  have u: "user (client (boot Map.empty gallery0)) = None" by (simp add: boot_empty fresh_app_def)
  show ?thesis using r u anonymous_sees_gallery[OF r u] by simp
qed

theorem one_dialog_at_a_time_witness:
  "\<exists>w. reachable w \<and> showAuthDialog (client w)
     \<and> length (filter id [showAuthDialog (client w), showAdminDialog (client w), showWorkDialog (client w),
                          selectedWork (client w) \<noteq> None]) \<le> 1"
proof -
  obtain w where r: "run [Act OpenAuth] (boot Map.empty gallery0) = Some w" and a: "showAuthDialog (client w)"
    by (auto simp: boot_empty run_eval)
  show ?thesis using run_from_boot[OF r] a one_dialog_at_a_time[OF run_from_boot[OF r]] by blast
qed


theorem session_survives_reload_witness:
  "\<exists>w. reachable w \<and> user (client w) = Some ana \<and> truthy_opt (getItem ''token'' (storage (client w)))
     \<and> crashed (reload_page w) = None \<and> user (client (reload_page w)) = Some ana"
proof -
  obtain w where r: "run sign_in (boot Map.empty gallery0) = Some w"
    and a: "user (client w) = Some ana" and t: "truthy_opt (getItem ''token'' (storage (client w)))"
    by (auto simp: sign_in_def boot_empty run_eval)
  show ?thesis using run_from_boot[OF r] a t session_survives_reload[OF run_from_boot[OF r] a t] by blast
qed

subsection \<open>Witnesses of the favourites protocol\<close>

theorem toggles_refine_witness:
  "\<exists>w. synced ana w \<and> set [42, 42, 42] \<subseteq> published w
     \<and> (\<exists>w'. run (concat (map toggle_settled [42, 42, 42])) w = Some w' \<and> synced ana w'
            \<and> favoriteIds (client w') = {42} \<and> fav_ids (srv w') (uid ana) = {42})"
proof -
  obtain w where "synced ana w" "published w = {42}" "favoriteIds (client w) = {}" "fav_ids (srv w) (uid ana) = {}"
    using sign_in_synced by (auto simp: synced_def)
  then show ?thesis using toggles_refine[of ana w "[42, 42, 42]"] by (auto simp: flip_def)
qed


theorem double_click_favourites_witness:
  "\<exists>w. synced ana w \<and> 42 \<in> published w \<and> 42 \<notin> favoriteIds (client w)
     \<and> (\<exists>w'. run (double_click_settled 42) w = Some w' \<and> 42 \<in> favoriteIds (client w'))"
proof -
  obtain w where "synced ana w" "published w = {42}" "favoriteIds (client w) = {}" using sign_in_synced by auto
  then show ?thesis using double_click_favourites[of ana w 42] by auto
qed


end
