(* ===== verification/Races.thy ===== *)
theory Races
  imports Scenarios
begin

text \<open>
  Requests that outlive the session that sent them. Nothing in the component ties a
  reply to the user who caused its request: \<open>loadFavorites\<close> (lines 86--96) and
  \<open>handleUpdateProfile\<close> (lines 225--248) apply their replies to whoever is signed in
  when they arrive, and \<open>handleLogout\<close> (lines 124--131) clears neither the favourites
  nor the requests in flight. The theorems below hold from every page on which such a
  request is in flight and the user can log out (the settings view, no dialog open):
  the user logs out, possibly another user signs in, and then the old reply arrives.
  The server's answer to a sign-in or a profile change is any reply of the contract
  (\<open>Grant\<close>); a favourites list is served by \<open>honest\<close>. Concrete runs from a first page
  load witness that the hypotheses are met.
\<close>

definition bob :: user where
  "bob = \<lparr>uid = 8, username = ''bob'', nickname = ''Bob'', avatar_url = None, is_admin = False\<rparr>"

definition gallery1 :: server where
  "gallery1 = \<lparr>srv_works = [sea], srv_favs = {(7, 42)}, srv_accounts = []\<rparr>"

text \<open>\<open>ana\<close> signs in and opens the settings view; her favourites load (call 2) is
  still in flight.\<close>

definition favourites_in_flight :: "action list" where
  "favourites_in_flight = sign_in @ [Act (Nav Settings)]"

text \<open>\<open>ana\<close> signs in and submits a new nickname; the profile request (call 3) is in
  flight.\<close>

definition profile_in_flight :: "action list" where
  "profile_in_flight = sign_in @ [Act (Nav Settings), Act (EditNickname ''Anna''), Act SubmitProfile]"

definition anna_update :: profile_update where
  "anna_update = \<lparr>upd_user_id = 7, upd_nickname = Some ''Anna'', upd_password = None, upd_avatar_url = None\<rparr>"

lemmas race_eval = enabled_def page_event_def dialog_event_def dialog_open_def handler_defs notify_def
  open_call_def granted_def answer_def receive_def remove_nth_def nth_append truthy_def

lemma favourites_in_flight_run:
  "\<exists>w. run favourites_in_flight (boot Map.empty gallery1) = Some w \<and> crashed w = None
     \<and> currentView (client w) = Settings \<and> \<not> dialog_open (client w) \<and> user (client w) = Some ana
     \<and> length (pending (client w)) = 3 \<and> pending (client w) ! 2 = (FavoritesGet 7, KLoadFavorites, None)
     \<and> srv w = gallery1"
  by (auto simp: favourites_in_flight_def sign_in_def boot_empty run_eval)

lemma profile_in_flight_run:
  "\<exists>w. run profile_in_flight (boot Map.empty S) = Some w \<and> crashed w = None
     \<and> currentView (client w) = Settings \<and> \<not> dialog_open (client w) \<and> user (client w) = Some ana
     \<and> length (pending (client w)) = 4 \<and> pending (client w) ! 3 = (ProfilePut anna_update, KUpdateProfile, None)"
  by (auto simp: profile_in_flight_def sign_in_def boot_empty run_eval anna_update_def empty_profile_form_def)

subsection \<open>A profile reply after logout\<close>

text \<open>C9: logout does not cancel a profile update in flight. From every page with a
  profile request in flight, logging out and then receiving a successful reply (any
  user with the requested id) signs that user in again and stores it, while the token
  stays removed: the page shows a signed-in user after logout (spec P2 wants the user
  absent), and the next reload forgets that user.\<close>

theorem profile_reply_after_logout:
  assumes "crashed w = None" "currentView (client w) = Settings" "\<not> dialog_open (client w)"
    "user (client w) \<noteq> None" "i < length (pending (client w))"
    "pending (client w) ! i = (ProfilePut q, KUpdateProfile, None)" "uid u = upd_user_id q"
  shows "\<exists>w'. run [Act Logout, Grant i u t, Deliver i] w = Some w' \<and> crashed w' = None
     \<and> user (client w') = Some u \<and> getItem ''token'' (storage (client w')) = None
     \<and> crashed (reload_page w') = None \<and> user (client (reload_page w')) = None"
  using assms
  by (auto simp: race_eval reload_page_def mount_def Let_def getItem_def setItem_def removeItem_def fresh_app_def)

subsection \<open>Favourites of the previous user\<close>

text \<open>C17: a favourites reply is applied to whoever is signed in when it arrives. From
  every page of a user \<open>a\<close> whose favourites load is in flight, if \<open>a\<close> logs out, another
  user \<open>b\<close> signs in, and only then is the old load served and delivered, the page of
  \<open>b\<close> holds the favourites of \<open>a\<close> on the server (spec: the Favorites Set Controller
  holds the authenticated user's favourites). They stay until \<open>b\<close> toggles a heart or
  the page reloads.\<close>

theorem favourites_of_previous_user:
  assumes "crashed w = None" "currentView (client w) = Settings" "\<not> dialog_open (client w)"
    "user (client w) = Some a" "i < length (pending (client w))"
    "pending (client w) ! i = (FavoritesGet (uid a), KLoadFavorites, None)"
    "n \<noteq> []" "p \<noteq> []" "t \<noteq> []"
  shows "\<exists>w'. run [Act Logout, Act OpenAuth, Act (EditUsername n), Act (EditPassword p), Act SubmitAuth,
                   Grant (length (pending (client w))) b t, Deliver (length (pending (client w))),
                   Serve i, Deliver i] w = Some w'
     \<and> user (client w') = Some b \<and> favorites (client w') = favorites_of (srv w) (uid a)
     \<and> favoriteIds (client w') = wid ` set (favorites_of (srv w) (uid a))"
  using assms by (auto simp: race_eval honest_def)

subsection \<open>A session of one account under the token of another\<close>

text \<open>C18: a profile reply is applied to whoever is signed in when it arrives. From
  every page with a profile request of user \<open>a\<close> in flight, if \<open>a\<close> logs out, another
  user \<open>b\<close> signs in with token \<open>t\<close>, and then the profile reply arrives, the page shows
  and stores the account of the reply under \<open>b\<close>'s token; every reload restores that
  account, and the page loads its favourites.\<close>

theorem account_switch_profile_race:
  assumes "crashed w = None" "currentView (client w) = Settings" "\<not> dialog_open (client w)"
    "user (client w) \<noteq> None" "i < length (pending (client w))"
    "pending (client w) ! i = (ProfilePut q, KUpdateProfile, None)" "uid u = upd_user_id q"
    "n \<noteq> []" "p \<noteq> []" "t \<noteq> []"
  shows "\<exists>w'. run [Act Logout, Act OpenAuth, Act (EditUsername n), Act (EditPassword p), Act SubmitAuth,
                   Grant (length (pending (client w))) b t, Deliver (length (pending (client w))),
                   Grant i u t', Deliver i] w = Some w'
     \<and> user (client w') = Some u \<and> getItem ''token'' (storage (client w')) = Some t
     \<and> crashed (reload_page w') = None \<and> user (client (reload_page w')) = Some u
     \<and> (FavoritesGet (uid u), KLoadFavorites, None) \<in> set (pending (client (reload_page w')))"
  using assms
  by (auto simp: race_eval reload_page_def mount_def Let_def getItem_def setItem_def removeItem_def
      restore_stored_user fresh_app_def)

subsection \<open>Witnesses\<close>

theorem profile_reply_after_logout_witness:
  "\<exists>w w'. reachable w \<and> user (client w) = Some ana
     \<and> run [Act Logout, Grant 3 ana_renamed ''tok'', Deliver 3] w = Some w'
     \<and> user (client w') = Some ana_renamed \<and> user (client (reload_page w')) = None"
proof -
  obtain w where r: "run profile_in_flight (boot Map.empty gallery0) = Some w"
    and p: "crashed w = None" "currentView (client w) = Settings" "\<not> dialog_open (client w)"
      "user (client w) = Some ana" "length (pending (client w)) = 4"
      "pending (client w) ! 3 = (ProfilePut anna_update, KUpdateProfile, None)"
    using profile_in_flight_run by blast
  have u: "uid ana_renamed = upd_user_id anna_update" by (simp add: ana_renamed_def ana_def anna_update_def)
  obtain w' where "run [Act Logout, Grant 3 ana_renamed ''tok'', Deliver 3] w = Some w'"
    "user (client w') = Some ana_renamed" "user (client (reload_page w')) = None"
    using profile_reply_after_logout[OF p(1-3) _ _ p(6) u] p(4,5) by auto
  then show ?thesis using run_from_boot[OF r] p(4) by blast
qed

theorem favourites_of_previous_user_witness:
  "\<exists>w w'. reachable w \<and> user (client w) = Some ana \<and> favorites_of (srv w) (uid bob) = []
     \<and> run [Act Logout, Act OpenAuth, Act (EditUsername ''bob''), Act (EditPassword ''pw2''), Act SubmitAuth,
            Grant 3 bob ''tok2'', Deliver 3, Serve 2, Deliver 2] w = Some w'
     \<and> user (client w') = Some bob \<and> favorites (client w') = [sea]"
proof -
  obtain w where r: "run favourites_in_flight (boot Map.empty gallery1) = Some w"
    and p: "crashed w = None" "currentView (client w) = Settings" "\<not> dialog_open (client w)"
      "user (client w) = Some ana" "length (pending (client w)) = 3"
      "pending (client w) ! 2 = (FavoritesGet 7, KLoadFavorites, None)" and s: "srv w = gallery1"
    using favourites_in_flight_run by blast
  have f: "favorites_of (srv w) (uid ana) = [sea]" "favorites_of (srv w) (uid bob) = []"
    by (simp_all add: s gallery1_def favorites_of_def ana_def bob_def sea_def)
  have i: "pending (client w) ! 2 = (FavoritesGet (uid ana), KLoadFavorites, None)" using p(6) by (simp add: ana_def)
  obtain w' where "run [Act Logout, Act OpenAuth, Act (EditUsername ''bob''), Act (EditPassword ''pw2''), Act SubmitAuth,
            Grant 3 bob ''tok2'', Deliver 3, Serve 2, Deliver 2] w = Some w'"
    "user (client w') = Some bob" "favorites (client w') = [sea]"
    using favourites_of_previous_user[OF p(1-4) _ i, of "''bob''" "''pw2''" "''tok2''" bob] p(5) f(1) by auto
  then show ?thesis using run_from_boot[OF r] p(4) f(2) by blast
qed

theorem account_switch_profile_race_witness:
  "\<exists>w w'. reachable w \<and> user (client w) = Some ana
     \<and> run [Act Logout, Act OpenAuth, Act (EditUsername ''bob''), Act (EditPassword ''pw2''), Act SubmitAuth,
            Grant 4 bob ''tok2'', Deliver 4, Grant 3 ana_renamed ''tok'', Deliver 3] w = Some w'
     \<and> user (client w') = Some ana_renamed \<and> getItem ''token'' (storage (client w')) = Some ''tok2''
     \<and> user (client (reload_page w')) = Some ana_renamed"
proof -
  obtain w where r: "run profile_in_flight (boot Map.empty gallery1) = Some w"
    and p: "crashed w = None" "currentView (client w) = Settings" "\<not> dialog_open (client w)"
      "user (client w) = Some ana" "length (pending (client w)) = 4"
      "pending (client w) ! 3 = (ProfilePut anna_update, KUpdateProfile, None)"
    using profile_in_flight_run by blast
  have u: "uid ana_renamed = upd_user_id anna_update" by (simp add: ana_renamed_def ana_def anna_update_def)
  obtain w' where "run [Act Logout, Act OpenAuth, Act (EditUsername ''bob''), Act (EditPassword ''pw2''), Act SubmitAuth,
            Grant 4 bob ''tok2'', Deliver 4, Grant 3 ana_renamed ''tok'', Deliver 3] w = Some w'"
    "user (client w') = Some ana_renamed" "getItem ''token'' (storage (client w')) = Some ''tok2''"
    "user (client (reload_page w')) = Some ana_renamed"
    using account_switch_profile_race[OF p(1-3) _ _ p(6) u, of "''bob''" "''pw2''" "''tok2''" bob "''tok''"] p(4,5)
    by auto
  then show ?thesis using run_from_boot[OF r] p(4) by blast
qed

end
