(* ===== verification/Profiles.thy ===== *)
theory Profiles
  imports Scenarios
begin

text \<open>
  The page against the server with accounts (theories Accounts and Server). A sign-in
  submitted in the auth dialog (\<open>handleAuth\<close>, lines 98--122) signs the account in exactly when
  the password matches; a registration creates a fresh account that later sign-ins
  find; and a profile edit of the nickname alone (\<open>handleUpdateProfile\<close>, lines
  225--248) goes through the page and the server and comes back with every other field
  of the user as it was (spec P6), on the page, in localStorage and in the server's
  store. \<open>submit_auth_run\<close> is the shared step: the page's continuation applied to the
  reply of the accounts.
\<close>

definition ana_pic :: user where
  "ana_pic = ana\<lparr>avatar_url := Some ''data:a''\<rparr>"

definition studio :: server where
  "studio = \<lparr>srv_works = [sea], srv_favs = {}, srv_accounts = [(ana_pic, ''pw'')]\<rparr>"

text \<open>\<open>ana\<close> signs in through the auth resource (call 1), every request settles, and
  she types a new nickname in the settings view.\<close>

definition login_then_edit :: "action list" where
  "login_then_edit = [Act OpenAuth, Act (EditUsername ''ana''), Act (EditPassword ''pw''), Act SubmitAuth,
     Serve 1, Deliver 1, Serve 0, Deliver 0, Serve 0, Deliver 0, Serve 0, Deliver 0,
     Act (Nav Settings), Act (EditNickname ''Anna'')]"


lemma app_pending_Nil: "pending s = [] \<Longrightarrow> s\<lparr>pending := []\<rparr> = s"
  by simp

text \<open>Submitting the auth dialog of a quiet page, serving the request and delivering the
  reply: the page runs the continuation on the reply of the accounts, and the server
  keeps the accounts the operation leaves.\<close>

lemma submit_auth_run:
  assumes "crashed w = None" "pending (client w) = []" "showAuthDialog (client w)"
    "af_username (authForm (client w)) = n" "af_password (authForm (client w)) = p" "n \<noteq> []" "p \<noteq> []"
  obtains w' where "run [Act SubmitAuth, Serve 0, Deliver 0] w = Some w'"
    "client w' = handleAuth_k (authMode (client w)) (fst (auth (srv_accounts (srv w)) (authMode (client w)) n p)) (client w)"
    "srv w' = (srv w)\<lparr>srv_accounts := snd (auth (srv_accounts (srv w)) (authMode (client w)) n p)\<rparr>"
  using assms
  by (simp add: enabled_def dialog_open_def dialog_event_def handleAuth_def issue_def open_call_def honest_def
      prod.case_eq_if answer_def receive_def remove_nth_def app_pending_Nil truthy_def)

subsection \<open>A profile edit end to end\<close>

text \<open>C15: spec P6 through the page and the server. On a quiet page in the settings
  view, with the signed-in user's account in a well-formed store and only a nickname
  typed, submitting the form, serving the request and delivering the reply leaves the
  page, the stored user and the server's account with the new nickname and every other
  field (id, user name, avatar, admin flag, password) as it was.\<close>

theorem profile_edit_keeps_fields:
  assumes "crashed w = None" "pending (client w) = []" "\<not> dialog_open (client w)"
    "currentView (client w) = Settings" "user (client w) = Some u"
    "accounts_ok (srv_accounts (srv w))" "(u, pw) \<in> set (srv_accounts (srv w))"
    "profileForm (client w) = \<lparr>pf_nickname = x, pf_password = [], pf_avatar = []\<rparr>" "x \<noteq> []"
  shows "\<exists>w'. run [Act SubmitProfile, Serve 0, Deliver 0] w = Some w' \<and> crashed w' = None
     \<and> user (client w') = Some (u\<lparr>nickname := x\<rparr>)
     \<and> getItem ''user'' (storage (client w')) = Some (stored_user_text (Some (u\<lparr>nickname := x\<rparr>)))
     \<and> find_uid (srv_accounts (srv w')) (uid u) = Some (u\<lparr>nickname := x\<rparr>, pw)"
proof -
  have f: "find_uid (srv_accounts (srv w)) (uid u) = Some (u, pw)"
    using find_uid_account[OF assms(6,7)] .
  have g: "find_uid (map (\<lambda>b. if uid (fst b) = uid u then updated_account q b else b) (srv_accounts (srv w))) (uid u)
             = Some (updated_account q (u, pw))" for q
    using find_uid_updated[OF assms(6,7)] .
  show ?thesis
    using assms f g
    by (auto simp: enabled_def page_event_def handler_defs profile_updates_def open_call_def honest_def
        update_profile_def updated_account_def answer_def receive_def remove_nth_def truthy_def
        getItem_def setItem_def)
qed

subsection \<open>Sign-in and registration against the accounts\<close>

text \<open>C30: a sign-in through the page checks the password. On a quiet page with the
  login dialog filled in with an account's user name, submitting, serving and
  delivering signs that account's user in, stores the token the server issued and
  closes the dialog when the password is the account's; with any other password the
  page only shows the server's error (line 118). The server's store is unchanged.\<close>

theorem page_login_checks_password:
  assumes "crashed w = None" "pending (client w) = []" "showAuthDialog (client w)" "authMode (client w) = Login"
    "accounts_ok (srv_accounts (srv w))" "(u, pw) \<in> set (srv_accounts (srv w))"
    "authForm (client w) = \<lparr>af_username = username u, af_password = p\<rparr>" "username u \<noteq> []" "p \<noteq> []"
  shows "\<exists>w'. run [Act SubmitAuth, Serve 0, Deliver 0] w = Some w' \<and> srv w' = srv w
     \<and> (if p = pw then user (client w') = Some u \<and> getItem ''token'' (storage (client w')) = Some (session_token u)
                         \<and> \<not> showAuthDialog (client w')
        else client w' = notify (AuthError (Some ''Invalid credentials'')) (client w))"
proof -
  obtain w' where r: "run [Act SubmitAuth, Serve 0, Deliver 0] w = Some w'"
    and c: "client w' = handleAuth_k Login (fst (auth (srv_accounts (srv w)) Login (username u) p)) (client w)"
    and s: "srv w' = (srv w)\<lparr>srv_accounts := snd (auth (srv_accounts (srv w)) Login (username u) p)\<rparr>"
    using submit_auth_run[OF assms(1-3), of "username u" p] assms(4,7-9) by auto
  have "srv w' = srv w
     \<and> (if p = pw then user (client w') = Some u \<and> getItem ''token'' (storage (client w')) = Some (session_token u)
                         \<and> \<not> showAuthDialog (client w')
        else client w' = notify (AuthError (Some ''Invalid credentials'')) (client w))"
    unfolding c s login_account[OF assms(5,6)]
    by (simp add: handleAuth_k_def handler_defs auth_success_def auth_failure_def getItem_def setItem_def empty_body_def)
  with r show ?thesis by blast
qed

text \<open>C31: registration through the page and sign-in agree. On a quiet page with the
  register dialog filled in with a user name not yet in use, submitting, serving and
  delivering signs in the new account (a fresh id, the user name as nickname, no admin
  flag), stores it and the token; and the store it leaves answers a later login with
  the same name and password with the same user and token.\<close>

theorem page_register_then_login:
  assumes "crashed w = None" "pending (client w) = []" "showAuthDialog (client w)" "authMode (client w) = Register"
    "authForm (client w) = \<lparr>af_username = n, af_password = p\<rparr>" "n \<noteq> []" "p \<noteq> []"
    "find_user (srv_accounts (srv w)) n = None"
  shows "\<exists>w'. run [Act SubmitAuth, Serve 0, Deliver 0] w = Some w'
     \<and> user (client w') = Some (new_account (srv_accounts (srv w)) n)
     \<and> uid (new_account (srv_accounts (srv w)) n) \<notin> (uid \<circ> fst) ` set (srv_accounts (srv w))
     \<and> getItem ''token'' (storage (client w')) = Some (session_token (new_account (srv_accounts (srv w)) n))
     \<and> fst (auth (srv_accounts (srv w')) Login n p) = auth_success (new_account (srv_accounts (srv w)) n)"
proof -
  obtain w' where r: "run [Act SubmitAuth, Serve 0, Deliver 0] w = Some w'"
    and c: "client w' = handleAuth_k Register (fst (auth (srv_accounts (srv w)) Register n p)) (client w)"
    and s: "srv w' = (srv w)\<lparr>srv_accounts := snd (auth (srv_accounts (srv w)) Register n p)\<rparr>"
    using submit_auth_run[OF assms(1-3), of n p] assms(4-7) by auto
  have "user (client w') = Some (new_account (srv_accounts (srv w)) n)
     \<and> getItem ''token'' (storage (client w')) = Some (session_token (new_account (srv_accounts (srv w)) n))
     \<and> fst (auth (srv_accounts (srv w')) Login n p) = auth_success (new_account (srv_accounts (srv w)) n)"
    unfolding c s using register_login[OF assms(8), of p]
    by (simp add: handleAuth_k_def handler_defs auth_success_def getItem_def setItem_def)
  moreover have "uid (new_account (srv_accounts (srv w)) n) \<notin> (uid \<circ> fst) ` set (srv_accounts (srv w))"
    using next_uid_fresh by (simp add: new_account_def)
  ultimately show ?thesis using r by blast
qed

subsection \<open>Witnesses\<close>

lemma login_then_edit_run:
  "\<exists>w. run login_then_edit (boot Map.empty studio) = Some w \<and> crashed w = None \<and> pending (client w) = []
     \<and> \<not> dialog_open (client w) \<and> currentView (client w) = Settings \<and> user (client w) = Some ana_pic
     \<and> srv_accounts (srv w) = [(ana_pic, ''pw'')]
     \<and> profileForm (client w) = \<lparr>pf_nickname = ''Anna'', pf_password = [], pf_avatar = []\<rparr>"
  by (auto simp: login_then_edit_def boot_empty run_eval studio_def ana_pic_def find_user_def
      auth_success_def session_token_def empty_profile_form_def)


theorem profile_edit_keeps_fields_witness:
  "\<exists>w w'. reachable w \<and> user (client w) = Some ana_pic \<and> (ana_pic, ''pw'') \<in> set (srv_accounts (srv w))
     \<and> run [Act SubmitProfile, Serve 0, Deliver 0] w = Some w'
     \<and> user (client w') = Some (ana_pic\<lparr>nickname := ''Anna''\<rparr>)
     \<and> find_uid (srv_accounts (srv w')) (uid ana_pic) = Some (ana_pic\<lparr>nickname := ''Anna''\<rparr>, ''pw'')"
proof -
  obtain w where r: "run login_then_edit (boot Map.empty studio) = Some w"
    and p: "crashed w = None" "pending (client w) = []" "\<not> dialog_open (client w)"
      "currentView (client w) = Settings" "user (client w) = Some ana_pic"
      "srv_accounts (srv w) = [(ana_pic, ''pw'')]"
      "profileForm (client w) = \<lparr>pf_nickname = ''Anna'', pf_password = [], pf_avatar = []\<rparr>"
    using login_then_edit_run by blast
  have a: "accounts_ok (srv_accounts (srv w))" "(ana_pic, ''pw'') \<in> set (srv_accounts (srv w))"
    using p(6) by (simp_all add: accounts_ok_def)
  show ?thesis
    using run_from_boot[OF r] p(5) a(2) profile_edit_keeps_fields[OF p(1-5) a p(7)] by blast
qed

lemma login_form_run:
  "\<exists>w. run [Serve 0, Deliver 0, Act OpenAuth, Act (EditUsername ''ana''), Act (EditPassword ''pw'')]
         (boot Map.empty studio) = Some w
     \<and> crashed w = None \<and> pending (client w) = [] \<and> showAuthDialog (client w) \<and> authMode (client w) = Login
     \<and> srv_accounts (srv w) = [(ana_pic, ''pw'')] \<and> authForm (client w) = \<lparr>af_username = ''ana'', af_password = ''pw''\<rparr>"
  by (auto simp: boot_empty run_eval studio_def empty_auth_form_def)

lemma register_form_run:
  "\<exists>w. run [Serve 0, Deliver 0, Act OpenAuth, Act (SetAuthMode Register), Act (EditUsername ''bob''),
            Act (EditPassword ''pw2'')] (boot Map.empty studio) = Some w
     \<and> crashed w = None \<and> pending (client w) = [] \<and> showAuthDialog (client w) \<and> authMode (client w) = Register
     \<and> srv_accounts (srv w) = [(ana_pic, ''pw'')] \<and> authForm (client w) = \<lparr>af_username = ''bob'', af_password = ''pw2''\<rparr>"
  by (auto simp: boot_empty run_eval studio_def empty_auth_form_def)

theorem page_login_checks_password_witness:
  "\<exists>w w'. reachable w \<and> authForm (client w) = \<lparr>af_username = ''ana'', af_password = ''pw''\<rparr>
     \<and> run [Act SubmitAuth, Serve 0, Deliver 0] w = Some w' \<and> user (client w') = Some ana_pic"
proof -
  obtain w where r: "run [Serve 0, Deliver 0, Act OpenAuth, Act (EditUsername ''ana''), Act (EditPassword ''pw'')]
         (boot Map.empty studio) = Some w"
    and p: "crashed w = None" "pending (client w) = []" "showAuthDialog (client w)" "authMode (client w) = Login"
      "srv_accounts (srv w) = [(ana_pic, ''pw'')]" "authForm (client w) = \<lparr>af_username = ''ana'', af_password = ''pw''\<rparr>"
    using login_form_run by blast
  have a: "accounts_ok (srv_accounts (srv w))" "(ana_pic, ''pw'') \<in> set (srv_accounts (srv w))"
    "authForm (client w) = \<lparr>af_username = username ana_pic, af_password = ''pw''\<rparr>" "username ana_pic \<noteq> []"
    using p(5,6) by (simp_all add: accounts_ok_def ana_pic_def ana_def)
  obtain w' where "run [Act SubmitAuth, Serve 0, Deliver 0] w = Some w'" "user (client w') = Some ana_pic"
    using page_login_checks_password[OF p(1-4) a] by auto
  then show ?thesis using run_from_boot[OF r] p(6) by blast
qed

theorem page_register_then_login_witness:
  "\<exists>w w'. reachable w \<and> authForm (client w) = \<lparr>af_username = ''bob'', af_password = ''pw2''\<rparr>
     \<and> run [Act SubmitAuth, Serve 0, Deliver 0] w = Some w'
     \<and> user (client w') = Some (new_account [(ana_pic, ''pw'')] ''bob'')
     \<and> fst (auth (srv_accounts (srv w')) Login ''bob'' ''pw2'') = auth_success (new_account [(ana_pic, ''pw'')] ''bob'')"
proof -
  obtain w where r: "run [Serve 0, Deliver 0, Act OpenAuth, Act (SetAuthMode Register), Act (EditUsername ''bob''),
            Act (EditPassword ''pw2'')] (boot Map.empty studio) = Some w"
    and p: "crashed w = None" "pending (client w) = []" "showAuthDialog (client w)" "authMode (client w) = Register"
      "srv_accounts (srv w) = [(ana_pic, ''pw'')]" "authForm (client w) = \<lparr>af_username = ''bob'', af_password = ''pw2''\<rparr>"
    using register_form_run by blast
  have f: "find_user (srv_accounts (srv w)) ''bob'' = None"
    using p(5) by (simp add: find_user_def ana_pic_def ana_def)
  obtain w' where "run [Act SubmitAuth, Serve 0, Deliver 0] w = Some w'"
    "user (client w') = Some (new_account [(ana_pic, ''pw'')] ''bob'')"
    "fst (auth (srv_accounts (srv w')) Login ''bob'' ''pw2'') = auth_success (new_account [(ana_pic, ''pw'')] ''bob'')"
    using page_register_then_login[OF p(1-4,6) _ _ f] p(5) by auto
  then show ?thesis using run_from_boot[OF r] p(6) by blast
qed

end
