(* ===== verification/JsonFuel.thy ===== *)
theory JsonFuel
  imports Storage
begin

text \<open>
  The fuel of the JSON parser. \<open>JSON.parse\<close> always terminates; the model's
  \<open>parse_value\<close> carries fuel so that it is a total function, and \<open>json_parse\<close>
  gives it \<open>Suc (2 * length s)\<close>. Every step of the parser either consumes a character
  or is followed by one that does (a value consumes at least one character, an array
  element and its separator two), so a value of \<open>s\<close> that parses with some fuel parses
  to the same result with any fuel of at least \<open>2 * length s + 1\<close>, an array or object
  tail with \<open>2 * length s + 2\<close>. Hence the fuel of \<open>json_parse\<close> is never the reason
  for a failure: reading a stored user (line 63) throws exactly when no amount of fuel
  parses the text.
\<close>

lemma skip_ws_length: "length (skip_ws s) \<le> length s"
  by (induction s) auto

lemma strip_prefix_length: "strip_prefix p s = Some r \<Longrightarrow> length r \<le> length s"
  by (induction p s rule: strip_prefix.induct) (auto split: if_splits)

text \<open>One step of a string literal either ends it or continues on a suffix; the
  recursive calls are not unfolded again.\<close>

lemma parse_str_step:
  "parse_str acc (c # t) = Some (k, r) \<Longrightarrow>
   r = t \<or> (\<exists>acc' t'. length t' \<le> length t \<and> parse_str acc' t' = Some (k, r))"
  apply (simp only: parse_str.simps(2))
  apply (simp del: parse_str.simps split: if_splits list.splits)
  apply (auto simp del: parse_str.simps simp: Let_def split: option.splits prod.splits if_splits)
  done

lemma parse_str_length: "parse_str acc s = Some (k, r) \<Longrightarrow> length r < length s"
proof (induction "length s" arbitrary: acc s rule: less_induct)
  case less
  show ?case
  proof (cases s)
    case (Cons c t)
    have "r = t \<or> (\<exists>acc' t'. length t' \<le> length t \<and> parse_str acc' t' = Some (k, r))"
      using parse_str_step[of acc c t k r] less.prems Cons by simp
    then show ?thesis
    proof
      assume "\<exists>acc' t'. length t' \<le> length t \<and> parse_str acc' t' = Some (k, r)"
      then obtain acc' t' where "length t' \<le> length t" "parse_str acc' t' = Some (k, r)" by blast
      then show ?thesis using less.hyps[of t' acc'] Cons by simp
    qed (simp add: Cons)
  qed (use less.prems in simp)
qed

lemma read_digits_length: "read_digits a s = (n, r) \<Longrightarrow> length r \<le> length s"
  by (induction a s arbitrary: n rule: read_digits.induct) (fastforce split: option.splits)+

lemma parse_nat_length:
  assumes "parse_nat s = Some (n, r)"
  shows "length r < length s"
proof (cases s)
  case (Cons c t)
  then show ?thesis using assms
    by (auto simp: parse_nat_def dest: read_digits_length split: option.splits if_splits prod.splits)
qed (use assms in \<open>simp add: parse_nat_def\<close>)

lemma parse_int_length: "parse_int s = Some (i, r) \<Longrightarrow> length r < length s"
  by (fastforce simp: parse_int_def dest: parse_nat_length split: list.splits if_splits)

lemma skip_ws_Cons_length: "skip_ws s = c # r \<Longrightarrow> length r < length s"
  using skip_ws_length[of s] by simp

lemmas consumes = skip_ws_Cons_length strip_prefix_length parse_str_length parse_int_length

lemmas parse_eqs = parse_value.simps parse_array.simps parse_object.simps

text \<open>Every successful parse consumes at least one character; by induction on the
  fuel, so that the hypothesis for the inner calls carries no branch conditions.\<close>

lemma parse_consumes_fuel:
  "(\<forall>s v r. parse_value f s = Some (v, r) \<longrightarrow> length r < length s)
   \<and> (\<forall>acc s vs r. parse_array f acc s = Some (vs, r) \<longrightarrow> length r < length s)
   \<and> (\<forall>acc s kvs r. parse_object f acc s = Some (kvs, r) \<longrightarrow> length r < length s)"
proof (induction f)
  case (Suc f)
  have v: "length r < length s" if "parse_value f s = Some (v, r)" for s v r
    using Suc that by blast
  have a: "length r < length s" if "parse_array f acc s = Some (vs, r)" for acc s vs r
    using Suc that by blast
  have o: "length r < length s" if "parse_object f acc s = Some (kvs, r)" for acc s kvs r
    using Suc that by blast
  have "parse_value (Suc f) s = Some (x, r) \<Longrightarrow> length r < length s" for s x r
    by (subst (asm) parse_value.simps)
      (auto simp del: parse_eqs split: list.splits if_splits option.splits prod.splits dest!: consumes a o)
  moreover have "parse_array (Suc f) acc s = Some (x, r) \<Longrightarrow> length r < length s" for acc s x r
    by (subst (asm) parse_array.simps)
      (auto simp del: parse_eqs split: list.splits if_splits option.splits prod.splits
        dest!: skip_ws_Cons_length v a)
  moreover have "parse_object (Suc f) acc s = Some (x, r) \<Longrightarrow> length r < length s" for acc s x r
    by (subst (asm) parse_object.simps)
      (auto simp del: parse_eqs split: list.splits if_splits option.splits prod.splits
        dest!: skip_ws_Cons_length parse_str_length v o)
  ultimately show ?case by blast
qed simp

lemma parse_consumes:
  "parse_value f s = Some (v, r) \<Longrightarrow> length r < length s"
  "parse_array f acc s = Some (vs, r) \<Longrightarrow> length r < length s"
  "parse_object f acc' s = Some (kvs, r) \<Longrightarrow> length r < length s"
  using parse_consumes_fuel[of f] by blast+

lemma parse_array_cong:
  assumes v: "\<And>t. length t \<le> length s \<Longrightarrow> parse_value f t \<noteq> None \<Longrightarrow> parse_value g t = parse_value f t"
    and a: "\<And>acc t. length t + 2 \<le> length s \<Longrightarrow> parse_array f acc t \<noteq> None \<Longrightarrow> parse_array g acc t = parse_array f acc t"
    and d: "parse_array (Suc f) acc s \<noteq> None"
  shows "parse_array (Suc g) acc s = parse_array (Suc f) acc s"
proof (cases "parse_value f s")
  case (Some p)
  obtain x r where p: "p = (x, r)" by fastforce
  have g: "parse_value g s = Some (x, r)" using v[of s] Some p by simp
  have r: "length r < length s" using Some p parse_consumes(1) by blast
  show ?thesis
  proof (cases "skip_ws r")
    case (Cons c r')
    have "length r' + 2 \<le> length s" using r skip_ws_Cons_length[OF Cons] by simp
    then show ?thesis using Some p g Cons d a[of r' "acc @ [x]"]
      by (auto simp del: parse_eqs simp: parse_array.simps(2) split: if_splits)
  qed (use Some p g in \<open>simp del: parse_eqs add: parse_array.simps(2)\<close>)
qed (use d in \<open>simp del: parse_eqs add: parse_array.simps(2)\<close>)

lemma parse_value_cong:
  assumes a: "\<And>acc t. length t < length s \<Longrightarrow> parse_array f acc t \<noteq> None \<Longrightarrow> parse_array g acc t = parse_array f acc t"
    and o: "\<And>acc t. length t < length s \<Longrightarrow> parse_object f acc t \<noteq> None \<Longrightarrow> parse_object g acc t = parse_object f acc t"
    and d: "parse_value (Suc f) s \<noteq> None"
  shows "parse_value (Suc g) s = parse_value (Suc f) s"
proof (cases "skip_ws s")
  case (Cons c r)
  have r: "length r < length s" using skip_ws_Cons_length[OF Cons] .
  show ?thesis using Cons d a[OF r, of "[]"] o[OF r, of "[]"]
    by (auto simp del: parse_eqs simp: parse_value.simps(2) split: if_splits list.splits)
qed simp

lemma parse_object_cong:
  assumes v: "\<And>t. length t + 3 \<le> length s \<Longrightarrow> parse_value f t \<noteq> None \<Longrightarrow> parse_value g t = parse_value f t"
    and o: "\<And>acc t. length t < length s \<Longrightarrow> parse_object f acc t \<noteq> None \<Longrightarrow> parse_object g acc t = parse_object f acc t"
    and d: "parse_object (Suc f) acc s \<noteq> None"
  shows "parse_object (Suc g) acc s = parse_object (Suc f) acc s"
proof (cases "skip_ws s")
  case s1: (Cons c r)
  show ?thesis
  proof (cases "parse_str [] r")
    case (Some p)
    obtain k r1 where p: "p = (k, r1)" by fastforce
    show ?thesis
    proof (cases "skip_ws r1")
      case s2: (Cons e r2)
      have l: "length r2 + 3 \<le> length s"
        using skip_ws_Cons_length[OF s1] skip_ws_Cons_length[OF s2] parse_str_length[of "[]" r k r1] Some p by simp
      show ?thesis
      proof (cases "parse_value f r2")
        case (Some q)
        obtain x r3 where q: "q = (x, r3)" by fastforce
        have g: "parse_value g r2 = Some (x, r3)" using v[OF l] Some q by simp
        have "length r3 < length s" using parse_consumes(1)[of f r2 x r3] Some q l by simp
        then show ?thesis using s1 Some q g d \<open>parse_str [] r = Some p\<close> p s2
            o[of _ "acc @ [(k, x)]"] skip_ws_Cons_length[of r3]
          by (auto simp del: parse_eqs simp: parse_object.simps(2) split: if_splits list.splits)
      qed (use s1 \<open>parse_str [] r = Some p\<close> p s2 d in \<open>auto simp del: parse_eqs simp: parse_object.simps(2) split: if_splits\<close>)
    qed (use s1 Some p d in \<open>auto simp del: parse_eqs simp: parse_object.simps(2)\<close>)
  qed (use s1 d in \<open>auto simp del: parse_eqs simp: parse_object.simps(2) split: if_splits\<close>)
qed simp

lemma parse_fuel_stable:
  "(\<forall>s g. parse_value f s \<noteq> None \<longrightarrow> (f \<le> g \<or> 2 * length s + 1 \<le> g) \<longrightarrow> parse_value g s = parse_value f s)
   \<and> (\<forall>acc s g. parse_array f acc s \<noteq> None \<longrightarrow> (f \<le> g \<or> 2 * length s + 2 \<le> g) \<longrightarrow> parse_array g acc s = parse_array f acc s)
   \<and> (\<forall>acc s g. parse_object f acc s \<noteq> None \<longrightarrow> (f \<le> g \<or> 2 * length s + 2 \<le> g) \<longrightarrow> parse_object g acc s = parse_object f acc s)"
proof (induction f)
  case (Suc f)
  have v: "parse_value g t = parse_value f t" if "parse_value f t \<noteq> None" "f \<le> g \<or> 2 * length t + 1 \<le> g" for t g
    using Suc that by blast
  have a: "parse_array g acc t = parse_array f acc t" if "parse_array f acc t \<noteq> None" "f \<le> g \<or> 2 * length t + 2 \<le> g" for acc t g
    using Suc that by blast
  have o: "parse_object g acc t = parse_object f acc t" if "parse_object f acc t \<noteq> None" "f \<le> g \<or> 2 * length t + 2 \<le> g" for acc t g
    using Suc that by blast
  have "parse_value g s = parse_value (Suc f) s"
    if d: "parse_value (Suc f) s \<noteq> None" and g: "Suc f \<le> g \<or> 2 * length s + 1 \<le> g" for s g
  proof -
    obtain g' where g': "g = Suc g'" using g by (cases g) auto
    show ?thesis unfolding g' using d g g'
      by (intro parse_value_cong) (auto intro!: a o)
  qed
  moreover have "parse_array g acc s = parse_array (Suc f) acc s"
    if d: "parse_array (Suc f) acc s \<noteq> None" and g: "Suc f \<le> g \<or> 2 * length s + 2 \<le> g" for acc s g
  proof -
    obtain g' where g': "g = Suc g'" using g by (cases g) auto
    show ?thesis unfolding g' using d g g'
      by (intro parse_array_cong) (auto intro!: v a)
  qed
  moreover have "parse_object g acc s = parse_object (Suc f) acc s"
    if d: "parse_object (Suc f) acc s \<noteq> None" and g: "Suc f \<le> g \<or> 2 * length s + 2 \<le> g" for acc s g
  proof -
    obtain g' where g': "g = Suc g'" using g by (cases g) auto
    show ?thesis unfolding g' using d g g'
      by (intro parse_object_cong) (auto intro!: v o)
  qed
  ultimately show ?case by blast
qed simp

lemma json_parse_complete:
  "json_parse s = Some j \<longleftrightarrow> (\<exists>n r. parse_value n s = Some (j, r) \<and> skip_ws r = [])"
proof
  assume J: "json_parse s = Some j"
  show "\<exists>n r. parse_value n s = Some (j, r) \<and> skip_ws r = []"
  proof (cases "parse_value (Suc (2 * length s)) s")
    case (Some p)
    obtain j' r where p: "p = (j', r)" by fastforce
    have "j' = j \<and> skip_ws r = []"
      using J Some p unfolding json_parse_def by (simp del: parse_eqs split: if_splits)
    then show ?thesis using Some p by blast
  qed (use J in \<open>simp del: parse_eqs add: json_parse_def\<close>)
next
  assume "\<exists>n r. parse_value n s = Some (j, r) \<and> skip_ws r = []"
  then obtain n r where p: "parse_value n s = Some (j, r)" and w: "skip_ws r = []" by blast
  have st: "parse_value n s \<noteq> None \<Longrightarrow> n \<le> g \<or> 2 * length s + 1 \<le> g \<Longrightarrow> parse_value g s = parse_value n s"
    for g using conjunct1[OF parse_fuel_stable[of n]] by blast
  have "parse_value (Suc (2 * length s)) s = parse_value n s"
    using st[of "Suc (2 * length s)"] p by simp
  then show "json_parse s = Some j" using p w by (simp add: json_parse_def)
qed

subsection \<open>Adequacy of the fuel\<close>

text \<open>The fuel of \<open>JSON.parse\<close> is never the reason for a failure. Reading a stored
  user (line 63) throws a syntax error exactly when the text parses as no JSON value
  followed by white space, with any amount of fuel: the model's parser, total by its
  fuel, behaves as the unbounded \<open>JSON.parse\<close>.\<close>

theorem restore_user_throws_exactly:
  "restore_user s = Inl UncaughtSyntaxError
   \<longleftrightarrow> \<not> (\<exists>n j r. parse_value n s = Some (j, r) \<and> skip_ws r = [])"
proof -
  have "restore_user s = Inl UncaughtSyntaxError \<longleftrightarrow> json_parse s = None"
    by (auto simp: restore_user_def split: option.splits if_splits)
  moreover have "json_parse s \<noteq> None \<longleftrightarrow> (\<exists>j n r. parse_value n s = Some (j, r) \<and> skip_ws r = [])"
    by (simp only: json_parse_complete[symmetric] not_None_eq)
  ultimately show ?thesis by blast
qed


end
