(* ===== verification/Spec2Isabelle.thy ===== *)
theory Spec2Isabelle
  imports Races Profiles JsonFuel
begin

text \<open>
  A verification model of the client of pr-poehali-dev/pro-portfolio-site, the single
  React component src/src/pages/Index.tsx (684 lines). The component keeps the session
  (current user, stored copy in localStorage), the gallery cache, the favourites of the
  user, the client-side admin gate and the view/dialog state, and talks to four remote
  resources (auth, works, favorites, profile) through fetch.

  Theories, leaf first:
  \<^item> Prelude: JavaScript coercions (truthiness, \<open>|| []\<close>, String(undefined)),
    theorem collections, generic lemmas.
  \<^item> Model: the User and Work interfaces, the union types, the forms, the toasts.
  \<^item> Json: JSON.stringify/JSON.parse (runtime built-ins, modelled from ECMAScript)
    on the subset the stored user needs; the stored user's encoding.
  \<^item> Storage: localStorage (getItem/setItem/removeItem) and the reading of a stored
    user at line 63, with its faults.
  \<^item> Gateway: requests, replies and the continuations of the await sites.
  \<^item> State: the component state record \<open>app\<close> (hooks of lines 42--57 plus storage,
    toasts, console and pending calls), \<open>issue\<close> (fetch), \<open>notify\<close> (toast).
  \<^item> Gallery: loadWorks, handleCreateWork, parseFloat of the price (exact decimal
    value, overflow to \<open>Infinity\<close> sent as \<open>null\<close>).
  \<^item> Favorites: loadFavorites, toggleFavorite.
  \<^item> Admin: handleAdminAccess, leaving the admin mode.
  \<^item> Session: the mount effect, the user effect, handleAuth, handleLogout,
    handleUpdateProfile.
  \<^item> View: the UI events of the JSX, which of them the page offers (\<open>enabled\<close>),
    their dispatch (\<open>handle_event\<close>) and the dispatch of replies (\<open>resume\<close>).
  \<^item> Accounts: the accounts behind the auth and profile resources, modelled from the
    spec since the services are not in the repository: login by user name and
    password, registration of a fresh user name, a profile update that overwrites only
    the fields the request carries, and the store invariant \<open>accounts_ok\<close> (unique ids
    and user names) that every operation keeps.
  \<^item> Server: the remote services as a reply contract (\<open>serves\<close>) over a store of
    works, favourites and accounts, what the client may rely on of a reply
    (\<open>reply_fits\<close>), and one deterministic server of the contract (\<open>honest\<close>) that
    serves the works and favourites and answers auth and profile requests from the
    accounts.
  \<^item> System: the page in its environment, a \<open>world\<close> of the component state, a crash
    flag, the server and the requests a reload orphaned; \<open>sys_step\<close> is every next
    step (a UI event the page offers, a request served or lost, a reply delivered in any
    order, an orphan served, a reload that re-runs the mount effect) and \<open>reachable\<close>
    the worlds of a run from a first page load. Scenarios are \<open>action\<close> lists run by
    \<open>run\<close>, and every run is a sequence of steps.
  \<^item> Invariants: \<open>page_inv\<close> (admin gate and admin dialog only with a user, the gallery
    without one, at most one modal dialog, every pending call paired with its own
    continuation and a reply of the contract) and \<open>session_inv\<close> (with a user and a
    stored token, the stored user reads back as that user); both hold in every reachable
    world, by rule induction over \<open>reachable\<close> with one preservation lemma per
    handler, continuation, delivery and reload.
  \<^item> FavoritesProtocol: the favourites of a user as an abstract set with \<open>flip\<close>, and
    the refinement of the click/serve/deliver protocol onto it (spec P3), with the
    interleaving where it fails.
  \<^item> Quiescence: a weight on continuations (how many follow-up requests each may
    send) that strictly drops when the first pending call is served and delivered, so
    that every page that has not crashed can come to rest.
  \<^item> JsonFuel: every successful parse consumes input, so fuel beyond twice the length
    of the text changes nothing; the fuel of \<open>json_parse\<close> is never the reason for a
    failure of line 63.
  \<^item> Scenarios: concrete runs (sign in, open the admin gate, publish, settle every
    request) that witness the hypotheses of the invariants and the protocol lemmas.
  \<^item> Races: requests that outlive the session that sent them, from every page on
    which one is in flight: a profile reply after logout signs the user in again
    without a token; after a user switch, the favourites of the previous user are shown
    as the new user's, and a late profile reply puts the previous account under the new
    user's token.
  \<^item> Profiles: the page against the server with accounts: a sign-in checks the
    password, a registration creates an account that later sign-ins find, and a
    nickname edit travels through the page and the server and back with every other
    field of the user kept (spec P6 end to end).

  Asynchrony: each async handler is split at its \<open>await fetch\<close> into the part that runs
  when it is called (ending in \<open>issue\<close>, which appends the request and its continuation
  to \<open>pending\<close>) and a continuation run by \<open>receive\<close> when the reply arrives. Values
  the continuation reads from its closure (the user, the favourite flag, the auth mode)
  are stored in the continuation. Replies may arrive in any order. JSON.parse runs with
  fuel \<open>Suc (2 * length s)\<close>, which is enough for every text: a parse that succeeds
  with some fuel succeeds with the same result with this fuel (theory JsonFuel), and in
  particular for every printed value (the size of a value is at most the length of its
  text, lemma \<open>size_le_print\<close>).

  What the groups of lemmas show: each handler on every branch (success, business
  rejection, transport failure, client-side rejection); the JSON and storage round trips
  of the session (spec P1); the invariants of every reachable world (spec P4 for the
  page, the dialog discipline, P1 whenever a token is stored); the refinement of the
  favourites protocol (P3 for settled toggles); that the page can always come to rest;
  the adequacy of the parser's fuel; the orderings the code does not handle (a profile
  reply after logout, two clicks before the first reply, replies of one user applied to
  the next, from every page where they can occur); sign-in and registration against the
  accounts, and spec P6 end to end.

  Not modelled: the rendering itself (markup, styles, icons), the toast hook and the UI
  library beyond which controls exist and that dialogs are modal, the remote services'
  implementation (they are not in the repository; they are modelled from spec section 6
  as a contract and one server of it, which processes each request atomically and does
  not check the session token, which the client never sends); the rounding of a finite
  price to an IEEE double (prices are exact decimals, with the overflow to
  \<open>Infinity\<close>); JSON numbers with a fraction or an exponent and unicode escapes above
  255, which the model's JSON.parse rejects (every text the component writes has
  neither); a stored value at line 63 that parses but is not a user: the code adopts
  it as the user, the model stops with a fault (\<open>UnmodelledUserValue\<close>), since the
  state holds a \<open>user\<close> record; timing (only the order of steps).
\<close>

section \<open>Properties across components\<close>

text \<open>C1: session persistence (spec P1). After a successful authentication reply with a
  user and a non-empty token, reloading the page restores that user from localStorage
  without any authentication request: the mount effect yields the fresh page with the
  user set, the gallery request and the favourites request of the user effect.\<close>

theorem auth_session_survives_reload:
  assumes "r_success b" and "r_user b = Some u" and "r_token b = Some t" and "t \<noteq> []"
  shows "mount (fresh_app (storage (handleAuth_k m (Reply b) s)))
         = Inr (user_effect (loadWorks ((fresh_app (storage (handleAuth_k m (Reply b) s)))\<lparr>user := Some u\<rparr>)))"
  using assms by (simp add: handleAuth_k_def mount_def fresh_app_def Storage.restore_stored_user truthy_def)

theorem auth_session_survives_reload_witness:
  "let u = \<lparr>uid = 7, username = ''ana'', nickname = ''Ana'', avatar_url = None, is_admin = False\<rparr>;
       b = empty_body\<lparr>r_success := True, r_user := Some u, r_token := Some ''t1''\<rparr>;
       st = storage (handleAuth_k Login (Reply b) (fresh_app Map.empty))
   in r_success b \<and> r_user b = Some u \<and> r_token b = Some ''t1'' \<and> ''t1'' \<noteq> []
      \<and> mount (fresh_app st) = Inr (user_effect (loadWorks ((fresh_app st)\<lparr>user := Some u\<rparr>)))"
proof -
  let ?u = "\<lparr>uid = 7, username = ''ana'', nickname = ''Ana'', avatar_url = None, is_admin = False\<rparr>"
  let ?b = "empty_body\<lparr>r_success := True, r_user := Some ?u, r_token := Some ''t1''\<rparr>"
  have h: "r_success ?b" "r_user ?b = Some ?u" "r_token ?b = Some ''t1''" "''t1'' \<noteq> []"
    by (simp_all add: empty_body_def)
  from auth_session_survives_reload[OF h, of Login "fresh_app Map.empty"] h show ?thesis by simp
qed

end
